theory Spec2Isabelle
  imports Complex_Main
begin

section \<open>JavaScript values and primitives\<close>

text \<open>
  The Soluna Dial module is a JavaScript class \<^verbatim>\<open>SolunaDial\<close> that draws a time, calendar,
  weather and day/night dial HUD with PIXI. This theory embeds the parts of the class that
  compute values or change the scene graph.

  A finite JavaScript number is modelled as the \<^typ>\<open>real\<close> it denotes. A product of two
  numbers is rounded to a double, as the language does (\<open>js_mul\<close> below); the sums,
  differences, quotients and remainders of the source are between integers, or are not
  the subject of a statement about exact values. \<^verbatim>\<open>NaN\<close> is a value of its own, because
  \<^verbatim>\<open>typeof NaN\<close> is \<^verbatim>\<open>'number'\<close> and every comparison with it is false. The two
  infinities are not modelled. Strings are ASCII.
\<close>

datatype jsval =
    JNumber real
  | JNaN
  | JString string
  | JBoolean bool
  | JUndefined
  | JNull

text \<open>
  Rounding to a double: 53 significant bits, to the nearest, a tie going to the even
  significand. \<open>dexp x\<close> is the exponent of \<open>x\<close>, \<open>ulp e\<close> the distance between the
  doubles of exponent \<open>e\<close>. \<open>js_mul\<close> is the operator \<^verbatim>\<open>*\<close> on two doubles. The
  exponent is not bounded here: a product of \<open>2 ^ 1024\<close> or more is \<^verbatim>\<open>Infinity\<close> in the
  program and a number in the model, so the sizes are those of the program for scales
  up to \<open>2 ^ 1000\<close> (the largest base size is 400); a product so small that the program
  rounds it as a subnormal number is below one half in both, and \<^verbatim>\<open>Math.round\<close> takes
  it to 0.
\<close>

definition dexp :: "real \<Rightarrow> int" where
  "dexp x = \<lfloor>log 2 \<bar>x\<bar>\<rfloor>"

definition ulp :: "int \<Rightarrow> real" where
  "ulp e = (if 52 \<le> e then 2 ^ nat (e - 52) else 1 / 2 ^ nat (52 - e))"

definition round_half_even :: "real \<Rightarrow> int" where
  "round_half_even q =
     (let f = \<lfloor>q\<rfloor>; d = q - of_int f
      in if d < 1 / 2 then f
         else if 1 / 2 < d then f + 1
         else if even f then f else f + 1)"

definition round_double :: "real \<Rightarrow> real" where
  "round_double x =
     (if x = 0 then 0
      else of_int (round_half_even (x / ulp (dexp x))) * ulp (dexp x))"

definition js_mul :: "real \<Rightarrow> real \<Rightarrow> real" where
  "js_mul a b = round_double (a * b)"

text \<open>\<^verbatim>\<open>Math.round\<close>: the nearest integer, a tie going towards plus infinity.\<close>

definition js_round :: "real \<Rightarrow> int" where
  "js_round x = \<lfloor>x + 1 / 2\<rfloor>"

text \<open>
  The remainder operator \<^verbatim>\<open>%\<close>: the result has the sign of the dividend. It is only
  applied to non-zero constant divisors in the source.
\<close>

definition js_rem :: "real \<Rightarrow> real \<Rightarrow> real" where
  "js_rem x y = sgn x * (\<bar>x\<bar> - \<bar>y\<bar> * of_int \<lfloor>\<bar>x\<bar> / \<bar>y\<bar>\<rfloor>)"

definition js_rem_int :: "int \<Rightarrow> int \<Rightarrow> int" where
  "js_rem_int a b = sgn a * (\<bar>a\<bar> mod \<bar>b\<bar>)"

text \<open>\<^verbatim>\<open>String(n)\<close> for an integer-valued number \<open>n\<close>, and \<^verbatim>\<open>padStart\<close> with a one-character pad.\<close>

definition digit_char :: "nat \<Rightarrow> char" where
  "digit_char d = ''0123456789'' ! d"

fun string_of_nat :: "nat \<Rightarrow> string" where
  "string_of_nat n =
     (if n < 10 then [digit_char n]
      else string_of_nat (n div 10) @ [digit_char (n mod 10)])"

declare string_of_nat.simps [simp del]

definition js_String :: "int \<Rightarrow> string" where
  "js_String i =
     (if i < 0 then CHR ''-'' # string_of_nat (nat (- i)) else string_of_nat (nat i))"

definition padStart :: "nat \<Rightarrow> char \<Rightarrow> string \<Rightarrow> string" where
  "padStart n c s = replicate (n - length s) c @ s"

text \<open>\<^verbatim>\<open>toUpperCase\<close>, \<^verbatim>\<open>toLowerCase\<close> and \<^verbatim>\<open>trim\<close> on ASCII strings.\<close>

definition lower_letters :: string where
  "lower_letters = ''abcdefghijklmnopqrstuvwxyz''"

definition upper_letters :: string where
  "upper_letters = ''ABCDEFGHIJKLMNOPQRSTUVWXYZ''"

definition upper_char :: "char \<Rightarrow> char" where
  "upper_char c =
     (case map_of (zip lower_letters upper_letters) c of None \<Rightarrow> c | Some u \<Rightarrow> u)"

definition lower_char :: "char \<Rightarrow> char" where
  "lower_char c =
     (case map_of (zip upper_letters lower_letters) c of None \<Rightarrow> c | Some l \<Rightarrow> l)"

definition toUpperCase :: "string \<Rightarrow> string" where
  "toUpperCase s = map upper_char s"

definition toLowerCase :: "string \<Rightarrow> string" where
  "toLowerCase s = map lower_char s"

definition is_space :: "char \<Rightarrow> bool" where
  "is_space c = (c \<in> set [CHR '' '', CHR 0x09, CHR 0x0A, CHR 0x0B, CHR 0x0C, CHR 0x0D])"

definition trim :: "string \<Rightarrow> string" where
  "trim s = rev (dropWhile is_space (rev (dropWhile is_space s)))"

text \<open>\<^verbatim>\<open>s.replace(/,\s*$/, "")\<close>: a final comma, with the white space after it, is removed.\<close>

definition strip_final_comma :: "string \<Rightarrow> string" where
  "strip_final_comma s =
     (case dropWhile is_space (rev s) of
        [] \<Rightarrow> s
      | c # r \<Rightarrow> if c = CHR '','' then rev r else s)"


section \<open>The scene graph\<close>

text \<open>
  Of a PIXI display object the model keeps what the class reads or writes and a claim
  can observe: the text and style of a \<^verbatim>\<open>PIXI.Text\<close>, \<^verbatim>\<open>alpha\<close>, \<^verbatim>\<open>visible\<close>,
  \<^verbatim>\<open>rotation\<close>, and the fill alpha of a \<^verbatim>\<open>PIXI.Graphics\<close>. Positions, anchors and
  path commands are left out. The field \<open>textValue\<close> is the property \<^verbatim>\<open>text\<close>.
\<close>

record displayObject =
  textValue :: string
  fontFamily :: string
  fontSize :: int
  alpha :: real
  visible :: bool
  rotation :: real
  fillAlpha :: real

definition newObject :: displayObject where
  "newObject =
     \<lparr>textValue = [], fontFamily = [], fontSize = 0, alpha = 1, visible = True,
      rotation = 0, fillAlpha = 0\<rparr>"

definition newText :: "string \<Rightarrow> string \<Rightarrow> int \<Rightarrow> real \<Rightarrow> displayObject" where
  "newText t family sz a =
     newObject\<lparr>textValue := t, fontFamily := family, fontSize := sz, alpha := a\<rparr>"

text \<open>
  The children of the main container are named by the field of the class that holds
  them. A redraw that destroys an object and creates a new one for the same field
  removes the old child before it adds the new one, so a name stands for the object
  the field holds at that moment. The list is in rendering order: the last child is
  drawn on top.
\<close>

datatype node =
    TimeBarGraphic
  | MainHudAreaGraphic
  | RadialDialBackground
  | DialMarker
  | TimeCalendarContainer
  | RewindHourButton
  | RewindDayButton
  | AdvanceHourButton
  | AdvanceDayButton
  | DialGradientContainer
  | WeatherText
  | DialInteractiveArea

text \<open>
  A button field holds the \<^verbatim>\<open>PIXI.Text\<close> last created for it. \<^verbatim>\<open>_drawTimeAdvanceControls\<close>
  destroys the object and leaves it in the field, so the object in a field is live or
  destroyed. \<^verbatim>\<open>destroy()\<close> on a destroyed \<^verbatim>\<open>PIXI.Text\<close> throws a \<^verbatim>\<open>TypeError\<close> (its
  texture is gone).
\<close>

datatype button =
    Live displayObject
  | Destroyed displayObject

datatype error =
    ReferenceError
  | TypeError
  | PixiError

text \<open>
  The working dimensions are fields of the instance in the source; they are grouped
  here. Those that \<^verbatim>\<open>Math.round\<close> produces are integers.
\<close>

record dimensions =
  HUD_WIDTH :: int
  primaryFontSize :: int
  calendarFontSize :: int
  iconFontSize :: int
  TIME_BAR_TEXT_TOP_PADDING :: int
  TIME_BAR_TEXT_BOTTOM_PADDING :: int
  TIME_BAR_HEIGHT :: int
  MAIN_HUD_AREA_HEIGHT :: int
  TOTAL_HUD_HEIGHT :: int
  CORNER_RADIUS :: int
  PADDING :: int
  BUTTON_PADDING :: int
  DIAL_CENTER_X :: real
  MAIN_HUD_AREA_Y_OFFSET :: int
  DIAL_RADIUS :: real
  DIAL_ARC_CENTER_Y :: int
  MARKER_SIZE :: int
  weatherTextPaddingTop :: int

record message =
  msgType :: string
  msgWeather :: string
  msgUserId :: string

text \<open>
  The instance. Field names are the source's without the leading underscore.
  \<open>pixiApp\<close> holds the renderer's size, \<open>mainContainer\<close> the children of the main
  container. \<open>warnings\<close> collects the \<^verbatim>\<open>console.warn\<close> calls (the fixed part of each
  message); \<^verbatim>\<open>console.log\<close> progress lines are not recorded. \<open>notifications\<close>,
  \<open>persisted\<close> and \<open>emitted\<close> collect the calls to \<^verbatim>\<open>ui.notifications.info\<close>,
  \<^verbatim>\<open>game.settings.set\<close> for the weather, and \<^verbatim>\<open>game.socket.emit\<close>.
\<close>

record dial =
  globalUiScale :: real
  dims :: dimensions
  pixiApp :: "(int \<times> int) option"
  mainContainer :: "node list option"
  timeCalendarContainer :: bool
  timeText :: "displayObject option"
  timeCalendarSeparator :: "displayObject option"
  calendarText :: "displayObject option"
  timeBarGraphic :: "displayObject option"
  mainHudAreaGraphic :: "displayObject option"
  radialDialBackground :: "displayObject option"
  dialMarker :: "displayObject option"
  weatherText :: "displayObject option"
  rewindHourButton :: "button option"
  rewindDayButton :: "button option"
  advanceHourButton :: "button option"
  advanceDayButton :: "button option"
  dialGradientSprite :: "displayObject option"
  dialGradientContainer :: bool
  dialInteractiveArea :: bool
  currentWeather :: string
  topBarOpacity :: real
  dialImageOpacity :: real
  dialMarkerOpacity :: real
  globalFontOpacity :: real
  globalFontFamily :: string
  displaySeconds :: bool
  warnings :: "string list"
  notifications :: "string list"
  persisted :: "string list"
  emitted :: "message list"

text \<open>
  The calendar collaborator, as \<^verbatim>\<open>updateCalendarDisplay\<close> sees it: whether the module
  \<^verbatim>\<open>foundryvtt-simple-calendar\<close> is active, whether the global \<^verbatim>\<open>SimpleCalendar\<close> is
  declared and has an \<^verbatim>\<open>api\<close>, and what \<^verbatim>\<open>api.currentDateTimeDisplay()\<close> does. A
  property of the returned object that is missing is \<open>None\<close>.
\<close>

record dateTimeDisplay =
  date :: "string option"
  day :: "string option"
  monthName :: "string option"
  year :: "string option"
  yearPrefix :: "string option"
  yearPostfix :: "string option"

datatype apiResult =
    ApiThrows
  | ApiReturnsNothing
  | ApiReturns dateTimeDisplay

datatype scGlobal =
    Undeclared
  | DeclaredWithoutApi
  | DeclaredWithApi apiResult

text \<open>What the instance reads from the host (Foundry VTT and PIXI).\<close>

record host =
  worldTime :: real
  isGM :: bool
  userId :: string
  gameReady :: bool
  customDialImageAngleOffset :: real
  savedWeather :: string
  textureOk :: bool
  scActive :: bool
  simpleCalendar :: scGlobal

text \<open>
  A method either returns or throws; either way the mutations it made stay. So an
  outcome carries the instance in both cases.
\<close>

datatype outcome =
    Returned dial
  | Threw error dial

fun final :: "outcome \<Rightarrow> dial" where
  "final (Returned s) = s"
| "final (Threw e s) = s"

fun returned :: "outcome \<Rightarrow> bool" where
  "returned (Returned s) = True"
| "returned (Threw e s) = False"

fun andThen :: "outcome \<Rightarrow> (dial \<Rightarrow> outcome) \<Rightarrow> outcome" where
  "andThen (Returned s) f = f s"
| "andThen (Threw e s) f = Threw e s"

text \<open>
  \<^verbatim>\<open>Container.addChild\<close> takes the child out of its parent, when it has one, and
  appends it; \<^verbatim>\<open>destroy\<close> takes the object out of its parent;
  \<^verbatim>\<open>Container.setChildIndex\<close> throws when the index is out of bounds or the object is
  not a child, and otherwise moves the child to the index.
\<close>

definition addChild :: "node \<Rightarrow> dial \<Rightarrow> dial" where
  "addChild c s = s\<lparr>mainContainer := map_option (\<lambda>cs. remove1 c cs @ [c]) (mainContainer s)\<rparr>"

definition destroyChild :: "node \<Rightarrow> dial \<Rightarrow> dial" where
  "destroyChild c s = s\<lparr>mainContainer := map_option (remove1 c) (mainContainer s)\<rparr>"

definition setChildIndex :: "node \<Rightarrow> int \<Rightarrow> node list \<Rightarrow> error + node list" where
  "setChildIndex c i cs =
     (if i < 0 \<or> int (length cs) \<le> i then Inl PixiError
      else if c \<notin> set cs then Inl PixiError
      else Inr (take (nat i) (remove1 c cs) @ [c] @ drop (nat i) (remove1 c cs)))"


section \<open>Scaled dimensions\<close>

definition BASE_HUD_WIDTH :: real where "BASE_HUD_WIDTH = 400"
definition BASE_PRIMARY_FONT_SIZE :: real where "BASE_PRIMARY_FONT_SIZE = 18"
definition BASE_ICON_FONT_SIZE :: real where "BASE_ICON_FONT_SIZE = 18"
definition BASE_TIME_BAR_TEXT_TOP_PADDING :: real where "BASE_TIME_BAR_TEXT_TOP_PADDING = 7"
definition BASE_TIME_BAR_TEXT_BOTTOM_PADDING :: real where "BASE_TIME_BAR_TEXT_BOTTOM_PADDING = 7"
definition BASE_MAIN_HUD_AREA_HEIGHT :: real where "BASE_MAIN_HUD_AREA_HEIGHT = 150"
definition BASE_CORNER_RADIUS :: real where "BASE_CORNER_RADIUS = 15"
definition BASE_PADDING :: real where "BASE_PADDING = 10"
definition BASE_BUTTON_PADDING :: real where "BASE_BUTTON_PADDING = 5"
definition BASE_MARKER_SIZE :: real where "BASE_MARKER_SIZE = 10"
definition BASE_WEATHER_TEXT_PADDING_TOP :: real where "BASE_WEATHER_TEXT_PADDING_TOP = 5"


text \<open>
  The body of \<^verbatim>\<open>_calculateScaledDimensions\<close>, as a function of the scale. The literal
  \<^verbatim>\<open>0.8\<close> is the double nearest to 0.8.
\<close>

definition scaledDimensions :: "real \<Rightarrow> dimensions" where
  "scaledDimensions scale =
     (let hudWidth = js_round (js_mul BASE_HUD_WIDTH scale);
          primary = max 8 (js_round (js_mul BASE_PRIMARY_FONT_SIZE scale));
          icon = max 10 (js_round (js_mul BASE_ICON_FONT_SIZE scale));
          topPadding = js_round (js_mul BASE_TIME_BAR_TEXT_TOP_PADDING scale);
          bottomPadding = js_round (js_mul BASE_TIME_BAR_TEXT_BOTTOM_PADDING scale);
          timeBarHeight = topPadding + primary + bottomPadding;
          mainHeight = js_round (js_mul BASE_MAIN_HUD_AREA_HEIGHT scale);
          padding = js_round (js_mul BASE_PADDING scale)
      in \<lparr>HUD_WIDTH = hudWidth,
          primaryFontSize = primary,
          calendarFontSize = primary,
          iconFontSize = icon,
          TIME_BAR_TEXT_TOP_PADDING = topPadding,
          TIME_BAR_TEXT_BOTTOM_PADDING = bottomPadding,
          TIME_BAR_HEIGHT = timeBarHeight,
          MAIN_HUD_AREA_HEIGHT = mainHeight,
          TOTAL_HUD_HEIGHT = timeBarHeight + mainHeight,
          CORNER_RADIUS = js_round (js_mul BASE_CORNER_RADIUS scale),
          PADDING = padding,
          BUTTON_PADDING = js_round (js_mul BASE_BUTTON_PADDING scale),
          DIAL_CENTER_X = of_int hudWidth / 2,
          MAIN_HUD_AREA_Y_OFFSET = timeBarHeight,
          DIAL_RADIUS = js_mul (of_int (mainHeight - padding)) (round_double 0.8),
          DIAL_ARC_CENTER_Y = timeBarHeight,
          MARKER_SIZE = max 5 (js_round (js_mul BASE_MARKER_SIZE scale)),
          weatherTextPaddingTop = js_round (js_mul BASE_WEATHER_TEXT_PADDING_TOP scale)\<rparr>)"

definition calculateScaledDimensions :: "dial \<Rightarrow> dial" where
  "calculateScaledDimensions s = s\<lparr>dims := scaledDimensions (globalUiScale s)\<rparr>"


section \<open>Drawing\<close>

text \<open>\<^verbatim>\<open>_ensureWeatherTextOnTop\<close>\<close>

definition ensureWeatherTextOnTop :: "dial \<Rightarrow> outcome" where
  "ensureWeatherTextOnTop s =
     (case weatherText s of
        None \<Rightarrow> Returned s
      | Some w \<Rightarrow>
          (case mainContainer s of
             None \<Rightarrow> Returned s
           | Some cs \<Rightarrow>
               (case setChildIndex WeatherText (int (length cs) - 1) cs of
                  Inl e \<Rightarrow> Threw e s
                | Inr cs' \<Rightarrow>
                    Returned (s\<lparr>mainContainer := Some cs',
                                weatherText := Some (w\<lparr>visible := True, alpha := globalFontOpacity s\<rparr>)\<rparr>))))"

text \<open>\<^verbatim>\<open>_initPIXIApp\<close>\<close>

definition initPIXIApp :: "dial \<Rightarrow> dial" where
  "initPIXIApp s =
     (if pixiApp s \<noteq> None
      then s\<lparr>pixiApp := Some (HUD_WIDTH (dims s), TOTAL_HUD_HEIGHT (dims s))\<rparr>
      else s\<lparr>pixiApp := Some (HUD_WIDTH (dims s), TOTAL_HUD_HEIGHT (dims s)),
              mainContainer := Some []\<rparr>)"

text \<open>\<^verbatim>\<open>_drawTimeBar\<close>: the bar is cleared or created, then filled with the top bar opacity.\<close>

definition drawTimeBar :: "dial \<Rightarrow> dial" where
  "drawTimeBar s =
     (if mainContainer s = None then s
      else
        let s1 = (if timeBarGraphic s \<noteq> None then s
                  else addChild TimeBarGraphic (s\<lparr>timeBarGraphic := Some newObject\<rparr>))
        in s1\<lparr>timeBarGraphic :=
                map_option (\<lambda>g. g\<lparr>fillAlpha := topBarOpacity s1\<rparr>) (timeBarGraphic s1)\<rparr>)"

text \<open>\<^verbatim>\<open>_drawMainHudArea\<close>\<close>

definition drawMainHudArea :: "dial \<Rightarrow> dial" where
  "drawMainHudArea s =
     (if mainContainer s = None then s
      else if mainHudAreaGraphic s \<noteq> None
      then s\<lparr>mainHudAreaGraphic := map_option (\<lambda>g. g\<lparr>fillAlpha := 0\<rparr>) (mainHudAreaGraphic s)\<rparr>
      else addChild MainHudAreaGraphic (s\<lparr>mainHudAreaGraphic := Some newObject\<rparr>))"

text \<open>\<^verbatim>\<open>_drawRadialDialBackground\<close>: the arc is added again on every call.\<close>

definition drawRadialDialBackground :: "dial \<Rightarrow> dial" where
  "drawRadialDialBackground s =
     (if mainContainer s = None then s
      else
        let s1 = (if radialDialBackground s \<noteq> None
                  then s\<lparr>radialDialBackground :=
                          map_option (\<lambda>g. g\<lparr>fillAlpha := 0\<rparr>) (radialDialBackground s)\<rparr>
                  else s\<lparr>radialDialBackground := Some newObject\<rparr>)
        in addChild RadialDialBackground s1)"

text \<open>\<^verbatim>\<open>_drawDialMarker\<close>: the marker is added again on every call.\<close>

definition drawDialMarker :: "dial \<Rightarrow> dial" where
  "drawDialMarker s =
     (if mainContainer s = None then s
      else
        let s1 = (if dialMarker s \<noteq> None then s else s\<lparr>dialMarker := Some newObject\<rparr>);
            s2 = s1\<lparr>dialMarker :=
                      map_option (\<lambda>g. g\<lparr>fillAlpha := dialMarkerOpacity s1\<rparr>) (dialMarker s1)\<rparr>
        in addChild DialMarker s2)"

text \<open>\<^verbatim>\<open>_drawTimeAndCalendarGroup\<close>: the three texts are children of the group's container.\<close>

definition drawTimeAndCalendarGroup :: "dial \<Rightarrow> dial" where
  "drawTimeAndCalendarGroup s =
     (if mainContainer s = None then s
      else
        let s1 = (if timeCalendarContainer s
                  then destroyChild TimeCalendarContainer
                         (s\<lparr>timeCalendarContainer := False, timeText := None,
                            timeCalendarSeparator := None, calendarText := None\<rparr>)
                  else s);
            s2 = addChild TimeCalendarContainer (s1\<lparr>timeCalendarContainer := True\<rparr>)
        in s2\<lparr>timeText :=
                Some (newText ''HH:MM'' (globalFontFamily s2) (primaryFontSize (dims s2))
                        (globalFontOpacity s2)),
              timeCalendarSeparator :=
                Some (newText '' - '' (globalFontFamily s2) (primaryFontSize (dims s2))
                        (globalFontOpacity s2)),
              calendarText :=
                Some (newText ''Calendar Loading...'' (globalFontFamily s2)
                        (calendarFontSize (dims s2)) (globalFontOpacity s2))\<rparr>)"

text \<open>
  \<^verbatim>\<open>_drawTimeAdvanceControls\<close>: the buttons in the fields are destroyed, one after the
  other, and stay in the fields; new ones are created for a GM only. So for a user who
  is not a GM the fields keep destroyed buttons, and the next call throws at the first
  of them. The icons are Font Awesome glyphs, named here by their code points.
\<close>

definition destroyButton :: "button option \<Rightarrow> error + button option" where
  "destroyButton b =
     (case b of
        None \<Rightarrow> Inr None
      | Some (Live t) \<Rightarrow> Inr (Some (Destroyed t))
      | Some (Destroyed t) \<Rightarrow> Inl TypeError)"

definition destroyRewindHourButton :: "dial \<Rightarrow> outcome" where
  "destroyRewindHourButton s =
     (case destroyButton (rewindHourButton s) of
        Inl e \<Rightarrow> Threw e s
      | Inr b \<Rightarrow> Returned (if b = None then s
                            else destroyChild RewindHourButton (s\<lparr>rewindHourButton := b\<rparr>)))"

definition destroyRewindDayButton :: "dial \<Rightarrow> outcome" where
  "destroyRewindDayButton s =
     (case destroyButton (rewindDayButton s) of
        Inl e \<Rightarrow> Threw e s
      | Inr b \<Rightarrow> Returned (if b = None then s
                            else destroyChild RewindDayButton (s\<lparr>rewindDayButton := b\<rparr>)))"

definition destroyAdvanceHourButton :: "dial \<Rightarrow> outcome" where
  "destroyAdvanceHourButton s =
     (case destroyButton (advanceHourButton s) of
        Inl e \<Rightarrow> Threw e s
      | Inr b \<Rightarrow> Returned (if b = None then s
                            else destroyChild AdvanceHourButton (s\<lparr>advanceHourButton := b\<rparr>)))"

definition destroyAdvanceDayButton :: "dial \<Rightarrow> outcome" where
  "destroyAdvanceDayButton s =
     (case destroyButton (advanceDayButton s) of
        Inl e \<Rightarrow> Threw e s
      | Inr b \<Rightarrow> Returned (if b = None then s
                            else destroyChild AdvanceDayButton (s\<lparr>advanceDayButton := b\<rparr>)))"

definition createButton :: "string \<Rightarrow> dial \<Rightarrow> button" where
  "createButton iconChar s =
     Live (newText iconChar ''Font Awesome 5 Free'' (iconFontSize (dims s)) (globalFontOpacity s))"

definition createButtons :: "dial \<Rightarrow> dial" where
  "createButtons s =
     (let s1 = addChild RewindHourButton
                 (s\<lparr>rewindHourButton := Some (createButton ''uf04b'' s)\<rparr>);
          s2 = addChild RewindDayButton
                 (s1\<lparr>rewindDayButton := Some (createButton ''uf049'' s1)\<rparr>);
          s3 = addChild AdvanceHourButton
                 (s2\<lparr>advanceHourButton := Some (createButton ''uf04b'' s2)\<rparr>)
      in addChild AdvanceDayButton
           (s3\<lparr>advanceDayButton := Some (createButton ''uf050'' s3)\<rparr>))"

definition drawTimeAdvanceControls :: "host \<Rightarrow> dial \<Rightarrow> outcome" where
  "drawTimeAdvanceControls h s =
     (if mainContainer s = None then Returned s
      else
        andThen (destroyRewindHourButton s)
          (\<lambda>s1. andThen (destroyRewindDayButton s1)
             (\<lambda>s2. andThen (destroyAdvanceHourButton s2)
                (\<lambda>s3. andThen (destroyAdvanceDayButton s3)
                   (\<lambda>s4. Returned (if \<not> isGM h then s4 else createButtons s4))))))"

text \<open>\<^verbatim>\<open>_createDialInteractiveArea\<close>\<close>

definition createDialInteractiveArea :: "host \<Rightarrow> dial \<Rightarrow> dial" where
  "createDialInteractiveArea h s =
     (if mainContainer s = None \<or> \<not> isGM h then s
      else
        let s1 = (if dialInteractiveArea s then destroyChild DialInteractiveArea s else s)
        in addChild DialInteractiveArea (s1\<lparr>dialInteractiveArea := True\<rparr>))"

text \<open>
  \<^verbatim>\<open>_createDialGradientAndMask\<close>: \<open>textureOk\<close> says that \<^verbatim>\<open>PIXI.Texture.from\<close> returned a
  texture that is not the empty one; when it did not, or threw, only the interactive
  area is created. The sprite, its mask and their container live and die together.
\<close>

definition createDialGradientAndMask :: "host \<Rightarrow> dial \<Rightarrow> dial" where
  "createDialGradientAndMask h s =
     (if mainContainer s = None \<or> DIAL_RADIUS (dims s) \<le> 0 then s
      else
        let s1 = (if dialGradientContainer s
                  then destroyChild DialGradientContainer
                         (s\<lparr>dialGradientContainer := False, dialGradientSprite := None\<rparr>)
                  else s)
        in if \<not> textureOk h then createDialInteractiveArea h s1
           else addChild DialGradientContainer
                  (s1\<lparr>dialGradientSprite := Some (newObject\<lparr>alpha := dialImageOpacity s1\<rparr>),
                      dialGradientContainer := True\<rparr>))"

text \<open>\<^verbatim>\<open>_drawWeatherText\<close>: the new text shows the stored label as it is.\<close>

definition drawWeatherText :: "dial \<Rightarrow> outcome" where
  "drawWeatherText s =
     (if mainContainer s = None then Returned s
      else
        let s1 = (if weatherText s \<noteq> None then destroyChild WeatherText s else s);
            s2 = addChild WeatherText
                   (s1\<lparr>weatherText :=
                         Some (newText (currentWeather s1) (globalFontFamily s1)
                                 (primaryFontSize (dims s1)) (globalFontOpacity s1))\<rparr>)
        in ensureWeatherTextOnTop s2)"

text \<open>
  \<^verbatim>\<open>_redrawAllElements\<close>. The call of \<^verbatim>\<open>_ensureWeatherTextOnTop\<close> that it defers by 50 ms
  is an event of its own, \<open>ensureWeatherTextOnTop\<close> again.
\<close>

definition redrawAllElements :: "host \<Rightarrow> dial \<Rightarrow> outcome" where
  "redrawAllElements h s =
     (let s0 = (if dialInteractiveArea s
                then destroyChild DialInteractiveArea (s\<lparr>dialInteractiveArea := False\<rparr>)
                else s);
          s1 = drawTimeBar s0;
          s2 = drawMainHudArea s1;
          s3 = drawRadialDialBackground s2;
          s4 = drawDialMarker s3;
          s5 = drawTimeAndCalendarGroup s4
      in andThen (drawTimeAdvanceControls h s5)
           (\<lambda>s6. andThen (drawWeatherText (createDialGradientAndMask h s6))
              (\<lambda>s8. ensureWeatherTextOnTop (createDialInteractiveArea h s8))))"


section \<open>Time, calendar, weather and dial rotation\<close>

text \<open>The rotation that \<^verbatim>\<open>_updateDialRotation\<close> computes from the world time and the setting.\<close>

definition dialRotation :: "real \<Rightarrow> real \<Rightarrow> real" where
  "dialRotation time setting =
     (let currentHour = js_rem (time / 3600) 24;
          baseRotation = currentHour / 24 * pi * 2;
          angleOffsetDegrees = (if setting = 0 then 90 else setting);
          offsetRotation = angleOffsetDegrees * pi / 180
      in baseRotation + offsetRotation)"

definition updateDialRotation :: "host \<Rightarrow> dial \<Rightarrow> dial" where
  "updateDialRotation h s =
     (case dialGradientSprite s of
        None \<Rightarrow> s
      | Some sprite \<Rightarrow>
          s\<lparr>dialGradientSprite :=
              Some (sprite\<lparr>rotation :=
                      dialRotation (worldTime h) (customDialImageAngleOffset h)\<rparr>)\<rparr>)"

text \<open>The three numbers and the string that \<^verbatim>\<open>updateTimeDisplay\<close> computes.\<close>

definition hoursOf :: "real \<Rightarrow> int" where
  "hoursOf time = js_rem_int \<lfloor>time / 3600\<rfloor> 24"

definition minutesOf :: "real \<Rightarrow> int" where
  "minutesOf time = \<lfloor>js_rem time 3600 / 60\<rfloor>"

definition secondsOf :: "real \<Rightarrow> int" where
  "secondsOf time = \<lfloor>js_rem time 60\<rfloor>"

definition timeString :: "real \<Rightarrow> bool \<Rightarrow> string" where
  "timeString time withSeconds =
     (let hm = padStart 2 CHR ''0'' (js_String (hoursOf time)) @ '':'' @
               padStart 2 CHR ''0'' (js_String (minutesOf time))
      in if withSeconds
         then hm @ '':'' @ padStart 2 CHR ''0'' (js_String (secondsOf time))
         else hm)"

definition updateTimeDisplay :: "host \<Rightarrow> dial \<Rightarrow> dial" where
  "updateTimeDisplay h s =
     (case timeText s of
        None \<Rightarrow> s
      | Some t \<Rightarrow>
          s\<lparr>timeText := Some (t\<lparr>textValue := timeString (worldTime h) (displaySeconds s)\<rparr>)\<rparr>)"

text \<open>
  \<^verbatim>\<open>updateCalendarDisplay\<close>. A string is truthy when it is there and not empty. The
  condition \<^verbatim>\<open>SimpleCalendar?.api\<close> stands before the \<^verbatim>\<open>try\<close>: it throws a
  \<^verbatim>\<open>ReferenceError\<close> when the module is active and the global is not declared.
\<close>

definition truthy :: "string option \<Rightarrow> bool" where
  "truthy v = (case v of None \<Rightarrow> False | Some x \<Rightarrow> x \<noteq> [])"

definition orEmpty :: "string option \<Rightarrow> string" where
  "orEmpty v = (case v of None \<Rightarrow> [] | Some x \<Rightarrow> x)"

definition displayDate :: "dateTimeDisplay \<Rightarrow> string" where
  "displayDate d =
     (if truthy (day d) \<and> truthy (monthName d) \<and> truthy (year d)
      then strip_final_comma
             (trim (orEmpty (day d) @ '' '' @ orEmpty (monthName d) @ '', '' @
                    orEmpty (yearPrefix d) @ orEmpty (year d) @ orEmpty (yearPostfix d)))
      else if \<not> truthy (date d) then ''SC: No date''
      else orEmpty (date d))"

definition calendarString :: "apiResult \<Rightarrow> string" where
  "calendarString r =
     (case r of
        ApiThrows \<Rightarrow> ''SC: API Err''
      | ApiReturnsNothing \<Rightarrow> ''SC: No object''
      | ApiReturns d \<Rightarrow> displayDate d)"

definition setCalendarText :: "string \<Rightarrow> dial \<Rightarrow> dial" where
  "setCalendarText t s =
     s\<lparr>calendarText := map_option (\<lambda>c. c\<lparr>textValue := t\<rparr>) (calendarText s)\<rparr>"

definition updateCalendarDisplay :: "host \<Rightarrow> dial \<Rightarrow> outcome" where
  "updateCalendarDisplay h s =
     (if calendarText s = None then Returned s
      else if scActive h
      then (case simpleCalendar h of
              Undeclared \<Rightarrow> Threw ReferenceError s
            | DeclaredWithoutApi \<Rightarrow> Returned (setCalendarText ''SC not active'' s)
            | DeclaredWithApi r \<Rightarrow> Returned (setCalendarText (calendarString r) s))
      else Returned (setCalendarText ''SC not active'' s))"

text \<open>\<^verbatim>\<open>updateWeatherDisplay\<close>\<close>

definition updateWeatherDisplay :: "jsval \<Rightarrow> dial \<Rightarrow> outcome" where
  "updateWeatherDisplay newStatus s =
     (if weatherText s = None then Returned s
      else
        let s1 = (case newStatus of JString w \<Rightarrow> s\<lparr>currentWeather := w\<rparr> | _ \<Rightarrow> s)
        in ensureWeatherTextOnTop
             (s1\<lparr>weatherText :=
                   map_option (\<lambda>t. t\<lparr>textValue := toUpperCase (currentWeather s1)\<rparr>)
                     (weatherText s1)\<rparr>))"

text \<open>\<^verbatim>\<open>_loadWeatherFromFlag\<close>\<close>

definition loadWeatherFromFlag :: "host \<Rightarrow> dial \<Rightarrow> outcome" where
  "loadWeatherFromFlag h s =
     (let s1 = (if savedWeather h \<noteq> [] then s\<lparr>currentWeather := savedWeather h\<rparr> else s)
      in andThen (updateWeatherDisplay (JString (currentWeather s1)) s1)
           ensureWeatherTextOnTop)"

text \<open>The handler of \<^verbatim>\<open>game.socket.on\<close> that the constructor registers.\<close>

definition socketHandler :: "host \<Rightarrow> message \<Rightarrow> dial \<Rightarrow> outcome" where
  "socketHandler h data s =
     (if msgType data = ''weather-update'' \<and> msgUserId data \<noteq> userId h
      then andThen (updateWeatherDisplay (JString (msgWeather data))
                      (s\<lparr>currentWeather := msgWeather data\<rparr>))
             ensureWeatherTextOnTop
      else Returned s)"

text \<open>
  \<^verbatim>\<open>_showWeatherChangeDialog\<close>. The dialog reads the stored label once, when it opens:
  \<open>opened\<close>. An option of the quick selection is marked as selected by
  \<open>optionSelected\<close>; the callback of the update button is \<open>weatherDialogUpdate\<close>, with
  the two values of the form. \<open>newLabel\<close> is its \<^verbatim>\<open>customInput || selectValue\<close>.
\<close>

definition weatherOptions :: "string list" where
  "weatherOptions =
     [''Clear'', ''Cloudy'', ''Overcast'', ''Rainy'', ''Stormy'', ''Foggy'',
      ''Snowy'', ''Windy'', ''Hot'', ''Cold'', ''Humid'', ''Dry'']"

definition optionSelected :: "string \<Rightarrow> string \<Rightarrow> bool" where
  "optionSelected weather opened = (toLowerCase weather = toLowerCase opened)"

definition newLabel :: "string \<Rightarrow> string \<Rightarrow> string" where
  "newLabel customValue selectValue =
     (let customInput = trim customValue
      in if customInput \<noteq> [] then customInput else selectValue)"

definition weatherDialogUpdate :: "host \<Rightarrow> string \<Rightarrow> string \<Rightarrow> string \<Rightarrow> dial \<Rightarrow> outcome" where
  "weatherDialogUpdate h opened customValue selectValue s =
     (let newWeather = newLabel customValue selectValue
      in if newWeather \<noteq> [] \<and> newWeather \<noteq> opened
         then andThen (updateWeatherDisplay (JString newWeather) (s\<lparr>currentWeather := newWeather\<rparr>))
                (\<lambda>s1. Returned
                   (s1\<lparr>notifications := notifications s1 @ [''Weather changed to: '' @ newWeather],
                       persisted := persisted s1 @ [newWeather],
                       emitted := emitted s1 @
                         [\<lparr>msgType = ''weather-update'', msgWeather = newWeather,
                           msgUserId = userId h\<rparr>]\<rparr>))
         else Returned s)"


section \<open>Setters\<close>

text \<open>\<^verbatim>\<open>setTopBarOpacity\<close>\<close>

definition setTopBarOpacity :: "jsval \<Rightarrow> dial \<Rightarrow> dial" where
  "setTopBarOpacity v s =
     (case v of
        JNumber a \<Rightarrow> if 0 \<le> a \<and> a \<le> 1 then drawTimeBar (s\<lparr>topBarOpacity := a\<rparr>) else s
      | _ \<Rightarrow> s)"

text \<open>\<^verbatim>\<open>setDialImageOpacity\<close>\<close>

definition warn :: "string \<Rightarrow> dial \<Rightarrow> dial" where
  "warn m s = s\<lparr>warnings := warnings s @ [m]\<rparr>"

definition setDialImageOpacity :: "jsval \<Rightarrow> dial \<Rightarrow> dial" where
  "setDialImageOpacity v s =
     (case v of
        JNumber a \<Rightarrow>
          if 0 \<le> a \<and> a \<le> 1
          then s\<lparr>dialImageOpacity := a,
                 dialGradientSprite := map_option (\<lambda>g. g\<lparr>alpha := a\<rparr>) (dialGradientSprite s)\<rparr>
          else warn ''Invalid Dial Image Opacity value'' s
      | _ \<Rightarrow> warn ''Invalid Dial Image Opacity value'' s)"

text \<open>\<^verbatim>\<open>setDialMarkerOpacity\<close>\<close>

definition setDialMarkerOpacity :: "jsval \<Rightarrow> dial \<Rightarrow> dial" where
  "setDialMarkerOpacity v s =
     (case v of
        JNumber a \<Rightarrow>
          if 0 \<le> a \<and> a \<le> 1
          then (let s1 = s\<lparr>dialMarkerOpacity := a\<rparr>
                in if dialMarker s1 \<noteq> None then drawDialMarker s1 else s1)
          else warn ''Invalid Dial Marker Opacity value'' s
      | _ \<Rightarrow> warn ''Invalid Dial Marker Opacity value'' s)"

text \<open>\<^verbatim>\<open>setGlobalFontOpacity\<close>: the alpha is written to a destroyed button as well.\<close>

definition buttonAlpha :: "real \<Rightarrow> button \<Rightarrow> button" where
  "buttonAlpha a b =
     (case b of Live e \<Rightarrow> Live (e\<lparr>alpha := a\<rparr>) | Destroyed e \<Rightarrow> Destroyed (e\<lparr>alpha := a\<rparr>))"

definition setGlobalFontOpacity :: "jsval \<Rightarrow> dial \<Rightarrow> dial" where
  "setGlobalFontOpacity v s =
     (case v of
        JNumber a \<Rightarrow>
          if 0 \<le> a \<and> a \<le> 1
          then s\<lparr>globalFontOpacity := a,
                 timeText := map_option (\<lambda>e. e\<lparr>alpha := a\<rparr>) (timeText s),
                 calendarText := map_option (\<lambda>e. e\<lparr>alpha := a\<rparr>) (calendarText s),
                 timeCalendarSeparator :=
                   map_option (\<lambda>e. e\<lparr>alpha := a\<rparr>) (timeCalendarSeparator s),
                 weatherText := map_option (\<lambda>e. e\<lparr>alpha := a\<rparr>) (weatherText s),
                 rewindHourButton := map_option (buttonAlpha a) (rewindHourButton s),
                 rewindDayButton := map_option (buttonAlpha a) (rewindDayButton s),
                 advanceHourButton := map_option (buttonAlpha a) (advanceHourButton s),
                 advanceDayButton := map_option (buttonAlpha a) (advanceDayButton s)\<rparr>
          else warn ''Invalid Global Font Opacity value'' s
      | _ \<Rightarrow> warn ''Invalid Global Font Opacity value'' s)"

text \<open>
  The updates that \<^verbatim>\<open>setGlobalUiSize\<close> and \<^verbatim>\<open>setGlobalFontFamily\<close> run after the redraw.
\<close>

definition refreshContent :: "host \<Rightarrow> dial \<Rightarrow> outcome" where
  "refreshContent h s =
     andThen (updateCalendarDisplay h (updateTimeDisplay h s))
       (\<lambda>s1. andThen (updateWeatherDisplay JUndefined s1)
          (\<lambda>s2. Returned (updateDialRotation h s2)))"

text \<open>\<^verbatim>\<open>setGlobalUiSize\<close>\<close>

definition setGlobalUiSize :: "host \<Rightarrow> jsval \<Rightarrow> dial \<Rightarrow> outcome" where
  "setGlobalUiSize h v s =
     (case v of
        JNumber scale \<Rightarrow>
          if 0 < scale
          then (let s1 = calculateScaledDimensions (s\<lparr>globalUiScale := scale\<rparr>);
                    s2 = (if pixiApp s1 \<noteq> None
                          then s1\<lparr>pixiApp := Some (HUD_WIDTH (dims s1), TOTAL_HUD_HEIGHT (dims s1))\<rparr>
                          else initPIXIApp (warn ''PIXI App not initialized before scaling.'' s1))
                in andThen (redrawAllElements h s2) (refreshContent h))
          else Returned (warn ''Invalid Global UI Size value'' s)
      | _ \<Rightarrow> Returned (warn ''Invalid Global UI Size value'' s))"



section \<open>Construction\<close>

text \<open>
  The fields as the constructor sets them before it draws, and the constructor's
  synchronous part. The hooks it registers and the calls it defers are events of their
  own.
\<close>

definition initialDimensions :: dimensions where
  "initialDimensions =
     \<lparr>HUD_WIDTH = 0, primaryFontSize = 0, calendarFontSize = 0, iconFontSize = 0,
      TIME_BAR_TEXT_TOP_PADDING = 0, TIME_BAR_TEXT_BOTTOM_PADDING = 0, TIME_BAR_HEIGHT = 0,
      MAIN_HUD_AREA_HEIGHT = 0, TOTAL_HUD_HEIGHT = 0, CORNER_RADIUS = 0, PADDING = 0,
      BUTTON_PADDING = 0, DIAL_CENTER_X = 0, MAIN_HUD_AREA_Y_OFFSET = 0, DIAL_RADIUS = 0,
      DIAL_ARC_CENTER_Y = 0, MARKER_SIZE = 0, weatherTextPaddingTop = 0\<rparr>"

definition initialDial :: dial where
  "initialDial =
     \<lparr>globalUiScale = 1, dims = initialDimensions, pixiApp = None, mainContainer = None,
      timeCalendarContainer = False, timeText = None, timeCalendarSeparator = None,
      calendarText = None, timeBarGraphic = None, mainHudAreaGraphic = None,
      radialDialBackground = None, dialMarker = None, weatherText = None,
      rewindHourButton = None, rewindDayButton = None, advanceHourButton = None,
      advanceDayButton = None, dialGradientSprite = None, dialGradientContainer = False,
      dialInteractiveArea = False, currentWeather = ''CLEAR'', topBarOpacity = 0.7,
      dialImageOpacity = 1, dialMarkerOpacity = 1, globalFontOpacity = 1,
      globalFontFamily = ''Signika'', displaySeconds = False, warnings = [],
      notifications = [], persisted = [], emitted = []\<rparr>"

definition construct :: "host \<Rightarrow> outcome" where
  "construct h =
     andThen (redrawAllElements h (initPIXIApp (calculateScaledDimensions initialDial)))
       (\<lambda>s1. andThen (updateCalendarDisplay h (updateTimeDisplay h s1))
          (\<lambda>s2. let s3 = updateDialRotation h s2
                 in if gameReady h then loadWeatherFromFlag h s3 else Returned s3))"


section \<open>What the specification states, and the notions the proofs use\<close>

text \<open>
  The specification's words, as definitions of their own: a number below 100 written
  with two digits, and the dial rotation for an hour and an offset in degrees.
\<close>

definition spec_twoDigits :: "int \<Rightarrow> string" where
  "spec_twoDigits n = [digit_char (nat n div 10), digit_char (nat n mod 10)]"

definition spec_rotation :: "real \<Rightarrow> real \<Rightarrow> real" where
  "spec_rotation hour angleOffset = hour / 24 * (2 * pi) + angleOffset * pi / 180"

text \<open>An opacity that a setter accepts: a number from 0 to 1.\<close>

definition validOpacity :: "jsval \<Rightarrow> bool" where
  "validOpacity v = (case v of JNumber a \<Rightarrow> 0 \<le> a \<and> a \<le> 1 | _ \<Rightarrow> False)"

text \<open>
  The rendering order: the children of the main container, none when there is no
  container. The weather text is on top when it is the last child. It is attached when
  it is a child at all; \<^verbatim>\<open>setChildIndex\<close> throws when it is not.
\<close>

definition children :: "dial \<Rightarrow> node list" where
  "children s = (case mainContainer s of None \<Rightarrow> [] | Some cs \<Rightarrow> cs)"

definition weatherTextOnTop :: "dial \<Rightarrow> bool" where
  "weatherTextOnTop s =
     (weatherText s = None \<or> (children s \<noteq> [] \<and> last (children s) = WeatherText))"

definition weatherTextAttached :: "dial \<Rightarrow> bool" where
  "weatherTextAttached s = (weatherText s = None \<or> WeatherText \<in> set (children s))"

text \<open>
  Three relations between the instance before and after a step: the step leaves the
  weather text alone and in the container; it leaves the container as it is; it
  leaves the scale, the dimensions, the renderer size, the stored label, the opacities,
  the font, the seconds option and the warnings as they are.
\<close>

definition keepsWeather :: "dial \<Rightarrow> dial \<Rightarrow> bool" where
  "keepsWeather s s' =
     (weatherText s' = weatherText s \<and>
      (mainContainer s' = None) = (mainContainer s = None) \<and>
      (WeatherText \<in> set (children s) \<longrightarrow> WeatherText \<in> set (children s')))"

definition sameScene :: "dial \<Rightarrow> dial \<Rightarrow> bool" where
  "sameScene s s' =
     (mainContainer s' = mainContainer s \<and> (weatherText s' = None) = (weatherText s = None))"


text \<open>
  A host for the examples: a GM at world time 01:01:01, the weather \<open>Rainy\<close> saved in
  the world setting, no calendar module.
\<close>

definition sampleHost :: host where
  "sampleHost =
     \<lparr>worldTime = 3661, isGM = True, userId = ''gm'', gameReady = True,
      customDialImageAngleOffset = 90, savedWeather = ''Rainy'', textureOk = True,
      scActive = False, simpleCalendar = Undeclared\<rparr>"

text \<open>The doubles nearest to 0.35 and to 0.41, as fractions.\<close>

definition double_0_35 :: real where
  "double_0_35 = 6305039478318694 / 2 ^ 54"

definition double_0_41 :: real where
  "double_0_41 = 7385903388887613 / 2 ^ 54"

text \<open>
  A button field is stale when it holds a destroyed button: \<^verbatim>\<open>destroy\<close> throws on it.
  \<open>killed\<close> is a field after \<^verbatim>\<open>destroy\<close> on a button that is not stale, and
  \<open>afterDestroy\<close> the state after the four calls of \<^verbatim>\<open>destroy\<close>, when none of them
  throws.
\<close>

definition stale :: "button option \<Rightarrow> bool" where
  "stale b = (case b of Some (Destroyed t) \<Rightarrow> True | _ \<Rightarrow> False)"

definition noStaleButtons :: "dial \<Rightarrow> bool" where
  "noStaleButtons s =
     (\<not> stale (rewindHourButton s) \<and> \<not> stale (rewindDayButton s) \<and>
      \<not> stale (advanceHourButton s) \<and> \<not> stale (advanceDayButton s))"

definition killed :: "button option \<Rightarrow> button option" where
  "killed b = (case b of Some (Live t) \<Rightarrow> Some (Destroyed t) | _ \<Rightarrow> b)"

definition afterDestroy :: "dial \<Rightarrow> dial" where
  "afterDestroy s =
     final (destroyAdvanceDayButton (final (destroyAdvanceHourButton
       (final (destroyRewindDayButton (final (destroyRewindHourButton s)))))))"

text \<open>
  The steps of \<^verbatim>\<open>_redrawAllElements\<close>, named: the removal of the interactive area, the
  state before the buttons are drawn, and the state at the end of a redraw that does
  not throw. \<open>rescaled\<close> is the state that \<^verbatim>\<open>setGlobalUiSize\<close> redraws.
\<close>

definition clearInteractiveArea :: "dial \<Rightarrow> dial" where
  "clearInteractiveArea s =
     (if dialInteractiveArea s
      then destroyChild DialInteractiveArea (s\<lparr>dialInteractiveArea := False\<rparr>)
      else s)"

definition beforeButtons :: "dial \<Rightarrow> dial" where
  "beforeButtons s =
     drawTimeAndCalendarGroup (drawDialMarker (drawRadialDialBackground
       (drawMainHudArea (drawTimeBar (clearInteractiveArea s)))))"

definition redrawn :: "host \<Rightarrow> dial \<Rightarrow> dial" where
  "redrawn h s =
     final (ensureWeatherTextOnTop (createDialInteractiveArea h
       (final (drawWeatherText (createDialGradientAndMask h
          (final (drawTimeAdvanceControls h (beforeButtons s))))))))"

definition rescaled :: "real \<Rightarrow> dial \<Rightarrow> dial" where
  "rescaled scale s =
     (let s1 = calculateScaledDimensions (s\<lparr>globalUiScale := scale\<rparr>)
      in if pixiApp s1 \<noteq> None
         then s1\<lparr>pixiApp := Some (HUD_WIDTH (dims s1), TOTAL_HUD_HEIGHT (dims s1))\<rparr>
         else initPIXIApp (warn ''PIXI App not initialized before scaling.'' s1))"

text \<open>
  What a full redraw of \<open>s\<close> by the user of \<open>h\<close> leaves in \<open>s'\<close>: the bar and the
  marker filled with their opacities, the HUD area and the dial border, the group of
  time, separator and calendar text and the weather text in the current font, size
  and opacity, the weather text on top; for a GM four new buttons with their icons at
  the icon size and the interactive area, for another user the old buttons destroyed
  and no interactive area; and, when the dial has a radius, the dial image at its
  opacity, or no image when the texture did not load. \<open>textStyle\<close> is the family, the
  size and the opacity of a text.
\<close>

definition textStyle :: "displayObject \<Rightarrow> string \<times> int \<times> real" where
  "textStyle t = (fontFamily t, fontSize t, alpha t)"

definition sceneDrawn :: "host \<Rightarrow> dial \<Rightarrow> dial \<Rightarrow> bool" where
  "sceneDrawn h s s' =
     (map_option fillAlpha (timeBarGraphic s') = Some (topBarOpacity s') \<and>
      mainHudAreaGraphic s' \<noteq> None \<and>
      radialDialBackground s' \<noteq> None \<and>
      map_option fillAlpha (dialMarker s') = Some (dialMarkerOpacity s') \<and>
      timeCalendarContainer s' \<and>
      map_option textStyle (timeText s') =
        Some (globalFontFamily s', primaryFontSize (dims s'), globalFontOpacity s') \<and>
      map_option textStyle (timeCalendarSeparator s') =
        Some (globalFontFamily s', primaryFontSize (dims s'), globalFontOpacity s') \<and>
      map_option textStyle (calendarText s') =
        Some (globalFontFamily s', calendarFontSize (dims s'), globalFontOpacity s') \<and>
      map_option textStyle (weatherText s') =
        Some (globalFontFamily s', primaryFontSize (dims s'), globalFontOpacity s') \<and>
      {RadialDialBackground, DialMarker, TimeCalendarContainer, WeatherText}
        \<subseteq> set (children s') \<and>
      weatherTextOnTop s' \<and>
      (if isGM h
       then rewindHourButton s' = Some (createButton ''uf04b'' s') \<and>
            rewindDayButton s' = Some (createButton ''uf049'' s') \<and>
            advanceHourButton s' = Some (createButton ''uf04b'' s') \<and>
            advanceDayButton s' = Some (createButton ''uf050'' s') \<and>
            dialInteractiveArea s' \<and>
            {RewindHourButton, RewindDayButton, AdvanceHourButton, AdvanceDayButton,
             DialInteractiveArea} \<subseteq> set (children s')
       else rewindHourButton s' = killed (rewindHourButton s) \<and>
            rewindDayButton s' = killed (rewindDayButton s) \<and>
            advanceHourButton s' = killed (advanceHourButton s) \<and>
            advanceDayButton s' = killed (advanceDayButton s) \<and>
            \<not> dialInteractiveArea s') \<and>
      (0 < DIAL_RADIUS (dims s') \<longrightarrow>
         (if textureOk h
          then map_option alpha (dialGradientSprite s') = Some (dialImageOpacity s') \<and>
               dialGradientContainer s' \<and> DialGradientContainer \<in> set (children s')
          else \<not> dialGradientContainer s')))"

text \<open>The sample host with a user who is not a GM.\<close>

definition player :: host where
  "player = sampleHost\<lparr>isGM := False\<rparr>"


section \<open>Arithmetic and strings\<close>

lemmas base_defs =
  BASE_HUD_WIDTH_def BASE_PRIMARY_FONT_SIZE_def BASE_ICON_FONT_SIZE_def
  BASE_TIME_BAR_TEXT_TOP_PADDING_def BASE_TIME_BAR_TEXT_BOTTOM_PADDING_def
  BASE_MAIN_HUD_AREA_HEIGHT_def BASE_CORNER_RADIUS_def BASE_PADDING_def
  BASE_BUTTON_PADDING_def BASE_MARKER_SIZE_def BASE_WEATHER_TEXT_PADDING_TOP_def

lemma string_of_nat_one_digit: "n < 10 \<Longrightarrow> string_of_nat n = [digit_char n]"
  by (simp add: string_of_nat.simps)

lemma string_of_nat_two_digits:
  "10 \<le> n \<Longrightarrow> n < 100 \<Longrightarrow> string_of_nat n = [digit_char (n div 10), digit_char (n mod 10)]"
  by (subst string_of_nat.simps) (simp add: string_of_nat_one_digit)

lemma digit_char_0: "digit_char 0 = CHR ''0''"
  by (simp add: digit_char_def)

lemma padStart_two_digits:
  assumes "0 \<le> i" "i < 100"
  shows "padStart 2 CHR ''0'' (js_String i) = spec_twoDigits i"
proof (cases "i < 10")
  case True
  with assms have "nat i < 10" by simp
  then have "string_of_nat (nat i) = [digit_char (nat i)]"
    by (rule string_of_nat_one_digit)
  moreover from \<open>nat i < 10\<close> have "nat i div 10 = 0" "nat i mod 10 = nat i" by simp_all
  ultimately show ?thesis using assms
    by (simp add: padStart_def js_String_def spec_twoDigits_def digit_char_0)
next
  case False
  with assms have "10 \<le> nat i" "nat i < 100" by simp_all
  then have "string_of_nat (nat i) = [digit_char (nat i div 10), digit_char (nat i mod 10)]"
    by (rule string_of_nat_two_digits)
  then show ?thesis using assms
    by (simp add: padStart_def js_String_def spec_twoDigits_def)
qed

text \<open>On a world time that is not negative, \<^verbatim>\<open>%\<close> is the mathematical remainder.\<close>

lemma js_rem_nonneg: "0 \<le> x \<Longrightarrow> 0 < y \<Longrightarrow> js_rem x y = x - y * of_int \<lfloor>x / y\<rfloor>"
  by (cases "x = 0") (simp_all add: js_rem_def)

lemma js_rem_int_nonneg: "0 \<le> a \<Longrightarrow> 0 < b \<Longrightarrow> js_rem_int a b = a mod b"
  by (cases "a = 0") (simp_all add: js_rem_int_def)

lemma js_rem_of_int:
  assumes "0 \<le> n" "0 < k"
  shows "js_rem (of_int n) (of_int k) = of_int (n mod k)"
proof -
  have "\<lfloor>(of_int n :: real) / of_int k\<rfloor> = n div k"
    by (simp add: floor_divide_of_int_eq)
  then have "js_rem (of_int n) (of_int k) = of_int n - of_int k * of_int (n div k)"
    using assms by (simp add: js_rem_nonneg)
  also have "\<dots> = of_int (n - k * (n div k))" by simp
  also have "n - k * (n div k) = n mod k" by (simp add: minus_mult_div_eq_mod)
  finally show ?thesis .
qed

lemma js_rem_range:
  assumes "0 \<le> x" "0 < y"
  shows "0 \<le> js_rem x y \<and> js_rem x y < y"
proof -
  have "of_int \<lfloor>x / y\<rfloor> * y \<le> x" using assms(2) by (rule floor_divide_lower)
  moreover have "x < (of_int \<lfloor>x / y\<rfloor> + 1) * y" using assms(2) by (rule floor_divide_upper)
  ultimately show ?thesis using assms by (simp add: js_rem_nonneg algebra_simps)
qed

lemma hoursOf_of_int: "0 \<le> n \<Longrightarrow> hoursOf (of_int n) = (n div 3600) mod 24"
proof -
  assume n: "0 \<le> n"
  have "\<lfloor>(of_int n :: real) / 3600\<rfloor> = n div 3600"
    using floor_divide_of_int_eq [of n 3600, where ?'a = real] by simp
  moreover from n have "0 \<le> n div 3600" by (simp add: pos_imp_zdiv_nonneg_iff)
  ultimately show ?thesis by (simp add: hoursOf_def js_rem_int_nonneg)
qed

lemma minutesOf_of_int: "0 \<le> n \<Longrightarrow> minutesOf (of_int n) = (n mod 3600) div 60"
proof -
  assume n: "0 \<le> n"
  have "js_rem (of_int n) 3600 = of_int (n mod 3600)"
    using js_rem_of_int [of n 3600] n by simp
  moreover have "\<lfloor>(of_int (n mod 3600) :: real) / 60\<rfloor> = (n mod 3600) div 60"
    using floor_divide_of_int_eq [of "n mod 3600" 60, where ?'a = real] by simp
  ultimately show ?thesis by (simp add: minutesOf_def)
qed

lemma secondsOf_of_int: "0 \<le> n \<Longrightarrow> secondsOf (of_int n) = n mod 60"
proof -
  assume n: "0 \<le> n"
  have "js_rem (of_int n) 60 = of_int (n mod 60)"
    using js_rem_of_int [of n 60] n by simp
  then show ?thesis by (simp add: secondsOf_def)
qed

lemma hms_decompose:
  fixes h m sec :: int
  assumes "0 \<le> h" "h < 24" "0 \<le> m" "m < 60" "0 \<le> sec" "sec < 60"
  shows "((h * 3600 + m * 60 + sec) div 3600) mod 24 = h"
    and "((h * 3600 + m * 60 + sec) mod 3600) div 60 = m"
    and "(h * 3600 + m * 60 + sec) mod 60 = sec"
proof -
  have a: "(h * 3600 + m * 60 + sec) div 3600 = h"
  proof -
    have "(h * 3600 + (m * 60 + sec)) div 3600 = h + (m * 60 + sec) div 3600"
      by simp
    moreover have "(m * 60 + sec) div 3600 = 0" using assms by simp
    ultimately show ?thesis by (simp add: add.assoc)
  qed
  show "((h * 3600 + m * 60 + sec) div 3600) mod 24 = h" using a assms by simp
  have b: "(h * 3600 + m * 60 + sec) mod 3600 = m * 60 + sec"
  proof -
    have "(h * 3600 + (m * 60 + sec)) mod 3600 = (m * 60 + sec) mod 3600"
      by simp
    moreover have "(m * 60 + sec) mod 3600 = m * 60 + sec" using assms by simp
    ultimately show ?thesis by (simp add: add.assoc)
  qed
  have "(m * 60 + sec) div 60 = m" using assms by simp
  with b show "((h * 3600 + m * 60 + sec) mod 3600) div 60 = m" by simp
  have "(h * 3600 + m * 60 + sec) mod 60 = (sec + (h * 60 + m) * 60) mod 60"
    by (simp add: algebra_simps)
  also have "\<dots> = sec mod 60" by (simp only: mod_mult_self1)
  also have "\<dots> = sec" using assms by simp
  finally show "(h * 3600 + m * 60 + sec) mod 60 = sec" .
qed

lemma timeString_hms:
  fixes h m sec :: int
  assumes "0 \<le> h" "h < 24" "0 \<le> m" "m < 60" "0 \<le> sec" "sec < 60"
  shows "timeString (of_int (h * 3600 + m * 60 + sec)) b =
           (if b then spec_twoDigits h @ '':'' @ spec_twoDigits m @ '':'' @ spec_twoDigits sec
            else spec_twoDigits h @ '':'' @ spec_twoDigits m)"
proof -
  let ?n = "h * 3600 + m * 60 + sec"
  have n: "0 \<le> ?n" using assms by simp
  have "hoursOf (of_int ?n) = h" "minutesOf (of_int ?n) = m" "secondsOf (of_int ?n) = sec"
    using hms_decompose [OF assms] n
    by (simp_all only: hoursOf_of_int minutesOf_of_int secondsOf_of_int)
  moreover have "padStart 2 CHR ''0'' (js_String h) = spec_twoDigits h"
    "padStart 2 CHR ''0'' (js_String m) = spec_twoDigits m"
    "padStart 2 CHR ''0'' (js_String sec) = spec_twoDigits sec"
    using assms by (simp_all add: padStart_two_digits)
  ultimately show ?thesis by (simp add: timeString_def)
qed

section \<open>Time display\<close>

text \<open>
  C3. For an hour \<open>h\<close> in [0,24) and a minute \<open>m\<close> and a second \<open>sec\<close> in [0,60),
  \<^verbatim>\<open>updateTimeDisplay\<close> at the world time \<open>h * 3600 + m * 60 + sec\<close> writes the
  zero-padded string HH:MM into the time text, and HH:MM:SS when seconds are displayed.
\<close>

theorem updateTimeDisplay_renders:
  assumes "0 \<le> h" "h < 24" "0 \<le> m" "m < 60" "0 \<le> sec" "sec < 60"
    and "worldTime hst = of_int (h * 3600 + m * 60 + sec)"
    and "timeText s = Some t"
  shows "timeText (updateTimeDisplay hst s) =
           Some (t\<lparr>textValue :=
             (if displaySeconds s
              then spec_twoDigits h @ '':'' @ spec_twoDigits m @ '':'' @ spec_twoDigits sec
              else spec_twoDigits h @ '':'' @ spec_twoDigits m)\<rparr>)"
  using assms(7,8) timeString_hms [OF assms(1-6), of "displaySeconds s"]
  by (simp add: updateTimeDisplay_def)

text \<open>World time 3661 is rendered as 01:01, and as 01:01:01 with seconds.\<close>

theorem updateTimeDisplay_renders_witness:
  "map_option textValue
     (timeText (updateTimeDisplay sampleHost (initialDial\<lparr>timeText := Some newObject\<rparr>))) =
     Some ''01:01'' \<and>
   map_option textValue
     (timeText (updateTimeDisplay sampleHost
        (initialDial\<lparr>timeText := Some newObject, displaySeconds := True\<rparr>))) =
     Some ''01:01:01''"
  using updateTimeDisplay_renders [of 1 1 1 sampleHost "initialDial\<lparr>timeText := Some newObject\<rparr>" newObject]
    updateTimeDisplay_renders [of 1 1 1 sampleHost
      "initialDial\<lparr>timeText := Some newObject, displaySeconds := True\<rparr>" newObject]
  by (simp add: sampleHost_def initialDial_def spec_twoDigits_def digit_char_def)

text \<open>
  When the world time is not negative, the hour is in [0,24) and the minute and the
  second are in [0,60), also for a world time that is not a whole number of seconds.
\<close>

lemma time_fields_nonneg:
  assumes "0 \<le> t"
  shows "0 \<le> hoursOf t \<and> hoursOf t < 24 \<and> 0 \<le> minutesOf t \<and> minutesOf t < 60 \<and>
         0 \<le> secondsOf t \<and> secondsOf t < 60"
proof -
  have "0 \<le> \<lfloor>t / 3600\<rfloor>" using assms by simp
  then have h: "0 \<le> hoursOf t \<and> hoursOf t < 24"
    by (simp add: hoursOf_def js_rem_int_nonneg)
  have "0 \<le> js_rem t 3600 \<and> js_rem t 3600 < 3600" using assms by (simp add: js_rem_range)
  then have "0 \<le> js_rem t 3600 / 60 \<and> js_rem t 3600 / 60 < 60" by simp
  then have m: "0 \<le> minutesOf t \<and> minutesOf t < 60"
    unfolding minutesOf_def by (simp add: floor_less_iff)
  have "0 \<le> js_rem t 60 \<and> js_rem t 60 < 60" using assms by (simp add: js_rem_range)
  then have s: "0 \<le> secondsOf t \<and> secondsOf t < 60"
    unfolding secondsOf_def by (simp add: floor_less_iff)
  from h m s show ?thesis by simp
qed

text \<open>
  A negative world time is another matter: \<^verbatim>\<open>%\<close> keeps the sign of the dividend. One
  hour before time 0 (the rewind button calls \<^verbatim>\<open>game.time.advance(-3600)\<close>) the hour is -1.
\<close>

lemma neg_hour: "hoursOf (- 3600) = - 1 \<and> minutesOf (- 3600) = 0"
  by code_simp

lemma neg_string: "timeString (- 3600) False = ''-1:00''"
  by code_simp

text \<open>
  C4. The claim is that every world time, negative ones too, gives an hour in [0,24).
  At world time -3600 \<^verbatim>\<open>updateTimeDisplay\<close> returns, but the hour it derives is -1 and
  the text it writes is \<open>-1:00\<close>.
\<close>

theorem updateTimeDisplay_negative:
  "hoursOf (- 3600) = - 1 \<and>
   map_option textValue
     (timeText (updateTimeDisplay (h\<lparr>worldTime := - 3600\<rparr>)
        (s\<lparr>timeText := Some t, displaySeconds := False\<rparr>))) = Some ''-1:00''"
  using neg_hour neg_string by (simp add: updateTimeDisplay_def)

section \<open>Dial rotation\<close>

text \<open>
  With a stored offset other than 0 the rotation is the specification's formula, the
  hour being \<^verbatim>\<open>(worldTime / 3600) % 24\<close>, fractions of an hour included.
\<close>

lemma dialRotation_nonzero:
  "a \<noteq> 0 \<Longrightarrow> dialRotation t a = spec_rotation (js_rem (t / 3600) 24) a"
  by (simp add: dialRotation_def spec_rotation_def Let_def)

lemma dialRotation_zero: "dialRotation 0 0 = pi / 2"
  by (simp add: dialRotation_def js_rem_def Let_def)

text \<open>
  C1. The claim is that the rotation is \<open>hour / 24 * 2 * pi\<close> plus the stored offset in
  radians for every offset in [0,360]. The stored offset 0 is falsy, so
  \<^verbatim>\<open>|| 90\<close> replaces it by 90: at world time 0 the sprite is rotated by \<open>pi / 2\<close>, where
  the formula gives 0.
\<close>

theorem updateDialRotation_offset_zero:
  "map_option rotation
     (dialGradientSprite (updateDialRotation (h\<lparr>worldTime := 0, customDialImageAngleOffset := 0\<rparr>)
        (s\<lparr>dialGradientSprite := Some sprite\<rparr>))) = Some (pi / 2) \<and>
   map_option rotation
     (dialGradientSprite (updateDialRotation (h\<lparr>worldTime := 0, customDialImageAngleOffset := 0\<rparr>)
        (s\<lparr>dialGradientSprite := Some sprite\<rparr>))) \<noteq>
     Some (spec_rotation (js_rem (0 / 3600) 24) 0)"
  by (simp add: updateDialRotation_def dialRotation_zero spec_rotation_def js_rem_def)

section \<open>Scaled dimensions: the floors\<close>

text \<open>
  C7. Whatever the scale, after \<^verbatim>\<open>_calculateScaledDimensions\<close> the primary font size
  is at least 8, the icon font size at least 10 and the marker size at least 5.
\<close>

theorem scaled_floors:
  "8 \<le> primaryFontSize (dims (calculateScaledDimensions s)) \<and>
   10 \<le> iconFontSize (dims (calculateScaledDimensions s)) \<and>
   5 \<le> MARKER_SIZE (dims (calculateScaledDimensions s))"
  by (simp add: calculateScaledDimensions_def scaledDimensions_def Let_def)

section \<open>Opacity setters\<close>

text \<open>
  A value that is not a number from 0 to 1 changes nothing but the warnings: three of
  the four setters add one, \<^verbatim>\<open>setTopBarOpacity\<close> has no \<^verbatim>\<open>else\<close> branch and adds none.
\<close>

lemma other_setters_reject:
  assumes "\<not> validOpacity v"
  shows "setDialImageOpacity v s = warn ''Invalid Dial Image Opacity value'' s"
    and "setDialMarkerOpacity v s = warn ''Invalid Dial Marker Opacity value'' s"
    and "setGlobalFontOpacity v s = warn ''Invalid Global Font Opacity value'' s"
    and "setTopBarOpacity v s = s"
  using assms
  by (auto simp: validOpacity_def setDialImageOpacity_def setDialMarkerOpacity_def
      setGlobalFontOpacity_def setTopBarOpacity_def split: jsval.splits)

text \<open>
  C5. The claim is that each of the four opacity setters keeps the stored opacity and
  logs a rejection for a value outside [0,1]. \<^verbatim>\<open>setTopBarOpacity(1.5)\<close> keeps the stored
  opacity and logs nothing.
\<close>

theorem setTopBarOpacity_rejects_silently:
  "setTopBarOpacity (JNumber 1.5) s = s \<and> warnings (setTopBarOpacity (JNumber 1.5) s) = warnings s"
  by (simp add: setTopBarOpacity_def)


section \<open>Rounding to doubles\<close>

text \<open>
  The exponent of a number between two powers of 2. An integer below \<open>2 ^ 53\<close> is a
  double, so a product of integers in that range is exact.
\<close>

lemma round_half_even_of_int: "round_half_even (of_int k) = k"
  by (simp add: round_half_even_def)

lemma dexp_eqI:
  assumes "2 ^ k \<le> \<bar>x\<bar>" "\<bar>x\<bar> < 2 ^ Suc k"
  shows "dexp x = int k"
proof -
  have pos: "0 < \<bar>x\<bar>" using assms(1) by (smt (verit) zero_less_power)
  have "(2::real) powr (1 + real k) = 2 * 2 ^ k"
    by (simp add: powr_add powr_realpow)
  then have "2 powr real_of_int (int k) \<le> \<bar>x\<bar> \<and> \<bar>x\<bar> < 2 powr real_of_int (int k + 1)"
    using assms by (simp add: powr_realpow add.commute)
  then show ?thesis
    unfolding dexp_def using floor_log_eq_powr_iff [of "\<bar>x\<bar>" 2 "int k"] pos by simp
qed

lemma dexp_range:
  assumes "1 \<le> \<bar>x\<bar>" "\<bar>x\<bar> < 2 ^ 53"
  shows "0 \<le> dexp x \<and> dexp x \<le> 52"
proof -
  have pos: "0 < \<bar>x\<bar>" using assms(1) by simp
  have b: "2 powr real_of_int (dexp x) \<le> \<bar>x\<bar>" "\<bar>x\<bar> < 2 powr real_of_int (dexp x + 1)"
    using floor_log_eq_powr_iff [of "\<bar>x\<bar>" 2 "dexp x"] pos by (simp_all add: dexp_def)
  have "0 \<le> log 2 \<bar>x\<bar>" using assms(1) by simp
  then have lo: "0 \<le> dexp x" by (simp add: dexp_def)
  have "(2::real) ^ 53 = 2 powr real_of_int 53"
    by (simp del: power_numeral)
  with b(1) assms(2) have "(2::real) powr real_of_int (dexp x) < 2 powr real_of_int 53"
    by linarith
  then have "real_of_int (dexp x) < real_of_int 53"
    by (simp only: powr_less_cancel_iff one_less_numeral_iff semiring_norm)
  then have "dexp x < 53" by linarith
  with lo show ?thesis by simp
qed

lemma round_double_int:
  assumes "x \<in> \<int>" "\<bar>x\<bar> < 2 ^ 53"
  shows "round_double x = x"
proof (cases "x = 0")
  case True
  then show ?thesis by (simp add: round_double_def)
next
  case False
  from assms(1) obtain k where k: "x = of_int k" by (auto elim: Ints_cases)
  with False have "k \<noteq> 0" by auto
  then have "1 \<le> \<bar>x\<bar>" using k by simp
  then have e: "0 \<le> dexp x \<and> dexp x \<le> 52" using assms(2) by (rule dexp_range)
  define n where "n = nat (52 - dexp x)"
  define u where "u = ulp (dexp x)"
  have u: "u = 1 / 2 ^ n"
  proof (cases "dexp x = 52")
    case True
    then show ?thesis by (simp add: ulp_def n_def u_def)
  next
    case False
    with e show ?thesis by (simp add: ulp_def n_def u_def)
  qed
  have "x / u = of_int (k * 2 ^ n)" by (simp add: u k)
  then have "round_half_even (x / u) = k * 2 ^ n"
    by (simp only: round_half_even_of_int)
  then have "of_int (round_half_even (x / u)) * u = x" by (simp add: u k)
  then show ?thesis using False by (simp add: round_double_def u_def)
qed

lemma js_mul_int:
  assumes "a \<in> \<int>" "b \<in> \<int>" "\<bar>a * b\<bar> < 2 ^ 53"
  shows "js_mul a b = a * b"
  using assms by (simp add: js_mul_def round_double_int)

text \<open>At scale 1 and at scale 5 the dimensions are the exact products.\<close>

lemma scaledDimensions_1:
  "HUD_WIDTH (scaledDimensions 1) = 400 \<and> TIME_BAR_HEIGHT (scaledDimensions 1) = 32 \<and>
   MAIN_HUD_AREA_HEIGHT (scaledDimensions 1) = 150 \<and> TOTAL_HUD_HEIGHT (scaledDimensions 1) = 182"
  by (simp add: scaledDimensions_def base_defs js_round_def js_mul_int Let_def)


text \<open>
  The double nearest to 0.35 is a little below 0.35, and still its product with 150 is
  the double 52.5, which \<^verbatim>\<open>Math.round\<close> takes to 53; its product with 10 is a tie that
  goes to the double 3.5. The double nearest to 0.41 gives a product below 61.5.
\<close>

lemma js_mul_150_035: "js_mul 150 double_0_35 = 52.5"
proof -
  have "dexp (150 * (6305039478318694 / 2 ^ 54)) = int 5"
    by (rule dexp_eqI) simp_all
  then show ?thesis
    by (simp add: js_mul_def round_double_def ulp_def round_half_even_def double_0_35_def)
qed

lemma js_mul_10_035: "js_mul 10 double_0_35 = 3.5"
proof -
  have "dexp (10 * (6305039478318694 / 2 ^ 54)) = int 1"
    by (rule dexp_eqI) simp_all
  then show ?thesis
    by (simp add: js_mul_def round_double_def ulp_def round_half_even_def double_0_35_def)
qed

lemma js_mul_150_041: "js_mul 150 double_0_41 = 8655355533852671 / 2 ^ 47"
proof -
  have "dexp (150 * (7385903388887613 / 2 ^ 54)) = int 5"
    by (rule dexp_eqI) simp_all
  then show ?thesis
    by (simp add: js_mul_def round_double_def ulp_def round_half_even_def double_0_41_def)
qed

lemma scaledDimensions_035_041:
  "MAIN_HUD_AREA_HEIGHT (scaledDimensions double_0_35) = 53 \<and>
   PADDING (scaledDimensions double_0_35) = 4 \<and>
   MAIN_HUD_AREA_HEIGHT (scaledDimensions double_0_41) = 61"
  by (simp add: scaledDimensions_def base_defs js_round_def js_mul_150_035 js_mul_10_035
      js_mul_150_041 Let_def)


section \<open>What each step leaves unchanged\<close>

text \<open>
  For every step of a redraw and of a refresh, the fields that it does not write, and
  that it neither creates nor removes the main container.
\<close>

lemma drawTimeBar_frame:
  "globalUiScale (drawTimeBar s) = globalUiScale s"
  "dims (drawTimeBar s) = dims s"
  "pixiApp (drawTimeBar s) = pixiApp s"
  "timeCalendarContainer (drawTimeBar s) = timeCalendarContainer s"
  "timeText (drawTimeBar s) = timeText s"
  "timeCalendarSeparator (drawTimeBar s) = timeCalendarSeparator s"
  "calendarText (drawTimeBar s) = calendarText s"
  "mainHudAreaGraphic (drawTimeBar s) = mainHudAreaGraphic s"
  "radialDialBackground (drawTimeBar s) = radialDialBackground s"
  "dialMarker (drawTimeBar s) = dialMarker s"
  "weatherText (drawTimeBar s) = weatherText s"
  "rewindHourButton (drawTimeBar s) = rewindHourButton s"
  "rewindDayButton (drawTimeBar s) = rewindDayButton s"
  "advanceHourButton (drawTimeBar s) = advanceHourButton s"
  "advanceDayButton (drawTimeBar s) = advanceDayButton s"
  "dialGradientSprite (drawTimeBar s) = dialGradientSprite s"
  "dialGradientContainer (drawTimeBar s) = dialGradientContainer s"
  "dialInteractiveArea (drawTimeBar s) = dialInteractiveArea s"
  "currentWeather (drawTimeBar s) = currentWeather s"
  "topBarOpacity (drawTimeBar s) = topBarOpacity s"
  "dialImageOpacity (drawTimeBar s) = dialImageOpacity s"
  "dialMarkerOpacity (drawTimeBar s) = dialMarkerOpacity s"
  "globalFontOpacity (drawTimeBar s) = globalFontOpacity s"
  "globalFontFamily (drawTimeBar s) = globalFontFamily s"
  "displaySeconds (drawTimeBar s) = displaySeconds s"
  "warnings (drawTimeBar s) = warnings s"
  "notifications (drawTimeBar s) = notifications s"
  "persisted (drawTimeBar s) = persisted s"
  "emitted (drawTimeBar s) = emitted s"
  "(mainContainer (drawTimeBar s) = None) = (mainContainer s = None)"
  by (simp_all add: drawTimeBar_def addChild_def Let_def)

lemma drawMainHudArea_frame:
  "globalUiScale (drawMainHudArea s) = globalUiScale s"
  "dims (drawMainHudArea s) = dims s"
  "pixiApp (drawMainHudArea s) = pixiApp s"
  "timeCalendarContainer (drawMainHudArea s) = timeCalendarContainer s"
  "timeText (drawMainHudArea s) = timeText s"
  "timeCalendarSeparator (drawMainHudArea s) = timeCalendarSeparator s"
  "calendarText (drawMainHudArea s) = calendarText s"
  "timeBarGraphic (drawMainHudArea s) = timeBarGraphic s"
  "radialDialBackground (drawMainHudArea s) = radialDialBackground s"
  "dialMarker (drawMainHudArea s) = dialMarker s"
  "weatherText (drawMainHudArea s) = weatherText s"
  "rewindHourButton (drawMainHudArea s) = rewindHourButton s"
  "rewindDayButton (drawMainHudArea s) = rewindDayButton s"
  "advanceHourButton (drawMainHudArea s) = advanceHourButton s"
  "advanceDayButton (drawMainHudArea s) = advanceDayButton s"
  "dialGradientSprite (drawMainHudArea s) = dialGradientSprite s"
  "dialGradientContainer (drawMainHudArea s) = dialGradientContainer s"
  "dialInteractiveArea (drawMainHudArea s) = dialInteractiveArea s"
  "currentWeather (drawMainHudArea s) = currentWeather s"
  "topBarOpacity (drawMainHudArea s) = topBarOpacity s"
  "dialImageOpacity (drawMainHudArea s) = dialImageOpacity s"
  "dialMarkerOpacity (drawMainHudArea s) = dialMarkerOpacity s"
  "globalFontOpacity (drawMainHudArea s) = globalFontOpacity s"
  "globalFontFamily (drawMainHudArea s) = globalFontFamily s"
  "displaySeconds (drawMainHudArea s) = displaySeconds s"
  "warnings (drawMainHudArea s) = warnings s"
  "notifications (drawMainHudArea s) = notifications s"
  "persisted (drawMainHudArea s) = persisted s"
  "emitted (drawMainHudArea s) = emitted s"
  "(mainContainer (drawMainHudArea s) = None) = (mainContainer s = None)"
  by (simp_all add: drawMainHudArea_def addChild_def Let_def)

lemma drawRadialDialBackground_frame:
  "globalUiScale (drawRadialDialBackground s) = globalUiScale s"
  "dims (drawRadialDialBackground s) = dims s"
  "pixiApp (drawRadialDialBackground s) = pixiApp s"
  "timeCalendarContainer (drawRadialDialBackground s) = timeCalendarContainer s"
  "timeText (drawRadialDialBackground s) = timeText s"
  "timeCalendarSeparator (drawRadialDialBackground s) = timeCalendarSeparator s"
  "calendarText (drawRadialDialBackground s) = calendarText s"
  "timeBarGraphic (drawRadialDialBackground s) = timeBarGraphic s"
  "mainHudAreaGraphic (drawRadialDialBackground s) = mainHudAreaGraphic s"
  "dialMarker (drawRadialDialBackground s) = dialMarker s"
  "weatherText (drawRadialDialBackground s) = weatherText s"
  "rewindHourButton (drawRadialDialBackground s) = rewindHourButton s"
  "rewindDayButton (drawRadialDialBackground s) = rewindDayButton s"
  "advanceHourButton (drawRadialDialBackground s) = advanceHourButton s"
  "advanceDayButton (drawRadialDialBackground s) = advanceDayButton s"
  "dialGradientSprite (drawRadialDialBackground s) = dialGradientSprite s"
  "dialGradientContainer (drawRadialDialBackground s) = dialGradientContainer s"
  "dialInteractiveArea (drawRadialDialBackground s) = dialInteractiveArea s"
  "currentWeather (drawRadialDialBackground s) = currentWeather s"
  "topBarOpacity (drawRadialDialBackground s) = topBarOpacity s"
  "dialImageOpacity (drawRadialDialBackground s) = dialImageOpacity s"
  "dialMarkerOpacity (drawRadialDialBackground s) = dialMarkerOpacity s"
  "globalFontOpacity (drawRadialDialBackground s) = globalFontOpacity s"
  "globalFontFamily (drawRadialDialBackground s) = globalFontFamily s"
  "displaySeconds (drawRadialDialBackground s) = displaySeconds s"
  "warnings (drawRadialDialBackground s) = warnings s"
  "notifications (drawRadialDialBackground s) = notifications s"
  "persisted (drawRadialDialBackground s) = persisted s"
  "emitted (drawRadialDialBackground s) = emitted s"
  "(mainContainer (drawRadialDialBackground s) = None) = (mainContainer s = None)"
  by (simp_all add: drawRadialDialBackground_def addChild_def Let_def)

lemma drawDialMarker_frame:
  "globalUiScale (drawDialMarker s) = globalUiScale s"
  "dims (drawDialMarker s) = dims s"
  "pixiApp (drawDialMarker s) = pixiApp s"
  "timeCalendarContainer (drawDialMarker s) = timeCalendarContainer s"
  "timeText (drawDialMarker s) = timeText s"
  "timeCalendarSeparator (drawDialMarker s) = timeCalendarSeparator s"
  "calendarText (drawDialMarker s) = calendarText s"
  "timeBarGraphic (drawDialMarker s) = timeBarGraphic s"
  "mainHudAreaGraphic (drawDialMarker s) = mainHudAreaGraphic s"
  "radialDialBackground (drawDialMarker s) = radialDialBackground s"
  "weatherText (drawDialMarker s) = weatherText s"
  "rewindHourButton (drawDialMarker s) = rewindHourButton s"
  "rewindDayButton (drawDialMarker s) = rewindDayButton s"
  "advanceHourButton (drawDialMarker s) = advanceHourButton s"
  "advanceDayButton (drawDialMarker s) = advanceDayButton s"
  "dialGradientSprite (drawDialMarker s) = dialGradientSprite s"
  "dialGradientContainer (drawDialMarker s) = dialGradientContainer s"
  "dialInteractiveArea (drawDialMarker s) = dialInteractiveArea s"
  "currentWeather (drawDialMarker s) = currentWeather s"
  "topBarOpacity (drawDialMarker s) = topBarOpacity s"
  "dialImageOpacity (drawDialMarker s) = dialImageOpacity s"
  "dialMarkerOpacity (drawDialMarker s) = dialMarkerOpacity s"
  "globalFontOpacity (drawDialMarker s) = globalFontOpacity s"
  "globalFontFamily (drawDialMarker s) = globalFontFamily s"
  "displaySeconds (drawDialMarker s) = displaySeconds s"
  "warnings (drawDialMarker s) = warnings s"
  "notifications (drawDialMarker s) = notifications s"
  "persisted (drawDialMarker s) = persisted s"
  "emitted (drawDialMarker s) = emitted s"
  "(mainContainer (drawDialMarker s) = None) = (mainContainer s = None)"
  by (simp_all add: drawDialMarker_def addChild_def Let_def)

lemma drawTimeAndCalendarGroup_frame:
  "globalUiScale (drawTimeAndCalendarGroup s) = globalUiScale s"
  "dims (drawTimeAndCalendarGroup s) = dims s"
  "pixiApp (drawTimeAndCalendarGroup s) = pixiApp s"
  "timeBarGraphic (drawTimeAndCalendarGroup s) = timeBarGraphic s"
  "mainHudAreaGraphic (drawTimeAndCalendarGroup s) = mainHudAreaGraphic s"
  "radialDialBackground (drawTimeAndCalendarGroup s) = radialDialBackground s"
  "dialMarker (drawTimeAndCalendarGroup s) = dialMarker s"
  "weatherText (drawTimeAndCalendarGroup s) = weatherText s"
  "rewindHourButton (drawTimeAndCalendarGroup s) = rewindHourButton s"
  "rewindDayButton (drawTimeAndCalendarGroup s) = rewindDayButton s"
  "advanceHourButton (drawTimeAndCalendarGroup s) = advanceHourButton s"
  "advanceDayButton (drawTimeAndCalendarGroup s) = advanceDayButton s"
  "dialGradientSprite (drawTimeAndCalendarGroup s) = dialGradientSprite s"
  "dialGradientContainer (drawTimeAndCalendarGroup s) = dialGradientContainer s"
  "dialInteractiveArea (drawTimeAndCalendarGroup s) = dialInteractiveArea s"
  "currentWeather (drawTimeAndCalendarGroup s) = currentWeather s"
  "topBarOpacity (drawTimeAndCalendarGroup s) = topBarOpacity s"
  "dialImageOpacity (drawTimeAndCalendarGroup s) = dialImageOpacity s"
  "dialMarkerOpacity (drawTimeAndCalendarGroup s) = dialMarkerOpacity s"
  "globalFontOpacity (drawTimeAndCalendarGroup s) = globalFontOpacity s"
  "globalFontFamily (drawTimeAndCalendarGroup s) = globalFontFamily s"
  "displaySeconds (drawTimeAndCalendarGroup s) = displaySeconds s"
  "warnings (drawTimeAndCalendarGroup s) = warnings s"
  "notifications (drawTimeAndCalendarGroup s) = notifications s"
  "persisted (drawTimeAndCalendarGroup s) = persisted s"
  "emitted (drawTimeAndCalendarGroup s) = emitted s"
  "(mainContainer (drawTimeAndCalendarGroup s) = None) = (mainContainer s = None)"
  by (simp_all add: drawTimeAndCalendarGroup_def addChild_def destroyChild_def Let_def)

lemma createButtons_frame:
  "globalUiScale (createButtons s) = globalUiScale s"
  "dims (createButtons s) = dims s"
  "pixiApp (createButtons s) = pixiApp s"
  "timeCalendarContainer (createButtons s) = timeCalendarContainer s"
  "timeText (createButtons s) = timeText s"
  "timeCalendarSeparator (createButtons s) = timeCalendarSeparator s"
  "calendarText (createButtons s) = calendarText s"
  "timeBarGraphic (createButtons s) = timeBarGraphic s"
  "mainHudAreaGraphic (createButtons s) = mainHudAreaGraphic s"
  "radialDialBackground (createButtons s) = radialDialBackground s"
  "dialMarker (createButtons s) = dialMarker s"
  "weatherText (createButtons s) = weatherText s"
  "dialGradientSprite (createButtons s) = dialGradientSprite s"
  "dialGradientContainer (createButtons s) = dialGradientContainer s"
  "dialInteractiveArea (createButtons s) = dialInteractiveArea s"
  "currentWeather (createButtons s) = currentWeather s"
  "topBarOpacity (createButtons s) = topBarOpacity s"
  "dialImageOpacity (createButtons s) = dialImageOpacity s"
  "dialMarkerOpacity (createButtons s) = dialMarkerOpacity s"
  "globalFontOpacity (createButtons s) = globalFontOpacity s"
  "globalFontFamily (createButtons s) = globalFontFamily s"
  "displaySeconds (createButtons s) = displaySeconds s"
  "warnings (createButtons s) = warnings s"
  "notifications (createButtons s) = notifications s"
  "persisted (createButtons s) = persisted s"
  "emitted (createButtons s) = emitted s"
  "(mainContainer (createButtons s) = None) = (mainContainer s = None)"
  by (simp_all add: createButtons_def addChild_def Let_def)

lemma destroyRewindHourButton_frame:
  "globalUiScale (final (destroyRewindHourButton s)) = globalUiScale s"
  "dims (final (destroyRewindHourButton s)) = dims s"
  "pixiApp (final (destroyRewindHourButton s)) = pixiApp s"
  "timeCalendarContainer (final (destroyRewindHourButton s)) = timeCalendarContainer s"
  "timeText (final (destroyRewindHourButton s)) = timeText s"
  "timeCalendarSeparator (final (destroyRewindHourButton s)) = timeCalendarSeparator s"
  "calendarText (final (destroyRewindHourButton s)) = calendarText s"
  "timeBarGraphic (final (destroyRewindHourButton s)) = timeBarGraphic s"
  "mainHudAreaGraphic (final (destroyRewindHourButton s)) = mainHudAreaGraphic s"
  "radialDialBackground (final (destroyRewindHourButton s)) = radialDialBackground s"
  "dialMarker (final (destroyRewindHourButton s)) = dialMarker s"
  "weatherText (final (destroyRewindHourButton s)) = weatherText s"
  "rewindDayButton (final (destroyRewindHourButton s)) = rewindDayButton s"
  "advanceHourButton (final (destroyRewindHourButton s)) = advanceHourButton s"
  "advanceDayButton (final (destroyRewindHourButton s)) = advanceDayButton s"
  "dialGradientSprite (final (destroyRewindHourButton s)) = dialGradientSprite s"
  "dialGradientContainer (final (destroyRewindHourButton s)) = dialGradientContainer s"
  "dialInteractiveArea (final (destroyRewindHourButton s)) = dialInteractiveArea s"
  "currentWeather (final (destroyRewindHourButton s)) = currentWeather s"
  "topBarOpacity (final (destroyRewindHourButton s)) = topBarOpacity s"
  "dialImageOpacity (final (destroyRewindHourButton s)) = dialImageOpacity s"
  "dialMarkerOpacity (final (destroyRewindHourButton s)) = dialMarkerOpacity s"
  "globalFontOpacity (final (destroyRewindHourButton s)) = globalFontOpacity s"
  "globalFontFamily (final (destroyRewindHourButton s)) = globalFontFamily s"
  "displaySeconds (final (destroyRewindHourButton s)) = displaySeconds s"
  "warnings (final (destroyRewindHourButton s)) = warnings s"
  "notifications (final (destroyRewindHourButton s)) = notifications s"
  "persisted (final (destroyRewindHourButton s)) = persisted s"
  "emitted (final (destroyRewindHourButton s)) = emitted s"
  "(mainContainer (final (destroyRewindHourButton s)) = None) = (mainContainer s = None)"
  by (simp_all add: destroyRewindHourButton_def destroyButton_def destroyChild_def split: option.splits button.splits)

lemma destroyRewindDayButton_frame:
  "globalUiScale (final (destroyRewindDayButton s)) = globalUiScale s"
  "dims (final (destroyRewindDayButton s)) = dims s"
  "pixiApp (final (destroyRewindDayButton s)) = pixiApp s"
  "timeCalendarContainer (final (destroyRewindDayButton s)) = timeCalendarContainer s"
  "timeText (final (destroyRewindDayButton s)) = timeText s"
  "timeCalendarSeparator (final (destroyRewindDayButton s)) = timeCalendarSeparator s"
  "calendarText (final (destroyRewindDayButton s)) = calendarText s"
  "timeBarGraphic (final (destroyRewindDayButton s)) = timeBarGraphic s"
  "mainHudAreaGraphic (final (destroyRewindDayButton s)) = mainHudAreaGraphic s"
  "radialDialBackground (final (destroyRewindDayButton s)) = radialDialBackground s"
  "dialMarker (final (destroyRewindDayButton s)) = dialMarker s"
  "weatherText (final (destroyRewindDayButton s)) = weatherText s"
  "rewindHourButton (final (destroyRewindDayButton s)) = rewindHourButton s"
  "advanceHourButton (final (destroyRewindDayButton s)) = advanceHourButton s"
  "advanceDayButton (final (destroyRewindDayButton s)) = advanceDayButton s"
  "dialGradientSprite (final (destroyRewindDayButton s)) = dialGradientSprite s"
  "dialGradientContainer (final (destroyRewindDayButton s)) = dialGradientContainer s"
  "dialInteractiveArea (final (destroyRewindDayButton s)) = dialInteractiveArea s"
  "currentWeather (final (destroyRewindDayButton s)) = currentWeather s"
  "topBarOpacity (final (destroyRewindDayButton s)) = topBarOpacity s"
  "dialImageOpacity (final (destroyRewindDayButton s)) = dialImageOpacity s"
  "dialMarkerOpacity (final (destroyRewindDayButton s)) = dialMarkerOpacity s"
  "globalFontOpacity (final (destroyRewindDayButton s)) = globalFontOpacity s"
  "globalFontFamily (final (destroyRewindDayButton s)) = globalFontFamily s"
  "displaySeconds (final (destroyRewindDayButton s)) = displaySeconds s"
  "warnings (final (destroyRewindDayButton s)) = warnings s"
  "notifications (final (destroyRewindDayButton s)) = notifications s"
  "persisted (final (destroyRewindDayButton s)) = persisted s"
  "emitted (final (destroyRewindDayButton s)) = emitted s"
  "(mainContainer (final (destroyRewindDayButton s)) = None) = (mainContainer s = None)"
  by (simp_all add: destroyRewindDayButton_def destroyButton_def destroyChild_def split: option.splits button.splits)

lemma destroyAdvanceHourButton_frame:
  "globalUiScale (final (destroyAdvanceHourButton s)) = globalUiScale s"
  "dims (final (destroyAdvanceHourButton s)) = dims s"
  "pixiApp (final (destroyAdvanceHourButton s)) = pixiApp s"
  "timeCalendarContainer (final (destroyAdvanceHourButton s)) = timeCalendarContainer s"
  "timeText (final (destroyAdvanceHourButton s)) = timeText s"
  "timeCalendarSeparator (final (destroyAdvanceHourButton s)) = timeCalendarSeparator s"
  "calendarText (final (destroyAdvanceHourButton s)) = calendarText s"
  "timeBarGraphic (final (destroyAdvanceHourButton s)) = timeBarGraphic s"
  "mainHudAreaGraphic (final (destroyAdvanceHourButton s)) = mainHudAreaGraphic s"
  "radialDialBackground (final (destroyAdvanceHourButton s)) = radialDialBackground s"
  "dialMarker (final (destroyAdvanceHourButton s)) = dialMarker s"
  "weatherText (final (destroyAdvanceHourButton s)) = weatherText s"
  "rewindHourButton (final (destroyAdvanceHourButton s)) = rewindHourButton s"
  "rewindDayButton (final (destroyAdvanceHourButton s)) = rewindDayButton s"
  "advanceDayButton (final (destroyAdvanceHourButton s)) = advanceDayButton s"
  "dialGradientSprite (final (destroyAdvanceHourButton s)) = dialGradientSprite s"
  "dialGradientContainer (final (destroyAdvanceHourButton s)) = dialGradientContainer s"
  "dialInteractiveArea (final (destroyAdvanceHourButton s)) = dialInteractiveArea s"
  "currentWeather (final (destroyAdvanceHourButton s)) = currentWeather s"
  "topBarOpacity (final (destroyAdvanceHourButton s)) = topBarOpacity s"
  "dialImageOpacity (final (destroyAdvanceHourButton s)) = dialImageOpacity s"
  "dialMarkerOpacity (final (destroyAdvanceHourButton s)) = dialMarkerOpacity s"
  "globalFontOpacity (final (destroyAdvanceHourButton s)) = globalFontOpacity s"
  "globalFontFamily (final (destroyAdvanceHourButton s)) = globalFontFamily s"
  "displaySeconds (final (destroyAdvanceHourButton s)) = displaySeconds s"
  "warnings (final (destroyAdvanceHourButton s)) = warnings s"
  "notifications (final (destroyAdvanceHourButton s)) = notifications s"
  "persisted (final (destroyAdvanceHourButton s)) = persisted s"
  "emitted (final (destroyAdvanceHourButton s)) = emitted s"
  "(mainContainer (final (destroyAdvanceHourButton s)) = None) = (mainContainer s = None)"
  by (simp_all add: destroyAdvanceHourButton_def destroyButton_def destroyChild_def split: option.splits button.splits)

lemma destroyAdvanceDayButton_frame:
  "globalUiScale (final (destroyAdvanceDayButton s)) = globalUiScale s"
  "dims (final (destroyAdvanceDayButton s)) = dims s"
  "pixiApp (final (destroyAdvanceDayButton s)) = pixiApp s"
  "timeCalendarContainer (final (destroyAdvanceDayButton s)) = timeCalendarContainer s"
  "timeText (final (destroyAdvanceDayButton s)) = timeText s"
  "timeCalendarSeparator (final (destroyAdvanceDayButton s)) = timeCalendarSeparator s"
  "calendarText (final (destroyAdvanceDayButton s)) = calendarText s"
  "timeBarGraphic (final (destroyAdvanceDayButton s)) = timeBarGraphic s"
  "mainHudAreaGraphic (final (destroyAdvanceDayButton s)) = mainHudAreaGraphic s"
  "radialDialBackground (final (destroyAdvanceDayButton s)) = radialDialBackground s"
  "dialMarker (final (destroyAdvanceDayButton s)) = dialMarker s"
  "weatherText (final (destroyAdvanceDayButton s)) = weatherText s"
  "rewindHourButton (final (destroyAdvanceDayButton s)) = rewindHourButton s"
  "rewindDayButton (final (destroyAdvanceDayButton s)) = rewindDayButton s"
  "advanceHourButton (final (destroyAdvanceDayButton s)) = advanceHourButton s"
  "dialGradientSprite (final (destroyAdvanceDayButton s)) = dialGradientSprite s"
  "dialGradientContainer (final (destroyAdvanceDayButton s)) = dialGradientContainer s"
  "dialInteractiveArea (final (destroyAdvanceDayButton s)) = dialInteractiveArea s"
  "currentWeather (final (destroyAdvanceDayButton s)) = currentWeather s"
  "topBarOpacity (final (destroyAdvanceDayButton s)) = topBarOpacity s"
  "dialImageOpacity (final (destroyAdvanceDayButton s)) = dialImageOpacity s"
  "dialMarkerOpacity (final (destroyAdvanceDayButton s)) = dialMarkerOpacity s"
  "globalFontOpacity (final (destroyAdvanceDayButton s)) = globalFontOpacity s"
  "globalFontFamily (final (destroyAdvanceDayButton s)) = globalFontFamily s"
  "displaySeconds (final (destroyAdvanceDayButton s)) = displaySeconds s"
  "warnings (final (destroyAdvanceDayButton s)) = warnings s"
  "notifications (final (destroyAdvanceDayButton s)) = notifications s"
  "persisted (final (destroyAdvanceDayButton s)) = persisted s"
  "emitted (final (destroyAdvanceDayButton s)) = emitted s"
  "(mainContainer (final (destroyAdvanceDayButton s)) = None) = (mainContainer s = None)"
  by (simp_all add: destroyAdvanceDayButton_def destroyButton_def destroyChild_def split: option.splits button.splits)

lemma createDialInteractiveArea_frame:
  "globalUiScale (createDialInteractiveArea h s) = globalUiScale s"
  "dims (createDialInteractiveArea h s) = dims s"
  "pixiApp (createDialInteractiveArea h s) = pixiApp s"
  "timeCalendarContainer (createDialInteractiveArea h s) = timeCalendarContainer s"
  "timeText (createDialInteractiveArea h s) = timeText s"
  "timeCalendarSeparator (createDialInteractiveArea h s) = timeCalendarSeparator s"
  "calendarText (createDialInteractiveArea h s) = calendarText s"
  "timeBarGraphic (createDialInteractiveArea h s) = timeBarGraphic s"
  "mainHudAreaGraphic (createDialInteractiveArea h s) = mainHudAreaGraphic s"
  "radialDialBackground (createDialInteractiveArea h s) = radialDialBackground s"
  "dialMarker (createDialInteractiveArea h s) = dialMarker s"
  "weatherText (createDialInteractiveArea h s) = weatherText s"
  "rewindHourButton (createDialInteractiveArea h s) = rewindHourButton s"
  "rewindDayButton (createDialInteractiveArea h s) = rewindDayButton s"
  "advanceHourButton (createDialInteractiveArea h s) = advanceHourButton s"
  "advanceDayButton (createDialInteractiveArea h s) = advanceDayButton s"
  "dialGradientSprite (createDialInteractiveArea h s) = dialGradientSprite s"
  "dialGradientContainer (createDialInteractiveArea h s) = dialGradientContainer s"
  "currentWeather (createDialInteractiveArea h s) = currentWeather s"
  "topBarOpacity (createDialInteractiveArea h s) = topBarOpacity s"
  "dialImageOpacity (createDialInteractiveArea h s) = dialImageOpacity s"
  "dialMarkerOpacity (createDialInteractiveArea h s) = dialMarkerOpacity s"
  "globalFontOpacity (createDialInteractiveArea h s) = globalFontOpacity s"
  "globalFontFamily (createDialInteractiveArea h s) = globalFontFamily s"
  "displaySeconds (createDialInteractiveArea h s) = displaySeconds s"
  "warnings (createDialInteractiveArea h s) = warnings s"
  "notifications (createDialInteractiveArea h s) = notifications s"
  "persisted (createDialInteractiveArea h s) = persisted s"
  "emitted (createDialInteractiveArea h s) = emitted s"
  "(mainContainer (createDialInteractiveArea h s) = None) = (mainContainer s = None)"
  by (simp_all add: createDialInteractiveArea_def addChild_def destroyChild_def Let_def)

lemma createDialGradientAndMask_frame:
  "globalUiScale (createDialGradientAndMask h s) = globalUiScale s"
  "dims (createDialGradientAndMask h s) = dims s"
  "pixiApp (createDialGradientAndMask h s) = pixiApp s"
  "timeCalendarContainer (createDialGradientAndMask h s) = timeCalendarContainer s"
  "timeText (createDialGradientAndMask h s) = timeText s"
  "timeCalendarSeparator (createDialGradientAndMask h s) = timeCalendarSeparator s"
  "calendarText (createDialGradientAndMask h s) = calendarText s"
  "timeBarGraphic (createDialGradientAndMask h s) = timeBarGraphic s"
  "mainHudAreaGraphic (createDialGradientAndMask h s) = mainHudAreaGraphic s"
  "radialDialBackground (createDialGradientAndMask h s) = radialDialBackground s"
  "dialMarker (createDialGradientAndMask h s) = dialMarker s"
  "weatherText (createDialGradientAndMask h s) = weatherText s"
  "rewindHourButton (createDialGradientAndMask h s) = rewindHourButton s"
  "rewindDayButton (createDialGradientAndMask h s) = rewindDayButton s"
  "advanceHourButton (createDialGradientAndMask h s) = advanceHourButton s"
  "advanceDayButton (createDialGradientAndMask h s) = advanceDayButton s"
  "currentWeather (createDialGradientAndMask h s) = currentWeather s"
  "topBarOpacity (createDialGradientAndMask h s) = topBarOpacity s"
  "dialImageOpacity (createDialGradientAndMask h s) = dialImageOpacity s"
  "dialMarkerOpacity (createDialGradientAndMask h s) = dialMarkerOpacity s"
  "globalFontOpacity (createDialGradientAndMask h s) = globalFontOpacity s"
  "globalFontFamily (createDialGradientAndMask h s) = globalFontFamily s"
  "displaySeconds (createDialGradientAndMask h s) = displaySeconds s"
  "warnings (createDialGradientAndMask h s) = warnings s"
  "notifications (createDialGradientAndMask h s) = notifications s"
  "persisted (createDialGradientAndMask h s) = persisted s"
  "emitted (createDialGradientAndMask h s) = emitted s"
  "(mainContainer (createDialGradientAndMask h s) = None) = (mainContainer s = None)"
  by (simp_all add: createDialGradientAndMask_def createDialInteractiveArea_def addChild_def destroyChild_def Let_def)

lemma ensureWeatherTextOnTop_frame:
  "globalUiScale (final (ensureWeatherTextOnTop s)) = globalUiScale s"
  "dims (final (ensureWeatherTextOnTop s)) = dims s"
  "pixiApp (final (ensureWeatherTextOnTop s)) = pixiApp s"
  "timeCalendarContainer (final (ensureWeatherTextOnTop s)) = timeCalendarContainer s"
  "timeText (final (ensureWeatherTextOnTop s)) = timeText s"
  "timeCalendarSeparator (final (ensureWeatherTextOnTop s)) = timeCalendarSeparator s"
  "calendarText (final (ensureWeatherTextOnTop s)) = calendarText s"
  "timeBarGraphic (final (ensureWeatherTextOnTop s)) = timeBarGraphic s"
  "mainHudAreaGraphic (final (ensureWeatherTextOnTop s)) = mainHudAreaGraphic s"
  "radialDialBackground (final (ensureWeatherTextOnTop s)) = radialDialBackground s"
  "dialMarker (final (ensureWeatherTextOnTop s)) = dialMarker s"
  "rewindHourButton (final (ensureWeatherTextOnTop s)) = rewindHourButton s"
  "rewindDayButton (final (ensureWeatherTextOnTop s)) = rewindDayButton s"
  "advanceHourButton (final (ensureWeatherTextOnTop s)) = advanceHourButton s"
  "advanceDayButton (final (ensureWeatherTextOnTop s)) = advanceDayButton s"
  "dialGradientSprite (final (ensureWeatherTextOnTop s)) = dialGradientSprite s"
  "dialGradientContainer (final (ensureWeatherTextOnTop s)) = dialGradientContainer s"
  "dialInteractiveArea (final (ensureWeatherTextOnTop s)) = dialInteractiveArea s"
  "currentWeather (final (ensureWeatherTextOnTop s)) = currentWeather s"
  "topBarOpacity (final (ensureWeatherTextOnTop s)) = topBarOpacity s"
  "dialImageOpacity (final (ensureWeatherTextOnTop s)) = dialImageOpacity s"
  "dialMarkerOpacity (final (ensureWeatherTextOnTop s)) = dialMarkerOpacity s"
  "globalFontOpacity (final (ensureWeatherTextOnTop s)) = globalFontOpacity s"
  "globalFontFamily (final (ensureWeatherTextOnTop s)) = globalFontFamily s"
  "displaySeconds (final (ensureWeatherTextOnTop s)) = displaySeconds s"
  "warnings (final (ensureWeatherTextOnTop s)) = warnings s"
  "notifications (final (ensureWeatherTextOnTop s)) = notifications s"
  "persisted (final (ensureWeatherTextOnTop s)) = persisted s"
  "emitted (final (ensureWeatherTextOnTop s)) = emitted s"
  "(mainContainer (final (ensureWeatherTextOnTop s)) = None) = (mainContainer s = None)"
  by (simp_all add: ensureWeatherTextOnTop_def split: option.splits sum.splits)

lemma drawWeatherText_frame:
  "globalUiScale (final (drawWeatherText s)) = globalUiScale s"
  "dims (final (drawWeatherText s)) = dims s"
  "pixiApp (final (drawWeatherText s)) = pixiApp s"
  "timeCalendarContainer (final (drawWeatherText s)) = timeCalendarContainer s"
  "timeText (final (drawWeatherText s)) = timeText s"
  "timeCalendarSeparator (final (drawWeatherText s)) = timeCalendarSeparator s"
  "calendarText (final (drawWeatherText s)) = calendarText s"
  "timeBarGraphic (final (drawWeatherText s)) = timeBarGraphic s"
  "mainHudAreaGraphic (final (drawWeatherText s)) = mainHudAreaGraphic s"
  "radialDialBackground (final (drawWeatherText s)) = radialDialBackground s"
  "dialMarker (final (drawWeatherText s)) = dialMarker s"
  "rewindHourButton (final (drawWeatherText s)) = rewindHourButton s"
  "rewindDayButton (final (drawWeatherText s)) = rewindDayButton s"
  "advanceHourButton (final (drawWeatherText s)) = advanceHourButton s"
  "advanceDayButton (final (drawWeatherText s)) = advanceDayButton s"
  "dialGradientSprite (final (drawWeatherText s)) = dialGradientSprite s"
  "dialGradientContainer (final (drawWeatherText s)) = dialGradientContainer s"
  "dialInteractiveArea (final (drawWeatherText s)) = dialInteractiveArea s"
  "currentWeather (final (drawWeatherText s)) = currentWeather s"
  "topBarOpacity (final (drawWeatherText s)) = topBarOpacity s"
  "dialImageOpacity (final (drawWeatherText s)) = dialImageOpacity s"
  "dialMarkerOpacity (final (drawWeatherText s)) = dialMarkerOpacity s"
  "globalFontOpacity (final (drawWeatherText s)) = globalFontOpacity s"
  "globalFontFamily (final (drawWeatherText s)) = globalFontFamily s"
  "displaySeconds (final (drawWeatherText s)) = displaySeconds s"
  "warnings (final (drawWeatherText s)) = warnings s"
  "notifications (final (drawWeatherText s)) = notifications s"
  "persisted (final (drawWeatherText s)) = persisted s"
  "emitted (final (drawWeatherText s)) = emitted s"
  "(mainContainer (final (drawWeatherText s)) = None) = (mainContainer s = None)"
  by (simp_all add: drawWeatherText_def addChild_def destroyChild_def Let_def ensureWeatherTextOnTop_frame)

lemma updateWeatherDisplay_frame:
  "globalUiScale (final (updateWeatherDisplay v s)) = globalUiScale s"
  "dims (final (updateWeatherDisplay v s)) = dims s"
  "pixiApp (final (updateWeatherDisplay v s)) = pixiApp s"
  "timeCalendarContainer (final (updateWeatherDisplay v s)) = timeCalendarContainer s"
  "timeText (final (updateWeatherDisplay v s)) = timeText s"
  "timeCalendarSeparator (final (updateWeatherDisplay v s)) = timeCalendarSeparator s"
  "calendarText (final (updateWeatherDisplay v s)) = calendarText s"
  "timeBarGraphic (final (updateWeatherDisplay v s)) = timeBarGraphic s"
  "mainHudAreaGraphic (final (updateWeatherDisplay v s)) = mainHudAreaGraphic s"
  "radialDialBackground (final (updateWeatherDisplay v s)) = radialDialBackground s"
  "dialMarker (final (updateWeatherDisplay v s)) = dialMarker s"
  "rewindHourButton (final (updateWeatherDisplay v s)) = rewindHourButton s"
  "rewindDayButton (final (updateWeatherDisplay v s)) = rewindDayButton s"
  "advanceHourButton (final (updateWeatherDisplay v s)) = advanceHourButton s"
  "advanceDayButton (final (updateWeatherDisplay v s)) = advanceDayButton s"
  "dialGradientSprite (final (updateWeatherDisplay v s)) = dialGradientSprite s"
  "dialGradientContainer (final (updateWeatherDisplay v s)) = dialGradientContainer s"
  "dialInteractiveArea (final (updateWeatherDisplay v s)) = dialInteractiveArea s"
  "topBarOpacity (final (updateWeatherDisplay v s)) = topBarOpacity s"
  "dialImageOpacity (final (updateWeatherDisplay v s)) = dialImageOpacity s"
  "dialMarkerOpacity (final (updateWeatherDisplay v s)) = dialMarkerOpacity s"
  "globalFontOpacity (final (updateWeatherDisplay v s)) = globalFontOpacity s"
  "globalFontFamily (final (updateWeatherDisplay v s)) = globalFontFamily s"
  "displaySeconds (final (updateWeatherDisplay v s)) = displaySeconds s"
  "warnings (final (updateWeatherDisplay v s)) = warnings s"
  "notifications (final (updateWeatherDisplay v s)) = notifications s"
  "persisted (final (updateWeatherDisplay v s)) = persisted s"
  "emitted (final (updateWeatherDisplay v s)) = emitted s"
  "(mainContainer (final (updateWeatherDisplay v s)) = None) = (mainContainer s = None)"
  by (simp_all add: updateWeatherDisplay_def Let_def ensureWeatherTextOnTop_frame split: jsval.splits)

lemma updateTimeDisplay_frame:
  "globalUiScale (updateTimeDisplay h s) = globalUiScale s"
  "dims (updateTimeDisplay h s) = dims s"
  "pixiApp (updateTimeDisplay h s) = pixiApp s"
  "timeCalendarContainer (updateTimeDisplay h s) = timeCalendarContainer s"
  "timeCalendarSeparator (updateTimeDisplay h s) = timeCalendarSeparator s"
  "calendarText (updateTimeDisplay h s) = calendarText s"
  "timeBarGraphic (updateTimeDisplay h s) = timeBarGraphic s"
  "mainHudAreaGraphic (updateTimeDisplay h s) = mainHudAreaGraphic s"
  "radialDialBackground (updateTimeDisplay h s) = radialDialBackground s"
  "dialMarker (updateTimeDisplay h s) = dialMarker s"
  "weatherText (updateTimeDisplay h s) = weatherText s"
  "rewindHourButton (updateTimeDisplay h s) = rewindHourButton s"
  "rewindDayButton (updateTimeDisplay h s) = rewindDayButton s"
  "advanceHourButton (updateTimeDisplay h s) = advanceHourButton s"
  "advanceDayButton (updateTimeDisplay h s) = advanceDayButton s"
  "dialGradientSprite (updateTimeDisplay h s) = dialGradientSprite s"
  "dialGradientContainer (updateTimeDisplay h s) = dialGradientContainer s"
  "dialInteractiveArea (updateTimeDisplay h s) = dialInteractiveArea s"
  "currentWeather (updateTimeDisplay h s) = currentWeather s"
  "topBarOpacity (updateTimeDisplay h s) = topBarOpacity s"
  "dialImageOpacity (updateTimeDisplay h s) = dialImageOpacity s"
  "dialMarkerOpacity (updateTimeDisplay h s) = dialMarkerOpacity s"
  "globalFontOpacity (updateTimeDisplay h s) = globalFontOpacity s"
  "globalFontFamily (updateTimeDisplay h s) = globalFontFamily s"
  "displaySeconds (updateTimeDisplay h s) = displaySeconds s"
  "warnings (updateTimeDisplay h s) = warnings s"
  "notifications (updateTimeDisplay h s) = notifications s"
  "persisted (updateTimeDisplay h s) = persisted s"
  "emitted (updateTimeDisplay h s) = emitted s"
  "mainContainer (updateTimeDisplay h s) = mainContainer s"
  by (simp_all add: updateTimeDisplay_def split: option.splits)

lemma updateCalendarDisplay_frame:
  "globalUiScale (final (updateCalendarDisplay h s)) = globalUiScale s"
  "dims (final (updateCalendarDisplay h s)) = dims s"
  "pixiApp (final (updateCalendarDisplay h s)) = pixiApp s"
  "timeCalendarContainer (final (updateCalendarDisplay h s)) = timeCalendarContainer s"
  "timeText (final (updateCalendarDisplay h s)) = timeText s"
  "timeCalendarSeparator (final (updateCalendarDisplay h s)) = timeCalendarSeparator s"
  "timeBarGraphic (final (updateCalendarDisplay h s)) = timeBarGraphic s"
  "mainHudAreaGraphic (final (updateCalendarDisplay h s)) = mainHudAreaGraphic s"
  "radialDialBackground (final (updateCalendarDisplay h s)) = radialDialBackground s"
  "dialMarker (final (updateCalendarDisplay h s)) = dialMarker s"
  "weatherText (final (updateCalendarDisplay h s)) = weatherText s"
  "rewindHourButton (final (updateCalendarDisplay h s)) = rewindHourButton s"
  "rewindDayButton (final (updateCalendarDisplay h s)) = rewindDayButton s"
  "advanceHourButton (final (updateCalendarDisplay h s)) = advanceHourButton s"
  "advanceDayButton (final (updateCalendarDisplay h s)) = advanceDayButton s"
  "dialGradientSprite (final (updateCalendarDisplay h s)) = dialGradientSprite s"
  "dialGradientContainer (final (updateCalendarDisplay h s)) = dialGradientContainer s"
  "dialInteractiveArea (final (updateCalendarDisplay h s)) = dialInteractiveArea s"
  "currentWeather (final (updateCalendarDisplay h s)) = currentWeather s"
  "topBarOpacity (final (updateCalendarDisplay h s)) = topBarOpacity s"
  "dialImageOpacity (final (updateCalendarDisplay h s)) = dialImageOpacity s"
  "dialMarkerOpacity (final (updateCalendarDisplay h s)) = dialMarkerOpacity s"
  "globalFontOpacity (final (updateCalendarDisplay h s)) = globalFontOpacity s"
  "globalFontFamily (final (updateCalendarDisplay h s)) = globalFontFamily s"
  "displaySeconds (final (updateCalendarDisplay h s)) = displaySeconds s"
  "warnings (final (updateCalendarDisplay h s)) = warnings s"
  "notifications (final (updateCalendarDisplay h s)) = notifications s"
  "persisted (final (updateCalendarDisplay h s)) = persisted s"
  "emitted (final (updateCalendarDisplay h s)) = emitted s"
  "mainContainer (final (updateCalendarDisplay h s)) = mainContainer s"
  by (simp_all add: updateCalendarDisplay_def setCalendarText_def split: scGlobal.splits)

lemma updateDialRotation_frame:
  "globalUiScale (updateDialRotation h s) = globalUiScale s"
  "dims (updateDialRotation h s) = dims s"
  "pixiApp (updateDialRotation h s) = pixiApp s"
  "timeCalendarContainer (updateDialRotation h s) = timeCalendarContainer s"
  "timeText (updateDialRotation h s) = timeText s"
  "timeCalendarSeparator (updateDialRotation h s) = timeCalendarSeparator s"
  "calendarText (updateDialRotation h s) = calendarText s"
  "timeBarGraphic (updateDialRotation h s) = timeBarGraphic s"
  "mainHudAreaGraphic (updateDialRotation h s) = mainHudAreaGraphic s"
  "radialDialBackground (updateDialRotation h s) = radialDialBackground s"
  "dialMarker (updateDialRotation h s) = dialMarker s"
  "weatherText (updateDialRotation h s) = weatherText s"
  "rewindHourButton (updateDialRotation h s) = rewindHourButton s"
  "rewindDayButton (updateDialRotation h s) = rewindDayButton s"
  "advanceHourButton (updateDialRotation h s) = advanceHourButton s"
  "advanceDayButton (updateDialRotation h s) = advanceDayButton s"
  "dialGradientContainer (updateDialRotation h s) = dialGradientContainer s"
  "dialInteractiveArea (updateDialRotation h s) = dialInteractiveArea s"
  "currentWeather (updateDialRotation h s) = currentWeather s"
  "topBarOpacity (updateDialRotation h s) = topBarOpacity s"
  "dialImageOpacity (updateDialRotation h s) = dialImageOpacity s"
  "dialMarkerOpacity (updateDialRotation h s) = dialMarkerOpacity s"
  "globalFontOpacity (updateDialRotation h s) = globalFontOpacity s"
  "globalFontFamily (updateDialRotation h s) = globalFontFamily s"
  "displaySeconds (updateDialRotation h s) = displaySeconds s"
  "warnings (updateDialRotation h s) = warnings s"
  "notifications (updateDialRotation h s) = notifications s"
  "persisted (updateDialRotation h s) = persisted s"
  "emitted (updateDialRotation h s) = emitted s"
  "mainContainer (updateDialRotation h s) = mainContainer s"
  by (simp_all add: updateDialRotation_def split: option.splits)


section \<open>Outcomes and children\<close>

text \<open>
  The state in which a sequence of calls ends, and the children that each step keeps
  in the main container.
\<close>

lemma final_andThen:
  "P (final out) \<Longrightarrow> (\<And>s. P s \<Longrightarrow> P (final (f s))) \<Longrightarrow> P (final (andThen out f))"
  by (cases out) simp_all

lemma final_andThen_returned: "returned out \<Longrightarrow> final (andThen out f) = final (f (final out))"
  by (cases out) simp_all

lemma returned_andThen: "returned (andThen out f) = (returned out \<and> returned (f (final out)))"
  by (cases out) simp_all

lemma returned_final: "returned out \<Longrightarrow> out = Returned (final out)"
  by (cases out) simp_all

lemma mem_addChild: "n \<in> set (children s) \<Longrightarrow> n \<in> set (children (addChild c s))"
  by (cases "mainContainer s"; cases "n = c") (simp_all add: addChild_def children_def)

lemma mem_addChild_new: "mainContainer s \<noteq> None \<Longrightarrow> c \<in> set (children (addChild c s))"
  by (cases "mainContainer s") (simp_all add: addChild_def children_def)

lemma mem_destroyChild:
  "n \<in> set (children s) \<Longrightarrow> n \<noteq> c \<Longrightarrow> n \<in> set (children (destroyChild c s))"
  by (cases "mainContainer s") (simp_all add: destroyChild_def children_def)

lemma children_update [simp]:
  "children (s\<lparr>timeBarGraphic := a1\<rparr>) = children s"
  "children (s\<lparr>mainHudAreaGraphic := a2\<rparr>) = children s"
  "children (s\<lparr>radialDialBackground := a3\<rparr>) = children s"
  "children (s\<lparr>dialMarker := a4\<rparr>) = children s"
  "children (s\<lparr>timeCalendarContainer := a5\<rparr>) = children s"
  "children (s\<lparr>timeText := a6\<rparr>) = children s"
  "children (s\<lparr>timeCalendarSeparator := a7\<rparr>) = children s"
  "children (s\<lparr>calendarText := a8\<rparr>) = children s"
  "children (s\<lparr>rewindHourButton := b1\<rparr>) = children s"
  "children (s\<lparr>rewindDayButton := b2\<rparr>) = children s"
  "children (s\<lparr>advanceHourButton := b3\<rparr>) = children s"
  "children (s\<lparr>advanceDayButton := b4\<rparr>) = children s"
  "children (s\<lparr>dialGradientSprite := a9\<rparr>) = children s"
  "children (s\<lparr>dialGradientContainer := c1\<rparr>) = children s"
  "children (s\<lparr>dialInteractiveArea := c2\<rparr>) = children s"
  "children (s\<lparr>weatherText := a10\<rparr>) = children s"
  "children (s\<lparr>currentWeather := w\<rparr>) = children s"
  by (simp_all add: children_def)

lemma mem_drawTimeBar: "n \<in> set (children s) \<Longrightarrow> n \<in> set (children (drawTimeBar s))"
  by (simp add: drawTimeBar_def Let_def mem_addChild)

lemma mem_drawMainHudArea: "n \<in> set (children s) \<Longrightarrow> n \<in> set (children (drawMainHudArea s))"
  by (simp add: drawMainHudArea_def Let_def mem_addChild)

lemma mem_drawRadialDialBackground:
  "n \<in> set (children s) \<Longrightarrow> n \<in> set (children (drawRadialDialBackground s))"
  by (simp add: drawRadialDialBackground_def Let_def mem_addChild)

lemma mem_drawDialMarker: "n \<in> set (children s) \<Longrightarrow> n \<in> set (children (drawDialMarker s))"
  by (simp add: drawDialMarker_def Let_def mem_addChild)

lemma mem_drawTimeAndCalendarGroup:
  "n \<in> set (children s) \<Longrightarrow> n \<in> set (children (drawTimeAndCalendarGroup s))"
  by (cases "mainContainer s"; cases "n = TimeCalendarContainer")
    (simp_all add: drawTimeAndCalendarGroup_def Let_def addChild_def destroyChild_def children_def)

lemma mem_createDialInteractiveArea:
  "n \<in> set (children s) \<Longrightarrow> n \<in> set (children (createDialInteractiveArea h s))"
  by (cases "mainContainer s"; cases "n = DialInteractiveArea")
    (simp_all add: createDialInteractiveArea_def Let_def addChild_def destroyChild_def children_def)

lemma mem_createDialGradientAndMask:
  "n \<in> set (children s) \<Longrightarrow> n \<noteq> DialGradientContainer \<Longrightarrow>
   n \<in> set (children (createDialGradientAndMask h s))"
  by (cases "mainContainer s"; cases "n = DialInteractiveArea")
    (simp_all add: createDialGradientAndMask_def createDialInteractiveArea_def Let_def
      addChild_def destroyChild_def children_def)

lemma setChildIndex_last:
  assumes "c \<in> set cs"
  shows "setChildIndex c (int (length cs) - 1) cs = Inr (remove1 c cs @ [c])"
proof -
  from assms have "0 < length cs" by (cases cs) auto
  moreover from assms have "length (remove1 c cs) = length cs - 1" by (simp add: length_remove1)
  ultimately show ?thesis using assms
    by (simp add: setChildIndex_def nat_diff_distrib')
qed

lemma setChildIndex_absent: "c \<notin> set cs \<Longrightarrow> setChildIndex c i cs = Inl PixiError"
  by (simp add: setChildIndex_def)

lemma ensure_children:
  "children (final (ensureWeatherTextOnTop s)) =
     (if weatherText s \<noteq> None \<and> WeatherText \<in> set (children s)
      then remove1 WeatherText (children s) @ [WeatherText] else children s)"
proof (cases "weatherText s")
  case None
  then show ?thesis by (simp add: ensureWeatherTextOnTop_def)
next
  case w: (Some w)
  show ?thesis
  proof (cases "mainContainer s")
    case None
    then show ?thesis using w by (simp add: ensureWeatherTextOnTop_def children_def)
  next
    case (Some cs)
    then show ?thesis using w
      by (cases "WeatherText \<in> set cs")
        (simp_all add: ensureWeatherTextOnTop_def children_def setChildIndex_last
          setChildIndex_absent)
  qed
qed

lemma mem_ensure:
  "n \<in> set (children s) \<Longrightarrow> n \<in> set (children (final (ensureWeatherTextOnTop s)))"
  by (cases "n = WeatherText") (simp_all add: ensure_children)


section \<open>The time advance controls\<close>

text \<open>
  \<^verbatim>\<open>_drawTimeAdvanceControls\<close> returns exactly when no button field is stale; then the
  buttons are destroyed, and created anew for a GM.
\<close>

lemma destroy_returned:
  "\<not> stale (rewindHourButton s) \<Longrightarrow> returned (destroyRewindHourButton s)"
  "\<not> stale (rewindDayButton s) \<Longrightarrow> returned (destroyRewindDayButton s)"
  "\<not> stale (advanceHourButton s) \<Longrightarrow> returned (destroyAdvanceHourButton s)"
  "\<not> stale (advanceDayButton s) \<Longrightarrow> returned (destroyAdvanceDayButton s)"
  by (simp_all add: stale_def destroyRewindHourButton_def destroyRewindDayButton_def
      destroyAdvanceHourButton_def destroyAdvanceDayButton_def destroyButton_def
      split: option.splits button.splits)

lemma destroy_threw:
  "stale (rewindHourButton s) \<Longrightarrow> destroyRewindHourButton s = Threw TypeError s"
  "stale (rewindDayButton s) \<Longrightarrow> destroyRewindDayButton s = Threw TypeError s"
  "stale (advanceHourButton s) \<Longrightarrow> destroyAdvanceHourButton s = Threw TypeError s"
  "stale (advanceDayButton s) \<Longrightarrow> destroyAdvanceDayButton s = Threw TypeError s"
  by (simp_all add: stale_def destroyRewindHourButton_def destroyRewindDayButton_def
      destroyAdvanceHourButton_def destroyAdvanceDayButton_def destroyButton_def
      split: option.splits button.splits)

lemma destroy_field:
  "returned (destroyRewindHourButton s) \<Longrightarrow>
     rewindHourButton (final (destroyRewindHourButton s)) = killed (rewindHourButton s)"
  "returned (destroyRewindDayButton s) \<Longrightarrow>
     rewindDayButton (final (destroyRewindDayButton s)) = killed (rewindDayButton s)"
  "returned (destroyAdvanceHourButton s) \<Longrightarrow>
     advanceHourButton (final (destroyAdvanceHourButton s)) = killed (advanceHourButton s)"
  "returned (destroyAdvanceDayButton s) \<Longrightarrow>
     advanceDayButton (final (destroyAdvanceDayButton s)) = killed (advanceDayButton s)"
  by (simp_all add: killed_def destroyRewindHourButton_def destroyRewindDayButton_def
      destroyAdvanceHourButton_def destroyAdvanceDayButton_def destroyButton_def
      destroyChild_def split: option.splits button.splits)

lemma mem_destroy:
  "n \<in> set (children s) \<Longrightarrow> n \<noteq> RewindHourButton \<Longrightarrow>
     n \<in> set (children (final (destroyRewindHourButton s)))"
  "n \<in> set (children s) \<Longrightarrow> n \<noteq> RewindDayButton \<Longrightarrow>
     n \<in> set (children (final (destroyRewindDayButton s)))"
  "n \<in> set (children s) \<Longrightarrow> n \<noteq> AdvanceHourButton \<Longrightarrow>
     n \<in> set (children (final (destroyAdvanceHourButton s)))"
  "n \<in> set (children s) \<Longrightarrow> n \<noteq> AdvanceDayButton \<Longrightarrow>
     n \<in> set (children (final (destroyAdvanceDayButton s)))"
  by (simp_all add: destroyRewindHourButton_def destroyRewindDayButton_def
      destroyAdvanceHourButton_def destroyAdvanceDayButton_def destroyButton_def
      mem_destroyChild split: option.splits button.splits)

lemma createButton_cong: "dims a = dims b \<Longrightarrow> globalFontOpacity a = globalFontOpacity b \<Longrightarrow>
  createButton i a = createButton i b"
  by (simp add: createButton_def)

lemma createButtons_fields:
  "rewindHourButton (createButtons s) = Some (createButton ''uf04b'' s)"
  "rewindDayButton (createButtons s) = Some (createButton ''uf049'' s)"
  "advanceHourButton (createButtons s) = Some (createButton ''uf04b'' s)"
  "advanceDayButton (createButtons s) = Some (createButton ''uf050'' s)"
  by (simp_all add: createButtons_def addChild_def Let_def createButton_def)

lemma mem_createButtons:
  "n \<in> set (children s) \<Longrightarrow> n \<in> set (children (createButtons s))"
  by (simp add: createButtons_def Let_def mem_addChild)

lemma createButtons_nodes:
  assumes "mainContainer s \<noteq> None"
  shows "RewindHourButton \<in> set (children (createButtons s))"
    and "RewindDayButton \<in> set (children (createButtons s))"
    and "AdvanceHourButton \<in> set (children (createButtons s))"
    and "AdvanceDayButton \<in> set (children (createButtons s))"
  using assms
  by (cases "mainContainer s"; simp add: createButtons_def Let_def addChild_def children_def)+

lemmas destroy_frames =
  destroyRewindHourButton_frame destroyRewindDayButton_frame
  destroyAdvanceHourButton_frame destroyAdvanceDayButton_frame

lemma drawTimeAdvanceControls_returned:
  "returned (drawTimeAdvanceControls h s) =
     (mainContainer s = None \<or> noStaleButtons s)"
proof (cases "mainContainer s = None")
  case True
  then show ?thesis by (simp add: drawTimeAdvanceControls_def)
next
  case False
  have r1: "returned (destroyRewindHourButton x) = (\<not> stale (rewindHourButton x))"
    and r2: "returned (destroyRewindDayButton x) = (\<not> stale (rewindDayButton x))"
    and r3: "returned (destroyAdvanceHourButton x) = (\<not> stale (advanceHourButton x))"
    and r4: "returned (destroyAdvanceDayButton x) = (\<not> stale (advanceDayButton x))" for x
    using destroy_returned [of x] destroy_threw [of x] by auto
  show ?thesis using False
    by (auto simp: drawTimeAdvanceControls_def returned_andThen r1 r2 r3 r4 destroy_frames
        noStaleButtons_def)
qed

lemma drawTimeAdvanceControls_final:
  assumes "mainContainer s \<noteq> None" "noStaleButtons s"
  shows "final (drawTimeAdvanceControls h s) =
           (if \<not> isGM h then afterDestroy s else createButtons (afterDestroy s))"
proof -
  have r: "returned (destroyRewindHourButton s)"
    "returned (destroyRewindDayButton (final (destroyRewindHourButton s)))"
    "returned (destroyAdvanceHourButton (final (destroyRewindDayButton (final (destroyRewindHourButton s)))))"
    "returned (destroyAdvanceDayButton (final (destroyAdvanceHourButton
       (final (destroyRewindDayButton (final (destroyRewindHourButton s)))))))"
    using assms(2) by (simp_all add: noStaleButtons_def destroy_returned destroy_frames)
  show ?thesis using assms(1) r
    by (auto simp: drawTimeAdvanceControls_def final_andThen_returned afterDestroy_def)
qed

lemma dtac_invariant:
  assumes "P s"
    and "\<And>x. P x \<Longrightarrow> P (final (destroyRewindHourButton x))"
    and "\<And>x. P x \<Longrightarrow> P (final (destroyRewindDayButton x))"
    and "\<And>x. P x \<Longrightarrow> P (final (destroyAdvanceHourButton x))"
    and "\<And>x. P x \<Longrightarrow> P (final (destroyAdvanceDayButton x))"
    and "\<And>x. P x \<Longrightarrow> P (createButtons x)"
  shows "P (final (drawTimeAdvanceControls h s))"
proof (cases "mainContainer s = None")
  case True
  then show ?thesis using assms(1) by (simp add: drawTimeAdvanceControls_def)
next
  case False
  have "P (final (andThen (destroyRewindHourButton s)
          (\<lambda>s1. andThen (destroyRewindDayButton s1)
             (\<lambda>s2. andThen (destroyAdvanceHourButton s2)
                (\<lambda>s3. andThen (destroyAdvanceDayButton s3)
                   (\<lambda>s4. Returned (if \<not> isGM h then s4 else createButtons s4)))))))"
  proof (rule final_andThen [where P = P])
    show "P (final (destroyRewindHourButton s))" using assms(1) by (rule assms(2))
  next
    fix s1 assume p1: "P s1"
    show "P (final (andThen (destroyRewindDayButton s1)
             (\<lambda>s2. andThen (destroyAdvanceHourButton s2)
                (\<lambda>s3. andThen (destroyAdvanceDayButton s3)
                   (\<lambda>s4. Returned (if \<not> isGM h then s4 else createButtons s4))))))"
    proof (rule final_andThen [where P = P])
      show "P (final (destroyRewindDayButton s1))" using p1 by (rule assms(3))
    next
      fix s2 assume p2: "P s2"
      show "P (final (andThen (destroyAdvanceHourButton s2)
                (\<lambda>s3. andThen (destroyAdvanceDayButton s3)
                   (\<lambda>s4. Returned (if \<not> isGM h then s4 else createButtons s4)))))"
      proof (rule final_andThen [where P = P])
        show "P (final (destroyAdvanceHourButton s2))" using p2 by (rule assms(4))
      next
        fix s3 assume p3: "P s3"
        show "P (final (andThen (destroyAdvanceDayButton s3)
                   (\<lambda>s4. Returned (if \<not> isGM h then s4 else createButtons s4))))"
        proof (rule final_andThen [where P = P])
          show "P (final (destroyAdvanceDayButton s3))" using p3 by (rule assms(5))
        next
          fix s4 assume "P s4"
          then show "P (final (Returned (if \<not> isGM h then s4 else createButtons s4)))"
            using assms(6) by simp
        qed
      qed
    qed
  qed
  then show ?thesis using False by (auto simp: drawTimeAdvanceControls_def)
qed

lemma drawTimeAdvanceControls_frame:
  "globalUiScale (final (drawTimeAdvanceControls h s)) = globalUiScale s"
  "dims (final (drawTimeAdvanceControls h s)) = dims s"
  "pixiApp (final (drawTimeAdvanceControls h s)) = pixiApp s"
  "timeCalendarContainer (final (drawTimeAdvanceControls h s)) = timeCalendarContainer s"
  "timeText (final (drawTimeAdvanceControls h s)) = timeText s"
  "timeCalendarSeparator (final (drawTimeAdvanceControls h s)) = timeCalendarSeparator s"
  "calendarText (final (drawTimeAdvanceControls h s)) = calendarText s"
  "timeBarGraphic (final (drawTimeAdvanceControls h s)) = timeBarGraphic s"
  "mainHudAreaGraphic (final (drawTimeAdvanceControls h s)) = mainHudAreaGraphic s"
  "radialDialBackground (final (drawTimeAdvanceControls h s)) = radialDialBackground s"
  "dialMarker (final (drawTimeAdvanceControls h s)) = dialMarker s"
  "weatherText (final (drawTimeAdvanceControls h s)) = weatherText s"
  "dialGradientSprite (final (drawTimeAdvanceControls h s)) = dialGradientSprite s"
  "dialGradientContainer (final (drawTimeAdvanceControls h s)) = dialGradientContainer s"
  "dialInteractiveArea (final (drawTimeAdvanceControls h s)) = dialInteractiveArea s"
  "currentWeather (final (drawTimeAdvanceControls h s)) = currentWeather s"
  "topBarOpacity (final (drawTimeAdvanceControls h s)) = topBarOpacity s"
  "dialImageOpacity (final (drawTimeAdvanceControls h s)) = dialImageOpacity s"
  "dialMarkerOpacity (final (drawTimeAdvanceControls h s)) = dialMarkerOpacity s"
  "globalFontOpacity (final (drawTimeAdvanceControls h s)) = globalFontOpacity s"
  "globalFontFamily (final (drawTimeAdvanceControls h s)) = globalFontFamily s"
  "displaySeconds (final (drawTimeAdvanceControls h s)) = displaySeconds s"
  "warnings (final (drawTimeAdvanceControls h s)) = warnings s"
  "notifications (final (drawTimeAdvanceControls h s)) = notifications s"
  "persisted (final (drawTimeAdvanceControls h s)) = persisted s"
  "emitted (final (drawTimeAdvanceControls h s)) = emitted s"
  subgoal by (rule dtac_invariant [where P = "\<lambda>x. globalUiScale x = globalUiScale s"];
      simp add: destroy_frames createButtons_frame)
  subgoal by (rule dtac_invariant [where P = "\<lambda>x. dims x = dims s"];
      simp add: destroy_frames createButtons_frame)
  subgoal by (rule dtac_invariant [where P = "\<lambda>x. pixiApp x = pixiApp s"];
      simp add: destroy_frames createButtons_frame)
  subgoal by (rule dtac_invariant [where P = "\<lambda>x. timeCalendarContainer x = timeCalendarContainer s"];
      simp add: destroy_frames createButtons_frame)
  subgoal by (rule dtac_invariant [where P = "\<lambda>x. timeText x = timeText s"];
      simp add: destroy_frames createButtons_frame)
  subgoal by (rule dtac_invariant [where P = "\<lambda>x. timeCalendarSeparator x = timeCalendarSeparator s"];
      simp add: destroy_frames createButtons_frame)
  subgoal by (rule dtac_invariant [where P = "\<lambda>x. calendarText x = calendarText s"];
      simp add: destroy_frames createButtons_frame)
  subgoal by (rule dtac_invariant [where P = "\<lambda>x. timeBarGraphic x = timeBarGraphic s"];
      simp add: destroy_frames createButtons_frame)
  subgoal by (rule dtac_invariant [where P = "\<lambda>x. mainHudAreaGraphic x = mainHudAreaGraphic s"];
      simp add: destroy_frames createButtons_frame)
  subgoal by (rule dtac_invariant [where P = "\<lambda>x. radialDialBackground x = radialDialBackground s"];
      simp add: destroy_frames createButtons_frame)
  subgoal by (rule dtac_invariant [where P = "\<lambda>x. dialMarker x = dialMarker s"];
      simp add: destroy_frames createButtons_frame)
  subgoal by (rule dtac_invariant [where P = "\<lambda>x. weatherText x = weatherText s"];
      simp add: destroy_frames createButtons_frame)
  subgoal by (rule dtac_invariant [where P = "\<lambda>x. dialGradientSprite x = dialGradientSprite s"];
      simp add: destroy_frames createButtons_frame)
  subgoal by (rule dtac_invariant [where P = "\<lambda>x. dialGradientContainer x = dialGradientContainer s"];
      simp add: destroy_frames createButtons_frame)
  subgoal by (rule dtac_invariant [where P = "\<lambda>x. dialInteractiveArea x = dialInteractiveArea s"];
      simp add: destroy_frames createButtons_frame)
  subgoal by (rule dtac_invariant [where P = "\<lambda>x. currentWeather x = currentWeather s"];
      simp add: destroy_frames createButtons_frame)
  subgoal by (rule dtac_invariant [where P = "\<lambda>x. topBarOpacity x = topBarOpacity s"];
      simp add: destroy_frames createButtons_frame)
  subgoal by (rule dtac_invariant [where P = "\<lambda>x. dialImageOpacity x = dialImageOpacity s"];
      simp add: destroy_frames createButtons_frame)
  subgoal by (rule dtac_invariant [where P = "\<lambda>x. dialMarkerOpacity x = dialMarkerOpacity s"];
      simp add: destroy_frames createButtons_frame)
  subgoal by (rule dtac_invariant [where P = "\<lambda>x. globalFontOpacity x = globalFontOpacity s"];
      simp add: destroy_frames createButtons_frame)
  subgoal by (rule dtac_invariant [where P = "\<lambda>x. globalFontFamily x = globalFontFamily s"];
      simp add: destroy_frames createButtons_frame)
  subgoal by (rule dtac_invariant [where P = "\<lambda>x. displaySeconds x = displaySeconds s"];
      simp add: destroy_frames createButtons_frame)
  subgoal by (rule dtac_invariant [where P = "\<lambda>x. warnings x = warnings s"];
      simp add: destroy_frames createButtons_frame)
  subgoal by (rule dtac_invariant [where P = "\<lambda>x. notifications x = notifications s"];
      simp add: destroy_frames createButtons_frame)
  subgoal by (rule dtac_invariant [where P = "\<lambda>x. persisted x = persisted s"];
      simp add: destroy_frames createButtons_frame)
  subgoal by (rule dtac_invariant [where P = "\<lambda>x. emitted x = emitted s"];
      simp add: destroy_frames createButtons_frame)
  done

lemma drawTimeAdvanceControls_container:
  "(mainContainer (final (drawTimeAdvanceControls h s)) = None) = (mainContainer s = None)"
  by (rule dtac_invariant [where P = "\<lambda>x. (mainContainer x = None) = (mainContainer s = None)"];
      simp add: destroy_frames createButtons_frame)

lemma mem_drawTimeAdvanceControls:
  assumes "n \<in> set (children s)"
    and "n \<notin> {RewindHourButton, RewindDayButton, AdvanceHourButton, AdvanceDayButton}"
  shows "n \<in> set (children (final (drawTimeAdvanceControls h s)))"
  using assms
  by (intro dtac_invariant [where P = "\<lambda>x. n \<in> set (children x)"])
    (simp_all add: mem_destroy mem_createButtons)


section \<open>The weather text stays on top\<close>

lemma ensure_attached:
  assumes "weatherTextAttached s"
  shows "returned (ensureWeatherTextOnTop s)"
    and "weatherTextOnTop (final (ensureWeatherTextOnTop s))"
    and "weatherTextAttached (final (ensureWeatherTextOnTop s))"
  using assms
  by (auto simp: ensureWeatherTextOnTop_def weatherTextAttached_def weatherTextOnTop_def
      children_def setChildIndex_last split: option.splits)

lemma ensure_frame:
  "(weatherText (final (ensureWeatherTextOnTop s)) = None) = (weatherText s = None) \<and>
   (mainContainer (final (ensureWeatherTextOnTop s)) = None) = (mainContainer s = None)"
  by (simp add: ensureWeatherTextOnTop_def split: option.splits sum.splits)

lemma keepsWeather_refl: "keepsWeather s s"
  by (simp add: keepsWeather_def)

lemma keepsWeather_trans: "keepsWeather s s' \<Longrightarrow> keepsWeather s' s'' \<Longrightarrow> keepsWeather s s''"
  by (auto simp: keepsWeather_def)

lemma keepsWeather_addChild: "keepsWeather s (addChild c s)"
  by (cases "mainContainer s"; cases "WeatherText = c")
    (simp_all add: keepsWeather_def addChild_def children_def)

lemma keepsWeather_destroyChild: "c \<noteq> WeatherText \<Longrightarrow> keepsWeather s (destroyChild c s)"
  by (cases "mainContainer s") (simp_all add: keepsWeather_def destroyChild_def children_def)

lemma keepsWeather_drawTimeBar: "keepsWeather s (drawTimeBar s)"
  by (cases "mainContainer s") (auto simp: keepsWeather_def drawTimeBar_def addChild_def children_def Let_def)

lemma keepsWeather_drawMainHudArea: "keepsWeather s (drawMainHudArea s)"
  by (cases "mainContainer s") (auto simp: keepsWeather_def drawMainHudArea_def addChild_def children_def Let_def)

lemma keepsWeather_drawRadialDialBackground: "keepsWeather s (drawRadialDialBackground s)"
  by (cases "mainContainer s") (auto simp: keepsWeather_def drawRadialDialBackground_def addChild_def children_def Let_def)

lemma keepsWeather_drawDialMarker: "keepsWeather s (drawDialMarker s)"
  by (cases "mainContainer s") (auto simp: keepsWeather_def drawDialMarker_def addChild_def children_def Let_def)

lemma keepsWeather_drawTimeAndCalendarGroup: "keepsWeather s (drawTimeAndCalendarGroup s)"
  by (cases "mainContainer s") (auto simp: keepsWeather_def drawTimeAndCalendarGroup_def addChild_def destroyChild_def children_def Let_def)

lemma keepsWeather_drawTimeAdvanceControls:
  "keepsWeather s (final (drawTimeAdvanceControls h s))"
  by (simp add: keepsWeather_def drawTimeAdvanceControls_frame drawTimeAdvanceControls_container
      mem_drawTimeAdvanceControls)

lemma keepsWeather_createDialInteractiveArea: "keepsWeather s (createDialInteractiveArea h s)"
  by (cases "mainContainer s") (auto simp: keepsWeather_def createDialInteractiveArea_def addChild_def destroyChild_def children_def Let_def)

lemma keepsWeather_createDialGradientAndMask: "keepsWeather s (createDialGradientAndMask h s)"
  by (cases "mainContainer s") (auto simp: keepsWeather_def createDialGradientAndMask_def createDialInteractiveArea_def addChild_def destroyChild_def children_def Let_def)

lemma attached_keeps: "weatherTextAttached s \<Longrightarrow> keepsWeather s s' \<Longrightarrow> weatherTextAttached s'"
  by (auto simp: weatherTextAttached_def keepsWeather_def)

lemma sameScene_onTop: "sameScene s s' \<Longrightarrow> weatherTextOnTop s' = weatherTextOnTop s"
  by (auto simp: sameScene_def weatherTextOnTop_def children_def)

lemma sameScene_attached: "sameScene s s' \<Longrightarrow> weatherTextAttached s' = weatherTextAttached s"
  by (auto simp: sameScene_def weatherTextAttached_def children_def)

lemma sameScene_updateTimeDisplay: "sameScene s (updateTimeDisplay h s)"
  by (simp add: sameScene_def updateTimeDisplay_def split: option.splits)

lemma sameScene_updateDialRotation: "sameScene s (updateDialRotation h s)"
  by (simp add: sameScene_def updateDialRotation_def split: option.splits)

lemma sameScene_updateCalendarDisplay: "sameScene s (final (updateCalendarDisplay h s))"
  by (simp add: sameScene_def updateCalendarDisplay_def setCalendarText_def
      split: scGlobal.splits)

lemma drawWeatherText_attaches:
  assumes "mainContainer s \<noteq> None \<or> weatherTextAttached s"
  shows "returned (drawWeatherText s) \<and>
         weatherTextAttached (final (drawWeatherText s)) \<and>
         weatherTextOnTop (final (drawWeatherText s)) \<and>
         (mainContainer s \<noteq> None \<longrightarrow> weatherText (final (drawWeatherText s)) \<noteq> None) \<and>
         (mainContainer (final (drawWeatherText s)) = None) = (mainContainer s = None)"
proof (cases "mainContainer s")
  case None
  with assms have "weatherTextAttached s" by simp
  with None have "weatherText s = None" by (simp add: weatherTextAttached_def children_def)
  with None show ?thesis
    by (simp add: drawWeatherText_def weatherTextAttached_def weatherTextOnTop_def)
next
  case (Some cs)
  define s1 where "s1 = (if weatherText s \<noteq> None then destroyChild WeatherText s else s)"
  define s2 where "s2 = addChild WeatherText
                   (s1\<lparr>weatherText :=
                         Some (newText (currentWeather s1) (globalFontFamily s1)
                                 (primaryFontSize (dims s1)) (globalFontOpacity s1))\<rparr>)"
  have d: "drawWeatherText s = ensureWeatherTextOnTop s2"
    using Some by (simp add: drawWeatherText_def Let_def s1_def s2_def)
  have m1: "mainContainer s1 \<noteq> None"
    using Some by (simp add: s1_def destroyChild_def)
  then have a2: "weatherTextAttached s2" and w2: "weatherText s2 \<noteq> None"
    and m2: "mainContainer s2 \<noteq> None"
    by (auto simp: s2_def addChild_def weatherTextAttached_def children_def)
  from ensure_attached [OF a2] ensure_frame [of s2] w2 m2 Some d show ?thesis by simp
qed

lemma clearInteractiveArea_frame:
  "globalUiScale (clearInteractiveArea s) = globalUiScale s"
  "dims (clearInteractiveArea s) = dims s"
  "pixiApp (clearInteractiveArea s) = pixiApp s"
  "timeCalendarContainer (clearInteractiveArea s) = timeCalendarContainer s"
  "timeText (clearInteractiveArea s) = timeText s"
  "timeCalendarSeparator (clearInteractiveArea s) = timeCalendarSeparator s"
  "calendarText (clearInteractiveArea s) = calendarText s"
  "timeBarGraphic (clearInteractiveArea s) = timeBarGraphic s"
  "mainHudAreaGraphic (clearInteractiveArea s) = mainHudAreaGraphic s"
  "radialDialBackground (clearInteractiveArea s) = radialDialBackground s"
  "dialMarker (clearInteractiveArea s) = dialMarker s"
  "weatherText (clearInteractiveArea s) = weatherText s"
  "rewindHourButton (clearInteractiveArea s) = rewindHourButton s"
  "rewindDayButton (clearInteractiveArea s) = rewindDayButton s"
  "advanceHourButton (clearInteractiveArea s) = advanceHourButton s"
  "advanceDayButton (clearInteractiveArea s) = advanceDayButton s"
  "dialGradientSprite (clearInteractiveArea s) = dialGradientSprite s"
  "dialGradientContainer (clearInteractiveArea s) = dialGradientContainer s"
  "currentWeather (clearInteractiveArea s) = currentWeather s"
  "topBarOpacity (clearInteractiveArea s) = topBarOpacity s"
  "dialImageOpacity (clearInteractiveArea s) = dialImageOpacity s"
  "dialMarkerOpacity (clearInteractiveArea s) = dialMarkerOpacity s"
  "globalFontOpacity (clearInteractiveArea s) = globalFontOpacity s"
  "globalFontFamily (clearInteractiveArea s) = globalFontFamily s"
  "displaySeconds (clearInteractiveArea s) = displaySeconds s"
  "warnings (clearInteractiveArea s) = warnings s"
  "notifications (clearInteractiveArea s) = notifications s"
  "persisted (clearInteractiveArea s) = persisted s"
  "emitted (clearInteractiveArea s) = emitted s"
  "(mainContainer (clearInteractiveArea s) = None) = (mainContainer s = None)"
  by (simp_all add: clearInteractiveArea_def destroyChild_def)

lemma mem_clearInteractiveArea:
  "n \<in> set (children s) \<Longrightarrow> n \<noteq> DialInteractiveArea \<Longrightarrow>
   n \<in> set (children (clearInteractiveArea s))"
  by (simp add: clearInteractiveArea_def mem_destroyChild)

lemmas early_frames =
  clearInteractiveArea_frame drawTimeBar_frame drawMainHudArea_frame
  drawRadialDialBackground_frame drawDialMarker_frame drawTimeAndCalendarGroup_frame

lemmas redraw_frames =
  early_frames drawTimeAdvanceControls_frame drawTimeAdvanceControls_container
  createDialGradientAndMask_frame drawWeatherText_frame createDialInteractiveArea_frame
  ensureWeatherTextOnTop_frame

lemma redrawAllElements_steps:
  "redrawAllElements h s =
     andThen (drawTimeAdvanceControls h (beforeButtons s))
       (\<lambda>s6. andThen (drawWeatherText (createDialGradientAndMask h s6))
          (\<lambda>s8. ensureWeatherTextOnTop (createDialInteractiveArea h s8)))"
  by (simp add: redrawAllElements_def beforeButtons_def clearInteractiveArea_def Let_def)

lemma keepsWeather_beforeButtons: "keepsWeather s (beforeButtons s)"
proof -
  have "keepsWeather s (clearInteractiveArea s)"
    by (cases "mainContainer s")
      (simp_all add: clearInteractiveArea_def keepsWeather_def destroyChild_def children_def)
  then have "keepsWeather s (drawTimeBar (clearInteractiveArea s))"
    using keepsWeather_drawTimeBar by (rule keepsWeather_trans)
  then have "keepsWeather s (drawMainHudArea (drawTimeBar (clearInteractiveArea s)))"
    using keepsWeather_drawMainHudArea by (rule keepsWeather_trans)
  then have "keepsWeather s (drawRadialDialBackground
      (drawMainHudArea (drawTimeBar (clearInteractiveArea s))))"
    using keepsWeather_drawRadialDialBackground by (rule keepsWeather_trans)
  then have "keepsWeather s (drawDialMarker (drawRadialDialBackground
      (drawMainHudArea (drawTimeBar (clearInteractiveArea s)))))"
    using keepsWeather_drawDialMarker by (rule keepsWeather_trans)
  then show ?thesis
    unfolding beforeButtons_def
    using keepsWeather_drawTimeAndCalendarGroup by (rule keepsWeather_trans)
qed

lemma noStaleButtons_beforeButtons: "noStaleButtons (beforeButtons s) = noStaleButtons s"
  by (simp add: noStaleButtons_def beforeButtons_def early_frames)

text \<open>
  \<^verbatim>\<open>_drawWeatherText\<close> and \<^verbatim>\<open>_redrawAllElements\<close> leave the weather text attached and on
  top; when there is a container, the weather text exists afterwards.
  \<^verbatim>\<open>_redrawAllElements\<close> returns when no button field holds a destroyed button; when one
  does, it throws before the weather text is drawn.
\<close>

lemma redrawAllElements_top:
  assumes "mainContainer s \<noteq> None \<or> weatherTextAttached s" and "noStaleButtons s"
  shows "returned (redrawAllElements h s) \<and>
         final (redrawAllElements h s) = redrawn h s \<and>
         weatherTextAttached (final (redrawAllElements h s)) \<and>
         weatherTextOnTop (final (redrawAllElements h s)) \<and>
         (mainContainer s \<noteq> None \<longrightarrow> weatherText (final (redrawAllElements h s)) \<noteq> None) \<and>
         (mainContainer (final (redrawAllElements h s)) = None) = (mainContainer s = None)"
proof -
  define s5 where "s5 = beforeButtons s"
  define s6 where "s6 = final (drawTimeAdvanceControls h s5)"
  define s7 where "s7 = createDialGradientAndMask h s6"
  define s8 where "s8 = final (drawWeatherText s7)"
  define s9 where "s9 = createDialInteractiveArea h s8"
  have k5: "keepsWeather s s5" unfolding s5_def by (rule keepsWeather_beforeButtons)
  have "noStaleButtons s5" using assms(2) by (simp add: s5_def noStaleButtons_beforeButtons)
  then have r6: "returned (drawTimeAdvanceControls h s5)"
    by (simp add: drawTimeAdvanceControls_returned)
  have k6: "keepsWeather s s6"
    using k5 keepsWeather_drawTimeAdvanceControls unfolding s6_def by (rule keepsWeather_trans)
  have k7: "keepsWeather s s7"
    using k6 keepsWeather_createDialGradientAndMask unfolding s7_def by (rule keepsWeather_trans)
  with assms(1) have a7: "mainContainer s7 \<noteq> None \<or> weatherTextAttached s7"
    by (auto simp: keepsWeather_def weatherTextAttached_def)
  from k7 have n7: "(mainContainer s7 = None) = (mainContainer s = None)"
    by (simp add: keepsWeather_def)
  note d = drawWeatherText_attaches [OF a7]
  have k9: "keepsWeather s8 s9"
    unfolding s9_def by (rule keepsWeather_createDialInteractiveArea)
  from d have "weatherTextAttached s8" by (simp add: s8_def)
  then have a9: "weatherTextAttached s9" using k9 by (rule attached_keeps)
  have r: "returned (redrawAllElements h s)"
    using r6 d ensure_attached(1) [OF a9]
    by (simp add: redrawAllElements_steps returned_andThen s5_def s6_def s7_def s8_def s9_def)
  have f: "final (redrawAllElements h s) = final (ensureWeatherTextOnTop s9)"
    using r6 d
    by (simp add: redrawAllElements_steps final_andThen_returned s5_def s6_def s7_def s8_def
        s9_def)
  have n: "final (ensureWeatherTextOnTop s9) = redrawn h s"
    by (simp add: redrawn_def s5_def s6_def s7_def s8_def s9_def)
  from k9 have "weatherText s9 = weatherText s8" "(mainContainer s9 = None) = (mainContainer s8 = None)"
    by (simp_all add: keepsWeather_def)
  with d n7 ensure_frame [of s9] ensure_attached [OF a9] r f n show ?thesis
    by (simp add: s8_def)
qed

lemma redrawAllElements_stale:
  assumes "mainContainer s \<noteq> None" and "stale (rewindHourButton s)"
  shows "redrawAllElements h s = Threw TypeError (beforeButtons s) \<and>
         weatherText (beforeButtons s) = weatherText s"
proof -
  have "mainContainer (beforeButtons s) \<noteq> None" "stale (rewindHourButton (beforeButtons s))"
    using assms by (simp_all add: beforeButtons_def early_frames)
  then have "drawTimeAdvanceControls h (beforeButtons s) = Threw TypeError (beforeButtons s)"
    by (auto simp: drawTimeAdvanceControls_def destroy_threw)
  then show ?thesis
    by (simp add: redrawAllElements_steps beforeButtons_def early_frames)
qed


section \<open>What a full redraw draws\<close>

text \<open>
  What each drawing step writes, and what the scene holds at the end of a redraw that
  does not throw.
\<close>

lemma drawTimeBar_draws:
  "mainContainer s \<noteq> None \<Longrightarrow>
   map_option fillAlpha (timeBarGraphic (drawTimeBar s)) = Some (topBarOpacity s)"
  by (cases "timeBarGraphic s") (auto simp: drawTimeBar_def addChild_def Let_def)

lemma drawMainHudArea_draws:
  "mainContainer s \<noteq> None \<Longrightarrow> mainHudAreaGraphic (drawMainHudArea s) \<noteq> None"
  by (cases "mainHudAreaGraphic s") (auto simp: drawMainHudArea_def addChild_def)

lemma drawRadialDialBackground_draws:
  "mainContainer s \<noteq> None \<Longrightarrow>
   radialDialBackground (drawRadialDialBackground s) \<noteq> None \<and>
   RadialDialBackground \<in> set (children (drawRadialDialBackground s))"
  by (cases "radialDialBackground s")
    (auto simp: drawRadialDialBackground_def Let_def addChild_def children_def)

lemma drawDialMarker_draws:
  "mainContainer s \<noteq> None \<Longrightarrow>
   map_option fillAlpha (dialMarker (drawDialMarker s)) = Some (dialMarkerOpacity s) \<and>
   DialMarker \<in> set (children (drawDialMarker s))"
  by (cases "dialMarker s")
    (auto simp: drawDialMarker_def Let_def addChild_def children_def)

lemma drawTimeAndCalendarGroup_draws:
  "mainContainer s \<noteq> None \<Longrightarrow>
   timeText (drawTimeAndCalendarGroup s) =
     Some (newText ''HH:MM'' (globalFontFamily s) (primaryFontSize (dims s)) (globalFontOpacity s)) \<and>
   timeCalendarSeparator (drawTimeAndCalendarGroup s) =
     Some (newText '' - '' (globalFontFamily s) (primaryFontSize (dims s)) (globalFontOpacity s)) \<and>
   calendarText (drawTimeAndCalendarGroup s) =
     Some (newText ''Calendar Loading...'' (globalFontFamily s) (calendarFontSize (dims s))
        (globalFontOpacity s)) \<and>
   timeCalendarContainer (drawTimeAndCalendarGroup s) \<and>
   TimeCalendarContainer \<in> set (children (drawTimeAndCalendarGroup s))"
  by (cases "mainContainer s")
    (simp_all add: drawTimeAndCalendarGroup_def Let_def addChild_def destroyChild_def
      children_def)

lemma afterDestroy_frame:
  "dims (afterDestroy s) = dims s" "globalFontOpacity (afterDestroy s) = globalFontOpacity s"
  "(mainContainer (afterDestroy s) = None) = (mainContainer s = None)"
  by (simp_all add: afterDestroy_def destroy_frames)

lemma afterDestroy_fields:
  assumes "noStaleButtons s"
  shows "rewindHourButton (afterDestroy s) = killed (rewindHourButton s)"
    and "rewindDayButton (afterDestroy s) = killed (rewindDayButton s)"
    and "advanceHourButton (afterDestroy s) = killed (advanceHourButton s)"
    and "advanceDayButton (afterDestroy s) = killed (advanceDayButton s)"
  using assms
  by (simp_all add: afterDestroy_def destroy_frames destroy_field destroy_returned
      noStaleButtons_def)

lemma drawTimeAdvanceControls_draws:
  assumes "mainContainer s \<noteq> None" "noStaleButtons s"
  shows "isGM h \<longrightarrow>
           rewindHourButton (final (drawTimeAdvanceControls h s)) = Some (createButton ''uf04b'' s) \<and>
           rewindDayButton (final (drawTimeAdvanceControls h s)) = Some (createButton ''uf049'' s) \<and>
           advanceHourButton (final (drawTimeAdvanceControls h s)) = Some (createButton ''uf04b'' s) \<and>
           advanceDayButton (final (drawTimeAdvanceControls h s)) = Some (createButton ''uf050'' s) \<and>
           {RewindHourButton, RewindDayButton, AdvanceHourButton, AdvanceDayButton}
             \<subseteq> set (children (final (drawTimeAdvanceControls h s)))"
    and "\<not> isGM h \<longrightarrow>
           rewindHourButton (final (drawTimeAdvanceControls h s)) = killed (rewindHourButton s) \<and>
           rewindDayButton (final (drawTimeAdvanceControls h s)) = killed (rewindDayButton s) \<and>
           advanceHourButton (final (drawTimeAdvanceControls h s)) = killed (advanceHourButton s) \<and>
           advanceDayButton (final (drawTimeAdvanceControls h s)) = killed (advanceDayButton s)"
proof -
  have c: "createButton i (afterDestroy s) = createButton i s" for i
    by (rule createButton_cong) (simp_all add: afterDestroy_frame)
  have m: "mainContainer (afterDestroy s) \<noteq> None"
    using assms(1) by (simp add: afterDestroy_frame)
  show "isGM h \<longrightarrow>
           rewindHourButton (final (drawTimeAdvanceControls h s)) = Some (createButton ''uf04b'' s) \<and>
           rewindDayButton (final (drawTimeAdvanceControls h s)) = Some (createButton ''uf049'' s) \<and>
           advanceHourButton (final (drawTimeAdvanceControls h s)) = Some (createButton ''uf04b'' s) \<and>
           advanceDayButton (final (drawTimeAdvanceControls h s)) = Some (createButton ''uf050'' s) \<and>
           {RewindHourButton, RewindDayButton, AdvanceHourButton, AdvanceDayButton}
             \<subseteq> set (children (final (drawTimeAdvanceControls h s)))"
    using createButtons_nodes [OF m]
    by (simp add: drawTimeAdvanceControls_final [OF assms] createButtons_fields c)
  show "\<not> isGM h \<longrightarrow>
           rewindHourButton (final (drawTimeAdvanceControls h s)) = killed (rewindHourButton s) \<and>
           rewindDayButton (final (drawTimeAdvanceControls h s)) = killed (rewindDayButton s) \<and>
           advanceHourButton (final (drawTimeAdvanceControls h s)) = killed (advanceHourButton s) \<and>
           advanceDayButton (final (drawTimeAdvanceControls h s)) = killed (advanceDayButton s)"
    by (simp add: drawTimeAdvanceControls_final [OF assms] afterDestroy_fields [OF assms(2)])
qed

lemma createDialGradientAndMask_draws:
  assumes "mainContainer s \<noteq> None" "0 < DIAL_RADIUS (dims s)"
  shows "(textureOk h \<longrightarrow>
           dialGradientSprite (createDialGradientAndMask h s) =
             Some (newObject\<lparr>alpha := dialImageOpacity s\<rparr>) \<and>
           dialGradientContainer (createDialGradientAndMask h s) \<and>
           DialGradientContainer \<in> set (children (createDialGradientAndMask h s))) \<and>
         (\<not> textureOk h \<longrightarrow>
           \<not> dialGradientContainer (createDialGradientAndMask h s))"
proof (cases "mainContainer s")
  case None
  then show ?thesis using assms by simp
next
  case (Some cs)
  then show ?thesis using assms(2)
    by (simp add: createDialGradientAndMask_def createDialInteractiveArea_def Let_def addChild_def
        destroyChild_def children_def)
qed

lemma createDialGradientAndMask_small:
  "DIAL_RADIUS (dims s) \<le> 0 \<Longrightarrow> createDialGradientAndMask h s = s"
  by (simp add: createDialGradientAndMask_def)

lemma createDialGradientAndMask_area:
  "\<not> isGM h \<Longrightarrow>
   dialInteractiveArea (createDialGradientAndMask h s) = dialInteractiveArea s"
  by (simp add: createDialGradientAndMask_def createDialInteractiveArea_def Let_def addChild_def
      destroyChild_def)

lemma createDialInteractiveArea_draws:
  assumes "mainContainer s \<noteq> None"
  shows "(isGM h \<longrightarrow> dialInteractiveArea (createDialInteractiveArea h s) \<and>
           DialInteractiveArea \<in> set (children (createDialInteractiveArea h s))) \<and>
         (\<not> isGM h \<longrightarrow>
           dialInteractiveArea (createDialInteractiveArea h s) = dialInteractiveArea s)"
proof (cases "mainContainer s")
  case None
  then show ?thesis using assms by simp
next
  case (Some cs)
  then show ?thesis
    by (simp add: createDialInteractiveArea_def Let_def addChild_def destroyChild_def
        children_def)
qed

lemma ensure_weatherText:
  "weatherText (final (ensureWeatherTextOnTop s)) =
     (if mainContainer s \<noteq> None \<and> WeatherText \<in> set (children s)
      then map_option (\<lambda>w. w\<lparr>visible := True, alpha := globalFontOpacity s\<rparr>) (weatherText s)
      else weatherText s)"
proof (cases "weatherText s")
  case None
  then show ?thesis by (simp add: ensureWeatherTextOnTop_def)
next
  case w: (Some w)
  show ?thesis
  proof (cases "mainContainer s")
    case None
    then show ?thesis using w by (simp add: ensureWeatherTextOnTop_def)
  next
    case (Some cs)
    then show ?thesis using w
      by (cases "WeatherText \<in> set cs")
        (simp_all add: ensureWeatherTextOnTop_def children_def setChildIndex_last
          setChildIndex_absent)
  qed
qed

lemma drawWeatherText_draws:
  assumes "mainContainer s \<noteq> None"
  shows "weatherText (final (drawWeatherText s)) =
           Some (newText (currentWeather s) (globalFontFamily s) (primaryFontSize (dims s))
              (globalFontOpacity s))"
  using assms
  by (cases "mainContainer s")
    (simp_all add: drawWeatherText_def Let_def ensure_weatherText addChild_def destroyChild_def
      children_def newText_def newObject_def)

lemma mem_drawWeatherText:
  assumes "n \<in> set (children s)"
  shows "n \<in> set (children (final (drawWeatherText s)))"
proof (cases "mainContainer s")
  case None
  then show ?thesis using assms by (simp add: children_def)
next
  case (Some cs)
  define s1 where "s1 = (if weatherText s \<noteq> None then destroyChild WeatherText s else s)"
  define s2 where "s2 = addChild WeatherText
                   (s1\<lparr>weatherText :=
                         Some (newText (currentWeather s1) (globalFontFamily s1)
                                 (primaryFontSize (dims s1)) (globalFontOpacity s1))\<rparr>)"
  have d: "drawWeatherText s = ensureWeatherTextOnTop s2"
    using Some by (simp add: drawWeatherText_def Let_def s1_def s2_def)
  have "n \<in> set (children s2)"
    using Some assms
    by (cases "n = WeatherText")
      (simp_all add: s2_def s1_def addChild_def destroyChild_def children_def)
  then show ?thesis unfolding d by (rule mem_ensure)
qed

lemma mem_after_buttons:
  assumes "n \<in> set (children x)" "n \<noteq> DialGradientContainer"
  shows "n \<in> set (children (final (ensureWeatherTextOnTop (createDialInteractiveArea h
           (final (drawWeatherText (createDialGradientAndMask h x)))))))"
  using assms
  by (intro mem_ensure mem_createDialInteractiveArea mem_drawWeatherText
      mem_createDialGradientAndMask)

lemma mem_redrawn:
  assumes "n \<in> set (children (beforeButtons s))" "n \<noteq> DialGradientContainer"
    and "n \<notin> {RewindHourButton, RewindDayButton, AdvanceHourButton, AdvanceDayButton}"
  shows "n \<in> set (children (redrawn h s))"
  unfolding redrawn_def using assms
  by (intro mem_after_buttons mem_drawTimeAdvanceControls)

lemmas late_frames =
  drawTimeAdvanceControls_frame drawTimeAdvanceControls_container
  createDialGradientAndMask_frame drawWeatherText_frame createDialInteractiveArea_frame
  ensureWeatherTextOnTop_frame

lemma redrawn_frame:
  "globalUiScale (redrawn h s) = globalUiScale s"
  "dims (redrawn h s) = dims s"
  "pixiApp (redrawn h s) = pixiApp s"
  "currentWeather (redrawn h s) = currentWeather s"
  "topBarOpacity (redrawn h s) = topBarOpacity s"
  "dialImageOpacity (redrawn h s) = dialImageOpacity s"
  "dialMarkerOpacity (redrawn h s) = dialMarkerOpacity s"
  "globalFontOpacity (redrawn h s) = globalFontOpacity s"
  "globalFontFamily (redrawn h s) = globalFontFamily s"
  "displaySeconds (redrawn h s) = displaySeconds s"
  "warnings (redrawn h s) = warnings s"
  "notifications (redrawn h s) = notifications s"
  "persisted (redrawn h s) = persisted s"
  "emitted (redrawn h s) = emitted s"
  "(mainContainer (redrawn h s) = None) = (mainContainer s = None)"
  by (simp_all add: redrawn_def beforeButtons_def redraw_frames)

lemma beforeButtons_scene:
  assumes "mainContainer s \<noteq> None"
  shows "map_option fillAlpha (timeBarGraphic (beforeButtons s)) = Some (topBarOpacity s)"
    and "mainHudAreaGraphic (beforeButtons s) \<noteq> None"
    and "radialDialBackground (beforeButtons s) \<noteq> None"
    and "map_option fillAlpha (dialMarker (beforeButtons s)) = Some (dialMarkerOpacity s)"
    and "timeCalendarContainer (beforeButtons s)"
    and "timeText (beforeButtons s) =
      Some (newText ''HH:MM'' (globalFontFamily s) (primaryFontSize (dims s)) (globalFontOpacity s))"
    and "timeCalendarSeparator (beforeButtons s) =
      Some (newText '' - '' (globalFontFamily s) (primaryFontSize (dims s)) (globalFontOpacity s))"
    and "calendarText (beforeButtons s) =
      Some (newText ''Calendar Loading...'' (globalFontFamily s) (calendarFontSize (dims s))
        (globalFontOpacity s))"
    and "\<not> dialInteractiveArea (beforeButtons s)"
  using assms
  by (simp_all add: beforeButtons_def early_frames drawTimeBar_draws drawMainHudArea_draws
      drawRadialDialBackground_draws drawDialMarker_draws drawTimeAndCalendarGroup_draws
      clearInteractiveArea_def destroyChild_def)

lemma beforeButtons_nodes:
  assumes "mainContainer s \<noteq> None"
  shows "RadialDialBackground \<in> set (children (beforeButtons s))"
    and "DialMarker \<in> set (children (beforeButtons s))"
    and "TimeCalendarContainer \<in> set (children (beforeButtons s))"
proof -
  have m: "mainContainer (clearInteractiveArea s) \<noteq> None"
    using assms by (simp add: early_frames)
  then have m1: "mainContainer (drawMainHudArea (drawTimeBar (clearInteractiveArea s))) \<noteq> None"
    by (simp add: early_frames)
  then have m2: "mainContainer (drawRadialDialBackground
      (drawMainHudArea (drawTimeBar (clearInteractiveArea s)))) \<noteq> None"
    by (simp add: early_frames)
  then have m3: "mainContainer (drawDialMarker (drawRadialDialBackground
      (drawMainHudArea (drawTimeBar (clearInteractiveArea s))))) \<noteq> None"
    by (simp add: early_frames)
  show "RadialDialBackground \<in> set (children (beforeButtons s))"
    unfolding beforeButtons_def
    using drawRadialDialBackground_draws [OF m1]
    by (intro mem_drawTimeAndCalendarGroup mem_drawDialMarker) simp
  show "DialMarker \<in> set (children (beforeButtons s))"
    unfolding beforeButtons_def
    using drawDialMarker_draws [OF m2]
    by (intro mem_drawTimeAndCalendarGroup) simp
  show "TimeCalendarContainer \<in> set (children (beforeButtons s))"
    unfolding beforeButtons_def
    using drawTimeAndCalendarGroup_draws [OF m3] by simp
qed

lemma textStyle_newText [simp]: "textStyle (newText t f z a) = (f, z, a)"
  by (simp add: textStyle_def newText_def)

lemma redrawn_scene:
  assumes m: "mainContainer s \<noteq> None" and n: "noStaleButtons s"
  shows "sceneDrawn h s (redrawn h s)"
proof -
  define x5 where "x5 = beforeButtons s"
  define x6 where "x6 = final (drawTimeAdvanceControls h x5)"
  define x7 where "x7 = createDialGradientAndMask h x6"
  define x8 where "x8 = final (drawWeatherText x7)"
  define x9 where "x9 = createDialInteractiveArea h x8"
  have r: "redrawn h s = final (ensureWeatherTextOnTop x9)"
    by (simp add: redrawn_def x5_def x6_def x7_def x8_def x9_def)
  have c5: "dims x5 = dims s" "globalFontOpacity x5 = globalFontOpacity s"
    "globalFontFamily x5 = globalFontFamily s" "currentWeather x5 = currentWeather s"
    "dialImageOpacity x5 = dialImageOpacity s"
    by (simp_all add: x5_def beforeButtons_def early_frames)
  have m5: "mainContainer x5 \<noteq> None" using m by (simp add: x5_def beforeButtons_def early_frames)
  have n5: "noStaleButtons x5" using n by (simp add: x5_def noStaleButtons_beforeButtons)
  have m6: "mainContainer x6 \<noteq> None" using m5 by (simp add: x6_def late_frames)
  have m7: "mainContainer x7 \<noteq> None" using m6 by (simp add: x7_def late_frames)
  have m8: "mainContainer x8 \<noteq> None" using m7 by (simp add: x8_def late_frames)
  have m9: "mainContainer x9 \<noteq> None" using m8 by (simp add: x9_def late_frames)
  note b = beforeButtons_scene [OF m, folded x5_def]
  note bn = beforeButtons_nodes [OF m, folded x5_def]
  note dt = drawTimeAdvanceControls_draws [OF m5 n5, of h, folded x6_def]
  have t: "timeBarGraphic (redrawn h s) = timeBarGraphic x5"
    "mainHudAreaGraphic (redrawn h s) = mainHudAreaGraphic x5"
    "radialDialBackground (redrawn h s) = radialDialBackground x5"
    "dialMarker (redrawn h s) = dialMarker x5"
    "timeCalendarContainer (redrawn h s) = timeCalendarContainer x5"
    "timeText (redrawn h s) = timeText x5"
    "timeCalendarSeparator (redrawn h s) = timeCalendarSeparator x5"
    "calendarText (redrawn h s) = calendarText x5"
    "rewindHourButton (redrawn h s) = rewindHourButton x6"
    "rewindDayButton (redrawn h s) = rewindDayButton x6"
    "advanceHourButton (redrawn h s) = advanceHourButton x6"
    "advanceDayButton (redrawn h s) = advanceDayButton x6"
    by (simp_all add: r x9_def x8_def x7_def x6_def late_frames)
  have cb: "createButton i x5 = createButton i (redrawn h s)" for i
    by (rule createButton_cong) (simp_all add: c5 redrawn_frame)
  have kb: "killed (rewindHourButton x5) = killed (rewindHourButton s)"
    "killed (rewindDayButton x5) = killed (rewindDayButton s)"
    "killed (advanceHourButton x5) = killed (advanceHourButton s)"
    "killed (advanceDayButton x5) = killed (advanceDayButton s)"
    by (simp_all add: x5_def beforeButtons_def early_frames)
  have w8: "weatherText x8 = Some (newText (currentWeather s) (globalFontFamily s)
      (primaryFontSize (dims s)) (globalFontOpacity s))"
    using drawWeatherText_draws [OF m7]
    by (simp add: x8_def x7_def x6_def late_frames c5)
  have w: "map_option textStyle (weatherText (redrawn h s)) =
      Some (globalFontFamily s, primaryFontSize (dims s), globalFontOpacity s)"
    using w8
    by (simp add: r ensure_weatherText x9_def x8_def x7_def x6_def late_frames c5 textStyle_def
        newText_def)
  have top: "weatherTextOnTop (redrawn h s)" and att: "weatherTextAttached (redrawn h s)"
  proof -
    from m n have "final (redrawAllElements h s) = redrawn h s \<and>
         weatherTextAttached (final (redrawAllElements h s)) \<and>
         weatherTextOnTop (final (redrawAllElements h s))"
      using redrawAllElements_top [of s h] by blast
    then show "weatherTextOnTop (redrawn h s)" "weatherTextAttached (redrawn h s)"
      by auto
  qed
  have wn: "WeatherText \<in> set (children (redrawn h s))"
    using att w by (auto simp: weatherTextAttached_def)
  have nodes: "RadialDialBackground \<in> set (children (redrawn h s))"
    "DialMarker \<in> set (children (redrawn h s))"
    "TimeCalendarContainer \<in> set (children (redrawn h s))"
    using bn [unfolded x5_def] by (simp_all add: mem_redrawn)
  have after: "k \<in> set (children (redrawn h s))"
    if "k \<in> set (children x6)" "k \<noteq> DialGradientContainer" for k
    unfolding redrawn_def x5_def [symmetric] x6_def [symmetric] using that
    by (rule mem_after_buttons)
  have gm: "rewindHourButton (redrawn h s) = Some (createButton ''uf04b'' (redrawn h s)) \<and>
            rewindDayButton (redrawn h s) = Some (createButton ''uf049'' (redrawn h s)) \<and>
            advanceHourButton (redrawn h s) = Some (createButton ''uf04b'' (redrawn h s)) \<and>
            advanceDayButton (redrawn h s) = Some (createButton ''uf050'' (redrawn h s)) \<and>
            dialInteractiveArea (redrawn h s) \<and>
            {RewindHourButton, RewindDayButton, AdvanceHourButton, AdvanceDayButton,
             DialInteractiveArea} \<subseteq> set (children (redrawn h s))" if g: "isGM h"
  proof -
    have "dialInteractiveArea x9" "DialInteractiveArea \<in> set (children x9)"
      using createDialInteractiveArea_draws [OF m8, of h] g by (simp_all add: x9_def)
    then have "dialInteractiveArea (redrawn h s)" "DialInteractiveArea \<in> set (children (redrawn h s))"
      by (simp_all add: r late_frames mem_ensure)
    then show ?thesis using dt(1) g by (simp add: t cb after)
  qed
  have ngm: "rewindHourButton (redrawn h s) = killed (rewindHourButton s) \<and>
            rewindDayButton (redrawn h s) = killed (rewindDayButton s) \<and>
            advanceHourButton (redrawn h s) = killed (advanceHourButton s) \<and>
            advanceDayButton (redrawn h s) = killed (advanceDayButton s) \<and>
            \<not> dialInteractiveArea (redrawn h s)" if g: "\<not> isGM h"
  proof -
    have "dialInteractiveArea (redrawn h s) = dialInteractiveArea x5"
      using g createDialInteractiveArea_draws [OF m8, of h]
      by (simp add: r x9_def x8_def x7_def x6_def late_frames createDialGradientAndMask_area)
    then show ?thesis using dt(2) g b(9) by (simp add: t kb)
  qed
  have gr: "(if textureOk h
          then map_option alpha (dialGradientSprite (redrawn h s)) = Some (dialImageOpacity s) \<and>
               dialGradientContainer (redrawn h s) \<and>
               DialGradientContainer \<in> set (children (redrawn h s))
          else \<not> dialGradientContainer (redrawn h s))" if d: "0 < DIAL_RADIUS (dims s)"
  proof -
    have d6: "0 < DIAL_RADIUS (dims x6)" using d by (simp add: x6_def late_frames c5)
    have i6: "dialImageOpacity x6 = dialImageOpacity s" by (simp add: x6_def late_frames c5)
    have "dialGradientSprite (redrawn h s) = dialGradientSprite x7"
      "dialGradientContainer (redrawn h s) = dialGradientContainer x7"
      by (simp_all add: r x9_def x8_def late_frames)
    moreover have "DialGradientContainer \<in> set (children (redrawn h s))"
      if "DialGradientContainer \<in> set (children x7)"
      unfolding r x9_def x8_def using that
      by (intro mem_ensure mem_createDialInteractiveArea mem_drawWeatherText)
    ultimately show ?thesis
      using createDialGradientAndMask_draws [OF m6 d6, of h, folded x7_def] i6 by simp
  qed
  show ?thesis
    unfolding sceneDrawn_def
    using b(1-8) w top wn nodes gm ngm gr
    by (simp add: t redrawn_frame)
qed


section \<open>Redraws and weather updates\<close>


lemma loadWeatherFromFlag_invariant:
  assumes "P s"
    and "\<And>x w. P x \<Longrightarrow> P (x\<lparr>currentWeather := w\<rparr>)"
    and "\<And>x v. P x \<Longrightarrow> P (final (updateWeatherDisplay v x))"
    and "\<And>x. P x \<Longrightarrow> P (final (ensureWeatherTextOnTop x))"
  shows "P (final (loadWeatherFromFlag h s))"
  unfolding loadWeatherFromFlag_def Let_def
proof (rule final_andThen [where P = P])
  have "P (if savedWeather h \<noteq> [] then s\<lparr>currentWeather := savedWeather h\<rparr> else s)"
    using assms(1) assms(2) by simp
  then show "P (final (updateWeatherDisplay
        (JString (currentWeather (if savedWeather h \<noteq> [] then s\<lparr>currentWeather := savedWeather h\<rparr> else s)))
        (if savedWeather h \<noteq> [] then s\<lparr>currentWeather := savedWeather h\<rparr> else s)))"
    by (rule assms(3))
qed (rule assms(4))

lemma construct_invariant:
  assumes "P (final (redrawAllElements h (initPIXIApp (calculateScaledDimensions initialDial))))"
    and "\<And>x. P x \<Longrightarrow> P (updateTimeDisplay h x)"
    and "\<And>x. P x \<Longrightarrow> P (final (updateCalendarDisplay h x))"
    and "\<And>x. P x \<Longrightarrow> P (updateDialRotation h x)"
    and "\<And>x w. P x \<Longrightarrow> P (x\<lparr>currentWeather := w\<rparr>)"
    and "\<And>x v. P x \<Longrightarrow> P (final (updateWeatherDisplay v x))"
    and "\<And>x. P x \<Longrightarrow> P (final (ensureWeatherTextOnTop x))"
  shows "P (final (construct h))"
  unfolding construct_def
proof (rule final_andThen [where P = P])
  show "P (final (redrawAllElements h (initPIXIApp (calculateScaledDimensions initialDial))))"
    by (rule assms(1))
next
  fix s1 assume p1: "P s1"
  show "P (final (andThen (updateCalendarDisplay h (updateTimeDisplay h s1))
          (\<lambda>s2. let s3 = updateDialRotation h s2
                 in if gameReady h then loadWeatherFromFlag h s3 else Returned s3)))"
  proof (rule final_andThen [where P = P])
    show "P (final (updateCalendarDisplay h (updateTimeDisplay h s1)))"
      using p1 by (intro assms(3) assms(2))
  next
    fix s2 assume "P s2"
    then have p3: "P (updateDialRotation h s2)" by (rule assms(4))
    then have "P (final (loadWeatherFromFlag h (updateDialRotation h s2)))"
      using assms(5) assms(6) assms(7) by (rule loadWeatherFromFlag_invariant)
    with p3 show "P (final (let s3 = updateDialRotation h s2
                 in if gameReady h then loadWeatherFromFlag h s3 else Returned s3))"
      by (simp add: Let_def)
  qed
qed

lemma updateWeatherDisplay_top:
  assumes "weatherTextAttached s"
  shows "returned (updateWeatherDisplay v s) \<and>
         weatherTextAttached (final (updateWeatherDisplay v s)) \<and>
         weatherTextOnTop (final (updateWeatherDisplay v s))"
proof (cases "weatherText s")
  case None
  then show ?thesis
    by (simp add: updateWeatherDisplay_def weatherTextAttached_def weatherTextOnTop_def)
next
  case (Some w)
  define s1 where "s1 = (case v of JString w \<Rightarrow> s\<lparr>currentWeather := w\<rparr> | _ \<Rightarrow> s)"
  define s2 where "s2 = s1\<lparr>weatherText :=
                   map_option (\<lambda>t. t\<lparr>textValue := toUpperCase (currentWeather s1)\<rparr>)
                     (weatherText s1)\<rparr>"
  have "weatherText s1 = weatherText s" "mainContainer s1 = mainContainer s"
    by (simp_all add: s1_def split: jsval.splits)
  with assms have "weatherTextAttached s2"
    by (simp add: s2_def weatherTextAttached_def children_def)
  moreover have "updateWeatherDisplay v s = ensureWeatherTextOnTop s2"
    using Some by (simp add: updateWeatherDisplay_def Let_def s1_def s2_def)
  ultimately show ?thesis using ensure_attached [of s2] by simp
qed

text \<open>
  The weather text attached and on top: kept by every step that follows a redraw, so by
  \<^verbatim>\<open>_loadWeatherFromFlag\<close> and by the refresh of the contents, up to their end or to the
  step that throws.
\<close>

lemma top_steps:
  assumes "weatherTextAttached x \<and> weatherTextOnTop x"
  shows "weatherTextAttached (updateTimeDisplay h x) \<and> weatherTextOnTop (updateTimeDisplay h x)"
    and "weatherTextAttached (final (updateCalendarDisplay h x)) \<and>
         weatherTextOnTop (final (updateCalendarDisplay h x))"
    and "weatherTextAttached (updateDialRotation h x) \<and> weatherTextOnTop (updateDialRotation h x)"
    and "weatherTextAttached (x\<lparr>currentWeather := w\<rparr>) \<and> weatherTextOnTop (x\<lparr>currentWeather := w\<rparr>)"
    and "weatherTextAttached (final (updateWeatherDisplay v x)) \<and>
         weatherTextOnTop (final (updateWeatherDisplay v x))"
    and "weatherTextAttached (final (ensureWeatherTextOnTop x)) \<and>
         weatherTextOnTop (final (ensureWeatherTextOnTop x))"
proof -
  show "weatherTextAttached (updateTimeDisplay h x) \<and> weatherTextOnTop (updateTimeDisplay h x)"
    using assms sameScene_updateTimeDisplay [of x h]
    by (simp add: sameScene_onTop sameScene_attached)
  show "weatherTextAttached (final (updateCalendarDisplay h x)) \<and>
         weatherTextOnTop (final (updateCalendarDisplay h x))"
    using assms sameScene_updateCalendarDisplay [of x h]
    by (simp add: sameScene_onTop sameScene_attached)
  show "weatherTextAttached (updateDialRotation h x) \<and> weatherTextOnTop (updateDialRotation h x)"
    using assms sameScene_updateDialRotation [of x h]
    by (simp add: sameScene_onTop sameScene_attached)
  show "weatherTextAttached (x\<lparr>currentWeather := w\<rparr>) \<and> weatherTextOnTop (x\<lparr>currentWeather := w\<rparr>)"
    using assms by (simp add: weatherTextAttached_def weatherTextOnTop_def children_def)
  show "weatherTextAttached (final (updateWeatherDisplay v x)) \<and>
         weatherTextOnTop (final (updateWeatherDisplay v x))"
    using assms updateWeatherDisplay_top [of x v] by simp
  show "weatherTextAttached (final (ensureWeatherTextOnTop x)) \<and>
         weatherTextOnTop (final (ensureWeatherTextOnTop x))"
    using assms ensure_attached [of x] by simp
qed




text \<open>The state that \<^verbatim>\<open>setGlobalUiSize\<close> redraws, for a scale that it accepts.\<close>

lemma setGlobalUiSize_steps:
  assumes "0 < scale"
  shows "setGlobalUiSize h (JNumber scale) s =
           andThen (redrawAllElements h (rescaled scale s)) (refreshContent h)"
  using assms by (simp add: setGlobalUiSize_def rescaled_def Let_def)

lemma rescaled_frame:
  "globalUiScale (rescaled scale s) = scale"
  "dims (rescaled scale s) = scaledDimensions scale"
  "pixiApp (rescaled scale s) =
     Some (HUD_WIDTH (scaledDimensions scale), TOTAL_HUD_HEIGHT (scaledDimensions scale))"
  "mainContainer (rescaled scale s) = (if pixiApp s = None then Some [] else mainContainer s)"
  "weatherText (rescaled scale s) = weatherText s"
  "rewindHourButton (rescaled scale s) = rewindHourButton s"
  "rewindDayButton (rescaled scale s) = rewindDayButton s"
  "advanceHourButton (rescaled scale s) = advanceHourButton s"
  "advanceDayButton (rescaled scale s) = advanceDayButton s"
  "currentWeather (rescaled scale s) = currentWeather s"
  "topBarOpacity (rescaled scale s) = topBarOpacity s"
  "dialImageOpacity (rescaled scale s) = dialImageOpacity s"
  "dialMarkerOpacity (rescaled scale s) = dialMarkerOpacity s"
  "globalFontOpacity (rescaled scale s) = globalFontOpacity s"
  "globalFontFamily (rescaled scale s) = globalFontFamily s"
  "displaySeconds (rescaled scale s) = displaySeconds s"
  "warnings (rescaled scale s) =
     (if pixiApp s = None then warnings s @ [''PIXI App not initialized before scaling.'']
      else warnings s)"
  by (simp_all add: rescaled_def calculateScaledDimensions_def initPIXIApp_def warn_def Let_def)



text \<open>
  No button field holds a destroyed button after a redraw by a GM, and none after a
  redraw by another user when the fields were empty: with a user whose role does not
  change, every redraw finds the fields as \<^verbatim>\<open>_drawTimeAdvanceControls\<close> needs them.
\<close>

lemma redrawAllElements_keeps_buttons:
  assumes "noStaleButtons s"
    and "isGM h \<or> (rewindHourButton s = None \<and> rewindDayButton s = None \<and>
           advanceHourButton s = None \<and> advanceDayButton s = None)"
  shows "noStaleButtons (final (redrawAllElements h s)) \<and>
         (\<not> isGM h \<longrightarrow>
            rewindHourButton (final (redrawAllElements h s)) = None \<and>
            rewindDayButton (final (redrawAllElements h s)) = None \<and>
            advanceHourButton (final (redrawAllElements h s)) = None \<and>
            advanceDayButton (final (redrawAllElements h s)) = None)"
proof (cases "mainContainer s = None")
  case True
  then have c: "mainContainer (clearInteractiveArea s) = None"
    by (simp add: clearInteractiveArea_frame)
  then have "beforeButtons s = clearInteractiveArea s"
    by (simp add: beforeButtons_def drawTimeBar_def drawMainHudArea_def
        drawRadialDialBackground_def drawDialMarker_def drawTimeAndCalendarGroup_def)
  with c have "redrawAllElements h s = Returned (clearInteractiveArea s)"
    by (simp add: redrawAllElements_steps drawTimeAdvanceControls_def
        createDialGradientAndMask_def drawWeatherText_def createDialInteractiveArea_def
        ensureWeatherTextOnTop_def split: option.splits)
  then show ?thesis using assms by (auto simp: noStaleButtons_def clearInteractiveArea_frame)
next
  case False
  then have f: "final (redrawAllElements h s) = redrawn h s"
    using redrawAllElements_top [of s h] assms(1) by blast
  from False assms(1) have "sceneDrawn h s (redrawn h s)" by (rule redrawn_scene)
  then show ?thesis
    using assms(2)
    by (cases "isGM h")
      (auto simp: f sceneDrawn_def noStaleButtons_def stale_def createButton_def killed_def)
qed

lemma construct_redraw:
  "final (redrawAllElements h (initPIXIApp (calculateScaledDimensions initialDial))) =
     redrawn h (initPIXIApp (calculateScaledDimensions initialDial)) \<and>
   sceneDrawn h (initPIXIApp (calculateScaledDimensions initialDial))
     (redrawn h (initPIXIApp (calculateScaledDimensions initialDial))) \<and>
   noStaleButtons (redrawn h (initPIXIApp (calculateScaledDimensions initialDial)))"
proof -
  define s0 where "s0 = initPIXIApp (calculateScaledDimensions initialDial)"
  have m: "mainContainer s0 \<noteq> None"
    by (simp add: s0_def initPIXIApp_def calculateScaledDimensions_def initialDial_def)
  have b: "rewindHourButton s0 = None \<and> rewindDayButton s0 = None \<and>
           advanceHourButton s0 = None \<and> advanceDayButton s0 = None"
    by (simp add: s0_def initPIXIApp_def calculateScaledDimensions_def initialDial_def)
  then have n: "noStaleButtons s0" by (simp add: noStaleButtons_def stale_def)
  have f: "final (redrawAllElements h s0) = redrawn h s0"
    using redrawAllElements_top [of s0 h] m n by blast
  from redrawAllElements_keeps_buttons [OF n, of h] b redrawn_scene [OF m n, of h] f
  show ?thesis unfolding s0_def by simp
qed

lemma updateWeatherDisplay_weatherText:
  "(weatherText (final (updateWeatherDisplay v s)) = None) = (weatherText s = None)"
  using ensure_frame by (simp add: updateWeatherDisplay_def Let_def split: jsval.splits)

lemma weatherText_steps:
  assumes "weatherText x \<noteq> None"
  shows "weatherText (updateTimeDisplay h x) \<noteq> None"
    and "weatherText (final (updateCalendarDisplay h x)) \<noteq> None"
    and "weatherText (updateDialRotation h x) \<noteq> None"
    and "weatherText (x\<lparr>currentWeather := w\<rparr>) \<noteq> None"
    and "weatherText (final (updateWeatherDisplay v x)) \<noteq> None"
    and "weatherText (final (ensureWeatherTextOnTop x)) \<noteq> None"
  using assms ensure_frame [of x]
  by (simp_all add: updateTimeDisplay_frame updateCalendarDisplay_frame updateDialRotation_frame
      updateWeatherDisplay_weatherText)

lemma noStaleButtons_steps:
  assumes "noStaleButtons x"
  shows "noStaleButtons (updateTimeDisplay h x)"
    and "noStaleButtons (final (updateCalendarDisplay h x))"
    and "noStaleButtons (updateDialRotation h x)"
    and "noStaleButtons (x\<lparr>currentWeather := w\<rparr>)"
    and "noStaleButtons (final (updateWeatherDisplay v x))"
    and "noStaleButtons (final (ensureWeatherTextOnTop x))"
  using assms
  by (simp_all add: noStaleButtons_def updateTimeDisplay_frame updateCalendarDisplay_frame
      updateDialRotation_frame updateWeatherDisplay_frame ensureWeatherTextOnTop_frame)

text \<open>
  After the constructor the weather text exists, is attached and is on top, and no
  button field holds a destroyed button.
\<close>

lemma construct_top:
  "weatherTextAttached (final (construct h)) \<and> weatherTextOnTop (final (construct h)) \<and>
   weatherText (final (construct h)) \<noteq> None"
proof -
  define s0 where "s0 = initPIXIApp (calculateScaledDimensions initialDial)"
  have m: "mainContainer s0 \<noteq> None"
    by (simp add: s0_def initPIXIApp_def calculateScaledDimensions_def initialDial_def)
  have n: "noStaleButtons s0"
    by (simp add: s0_def initPIXIApp_def calculateScaledDimensions_def initialDial_def
        noStaleButtons_def stale_def)
  have r: "weatherTextAttached (final (redrawAllElements h s0)) \<and>
      weatherTextOnTop (final (redrawAllElements h s0))"
    "weatherText (final (redrawAllElements h s0)) \<noteq> None"
    using redrawAllElements_top [of s0 h] m n by blast+
  have "weatherTextAttached (final (construct h)) \<and> weatherTextOnTop (final (construct h))"
    using r(1) unfolding s0_def
    by (rule construct_invariant [where P = "\<lambda>x. weatherTextAttached x \<and> weatherTextOnTop x"])
      (rule top_steps; assumption)+
  moreover have "weatherText (final (construct h)) \<noteq> None"
    using r(2) unfolding s0_def
    by (rule construct_invariant [where P = "\<lambda>x. weatherText x \<noteq> None"])
      (rule weatherText_steps; assumption)+
  ultimately show ?thesis by simp
qed

lemma construct_noStaleButtons: "noStaleButtons (final (construct h))"
proof -
  have "noStaleButtons (final (redrawAllElements h (initPIXIApp (calculateScaledDimensions initialDial))))"
    using construct_redraw [of h] by simp
  then show ?thesis
    by (rule construct_invariant [where P = noStaleButtons]) (rule noStaleButtons_steps; assumption)+
qed

lemma construct_mainContainer: "mainContainer (final (construct h)) \<noteq> None"
  using construct_top [of h]
  by (cases "mainContainer (final (construct h))")
    (auto simp: weatherTextAttached_def children_def)



text \<open>
  A setter that redraws one primitive is not a redraw of the scene: the marker that
  \<^verbatim>\<open>setDialMarkerOpacity\<close> redraws is added again, after every other child.
\<close>

lemma setDialMarkerOpacity_reorders:
  assumes "mainContainer s = Some cs" "dialMarker s \<noteq> None" "0 \<le> a" "a \<le> 1"
  shows "mainContainer (setDialMarkerOpacity (JNumber a) s) = Some (remove1 DialMarker cs @ [DialMarker])"
  using assms by (simp add: setDialMarkerOpacity_def drawDialMarker_def addChild_def Let_def)

text \<open>
  The error path. A user who is no longer a GM redraws an instance that was built for a
  GM: the first redraw destroys the buttons and leaves them in the fields, the second
  throws at the first of them, before the weather text is drawn, with the group of time
  and calendar as the last child.
\<close>

lemma beforeButtons_last:
  assumes "mainContainer s \<noteq> None"
  shows "children (beforeButtons s) \<noteq> [] \<and> last (children (beforeButtons s)) = TimeCalendarContainer"
proof -
  have "mainContainer (drawDialMarker (drawRadialDialBackground
      (drawMainHudArea (drawTimeBar (clearInteractiveArea s))))) \<noteq> None"
    using assms by (simp add: early_frames)
  then show ?thesis
    unfolding beforeButtons_def
    by (cases "mainContainer (drawDialMarker (drawRadialDialBackground
          (drawMainHudArea (drawTimeBar (clearInteractiveArea s)))))")
      (simp_all add: drawTimeAndCalendarGroup_def Let_def addChild_def destroyChild_def
        children_def)
qed

lemma redrawAllElements_stale_below:
  assumes "mainContainer s \<noteq> None" and "stale (rewindHourButton s)" and "weatherText s \<noteq> None"
  shows "redrawAllElements h s = Threw TypeError (beforeButtons s) \<and>
         \<not> weatherTextOnTop (beforeButtons s)"
  using redrawAllElements_stale [OF assms(1,2), of h] beforeButtons_last [OF assms(1)] assms(3)
  by (simp add: weatherTextOnTop_def)

lemma construct_buttons_live:
  "isGM h \<Longrightarrow> \<exists>t. rewindHourButton (final (construct h)) = Some (Live t)"
proof -
  assume g: "isGM h"
  have "\<exists>t. rewindHourButton (final (redrawAllElements h
      (initPIXIApp (calculateScaledDimensions initialDial)))) = Some (Live t)"
    using construct_redraw [of h] g by (simp add: sceneDrawn_def createButton_def)
  then show ?thesis
    by (rule construct_invariant [where P = "\<lambda>x. \<exists>t. rewindHourButton x = Some (Live t)"])
      (simp_all add: updateTimeDisplay_frame updateCalendarDisplay_frame
        updateDialRotation_frame updateWeatherDisplay_frame ensureWeatherTextOnTop_frame)
qed

lemma demoted_gm_second_redraw_throws:
  "returned (redrawAllElements player (final (construct sampleHost))) \<and>
   (\<exists>x. redrawAllElements player
          (final (redrawAllElements player (final (construct sampleHost)))) = Threw TypeError x \<and>
        weatherText x \<noteq> None \<and> \<not> weatherTextOnTop x)"
proof -
  define s where "s = final (construct sampleHost)"
  define s1 where "s1 = final (redrawAllElements player s)"
  have m: "mainContainer s \<noteq> None" and n: "noStaleButtons s"
    unfolding s_def by (rule construct_mainContainer, rule construct_noStaleButtons)
  obtain t where t: "rewindHourButton s = Some (Live t)"
    using construct_buttons_live [of sampleHost] by (auto simp: s_def sampleHost_def)
  have r: "returned (redrawAllElements player s)" "s1 = redrawn player s"
    "weatherText s1 \<noteq> None" "mainContainer s1 \<noteq> None"
    using redrawAllElements_top [of s player] m n unfolding s1_def by blast+
  have "sceneDrawn player s s1" unfolding r(2) using m n by (rule redrawn_scene)
  then have "rewindHourButton s1 = Some (Destroyed t)"
    by (simp add: sceneDrawn_def player_def t killed_def)
  then have st: "stale (rewindHourButton s1)" by (simp add: stale_def)
  have "weatherText (beforeButtons s1) \<noteq> None"
    using r(3) by (simp add: beforeButtons_def early_frames)
  with redrawAllElements_stale_below [OF r(4) st r(3), of player] r(1)
  show ?thesis unfolding s1_def s_def by blast
qed


section \<open>Calendar display\<close>

text \<open>
  When the global \<^verbatim>\<open>SimpleCalendar\<close> is declared whenever the module is active,
  \<^verbatim>\<open>updateCalendarDisplay\<close> returns and writes a placeholder or the date.
\<close>

lemma updateCalendarDisplay_placeholders:
  assumes "calendarText s = Some c" and "scActive h \<longrightarrow> simpleCalendar h \<noteq> Undeclared"
  shows "updateCalendarDisplay h s =
           Returned (s\<lparr>calendarText := Some (c\<lparr>textValue :=
             (if \<not> scActive h then ''SC not active''
              else case simpleCalendar h of
                     DeclaredWithApi ApiThrows \<Rightarrow> ''SC: API Err''
                   | DeclaredWithApi ApiReturnsNothing \<Rightarrow> ''SC: No object''
                   | DeclaredWithApi (ApiReturns d) \<Rightarrow> displayDate d
                   | _ \<Rightarrow> ''SC not active'')\<rparr>)\<rparr>)"
  using assms
  by (cases "simpleCalendar h")
    (auto simp: updateCalendarDisplay_def setCalendarText_def calendarString_def
      split: apiResult.splits)

lemma displayDate_no_date:
  "\<not> truthy (date d) \<Longrightarrow> \<not> (truthy (day d) \<and> truthy (monthName d) \<and> truthy (year d)) \<Longrightarrow>
   displayDate d = ''SC: No date''"
  by (auto simp: displayDate_def)

text \<open>
  C9. The claim is that \<^verbatim>\<open>updateCalendarDisplay\<close> never propagates a failure of the
  calendar collaborator. When the module is active and the global \<^verbatim>\<open>SimpleCalendar\<close> is
  not declared, the condition before the \<^verbatim>\<open>try\<close> throws a \<^verbatim>\<open>ReferenceError\<close>, and the
  calendar text is left as it was. (The constructor guards its own use of the global
  with \<^verbatim>\<open>typeof SimpleCalendar !== 'undefined'\<close>.)
\<close>

theorem updateCalendarDisplay_undeclared_global:
  "updateCalendarDisplay (h\<lparr>scActive := True, simpleCalendar := Undeclared\<rparr>)
     (s\<lparr>calendarText := Some c\<rparr>) =
   Threw ReferenceError (s\<lparr>calendarText := Some c\<rparr>)"
  by (simp add: updateCalendarDisplay_def)

section \<open>Weather dialog\<close>

lemma currentWeather_ensure:
  "currentWeather (final (ensureWeatherTextOnTop x)) = currentWeather x \<and>
   map_option textValue (weatherText (final (ensureWeatherTextOnTop x))) =
     map_option textValue (weatherText x) \<and>
   notifications (final (ensureWeatherTextOnTop x)) = notifications x \<and>
   persisted (final (ensureWeatherTextOnTop x)) = persisted x \<and>
   emitted (final (ensureWeatherTextOnTop x)) = emitted x"
  by (simp add: ensureWeatherTextOnTop_def split: option.splits sum.splits)

lemma updateWeatherDisplay_label:
  "currentWeather (final (updateWeatherDisplay (JString w) (s\<lparr>currentWeather := w\<rparr>))) = w \<and>
   (weatherText s \<noteq> None \<longrightarrow>
      map_option textValue
        (weatherText (final (updateWeatherDisplay (JString w) (s\<lparr>currentWeather := w\<rparr>)))) =
      Some (toUpperCase w)) \<and>
   notifications (final (updateWeatherDisplay (JString w) (s\<lparr>currentWeather := w\<rparr>))) = notifications s \<and>
   persisted (final (updateWeatherDisplay (JString w) (s\<lparr>currentWeather := w\<rparr>))) = persisted s \<and>
   emitted (final (updateWeatherDisplay (JString w) (s\<lparr>currentWeather := w\<rparr>))) = emitted s"
  by (cases "weatherText s") (simp_all add: updateWeatherDisplay_def currentWeather_ensure)

text \<open>
  C6, as amended. The change check of the weather dialog is exact, case-sensitive
  inequality between the new label (the trimmed custom input, or the selected option
  when that is empty) and the label read when the dialog opened; the comparison without
  case only marks the selected option of the quick selection. When the check passes,
  the stored label is the new label with its case, the weather text, if it exists,
  shows it in upper case, and, the weather text being attached, the label is persisted
  and broadcast. When it does not pass, nothing changes.
\<close>

theorem weatherDialogUpdate_change_check:
  "(newLabel customValue selectValue \<noteq> [] \<and> newLabel customValue selectValue \<noteq> opened \<longrightarrow>
      currentWeather (final (weatherDialogUpdate h opened customValue selectValue s)) =
        newLabel customValue selectValue \<and>
      (weatherText s \<noteq> None \<longrightarrow>
         map_option textValue
           (weatherText (final (weatherDialogUpdate h opened customValue selectValue s))) =
         Some (toUpperCase (newLabel customValue selectValue))) \<and>
      (weatherTextAttached s \<longrightarrow>
         emitted (final (weatherDialogUpdate h opened customValue selectValue s)) =
           emitted s @ [\<lparr>msgType = ''weather-update'',
                         msgWeather = newLabel customValue selectValue,
                         msgUserId = userId h\<rparr>] \<and>
         persisted (final (weatherDialogUpdate h opened customValue selectValue s)) =
           persisted s @ [newLabel customValue selectValue])) \<and>
   (newLabel customValue selectValue = [] \<or> newLabel customValue selectValue = opened \<longrightarrow>
      weatherDialogUpdate h opened customValue selectValue s = Returned s) \<and>
   optionSelected weather opened = (toLowerCase weather = toLowerCase opened)"
proof -
  let ?w = "newLabel customValue selectValue"
  let ?u = "updateWeatherDisplay (JString ?w) (s\<lparr>currentWeather := ?w\<rparr>)"
  have a: "weatherTextAttached (s\<lparr>currentWeather := ?w\<rparr>)" if "weatherTextAttached s"
    using that by (simp add: weatherTextAttached_def children_def)
  have r: "\<exists>s1. ?u = Returned s1" if "weatherTextAttached s"
    using updateWeatherDisplay_top [OF a [OF that], of "JString ?w"] by (cases ?u) simp_all
  show ?thesis
    using updateWeatherDisplay_label [of ?w s] r
    by (cases ?u) (auto simp: weatherDialogUpdate_def newLabel_def Let_def optionSelected_def)
qed

lemma construct_loads_weather:
  assumes "gameReady h" "savedWeather h \<noteq> []" "\<not> scActive h"
  shows "currentWeather (final (construct h)) = savedWeather h"
proof -
  define s0 where "s0 = initPIXIApp (calculateScaledDimensions initialDial)"
  have "mainContainer s0 \<noteq> None" "noStaleButtons s0"
    by (simp_all add: s0_def initPIXIApp_def calculateScaledDimensions_def initialDial_def
        noStaleButtons_def stale_def)
  then have "returned (redrawAllElements h s0)"
    using redrawAllElements_top [of s0 h] by blast
  then obtain s1 where s1: "redrawAllElements h s0 = Returned s1"
    by (cases "redrawAllElements h s0") simp_all
  have "returned (updateCalendarDisplay h (updateTimeDisplay h s1))"
    using assms(3) by (simp add: updateCalendarDisplay_def)
  then obtain s2 where s2: "updateCalendarDisplay h (updateTimeDisplay h s1) = Returned s2"
    by (cases "updateCalendarDisplay h (updateTimeDisplay h s1)") simp_all
  define s3 where "s3 = updateDialRotation h s2"
  have c: "construct h = loadWeatherFromFlag h s3"
    using assms(1) by (simp add: construct_def s0_def [symmetric] s1 s2 s3_def Let_def)
  have "currentWeather (final (andThen
          (updateWeatherDisplay (JString (savedWeather h)) (s3\<lparr>currentWeather := savedWeather h\<rparr>))
          ensureWeatherTextOnTop)) = savedWeather h"
    by (rule final_andThen)
      (simp_all add: updateWeatherDisplay_label currentWeather_ensure)
  then show ?thesis using assms(2) by (simp add: c loadWeatherFromFlag_def)
qed

lemma sampleHost_weather: "currentWeather (final (construct sampleHost)) = ''Rainy''"
  using construct_loads_weather [of sampleHost] by (simp add: sampleHost_def)

text \<open>
  The input \<open>stormy\<close> with spaces around it is stored as \<open>stormy\<close> and displayed as
  \<open>STORMY\<close>; the input \<open>Rainy\<close>, the label the dialog opened with, changes nothing.
\<close>

theorem weatherDialogUpdate_change_check_witness:
  "map_option textValue
     (weatherText (final (weatherDialogUpdate sampleHost ''Rainy'' '' stormy '' ''Rainy''
        (final (construct sampleHost))))) = Some ''STORMY'' \<and>
   currentWeather (final (weatherDialogUpdate sampleHost ''Rainy'' '' stormy '' ''Rainy''
        (final (construct sampleHost)))) = ''stormy'' \<and>
   weatherDialogUpdate sampleHost ''Rainy'' ''Rainy'' ''Rainy'' (final (construct sampleHost)) =
     Returned (final (construct sampleHost))"
proof -
  have n: "newLabel '' stormy '' ''Rainy'' = ''stormy''" "newLabel ''Rainy'' ''Rainy'' = ''Rainy''"
    by (simp_all add: newLabel_def trim_def is_space_def Let_def)
  have u: "toUpperCase ''stormy'' = ''STORMY''"
    by (simp add: toUpperCase_def upper_char_def lower_letters_def upper_letters_def)
  from construct_top [of sampleHost] n u
    weatherDialogUpdate_change_check [of "'' stormy ''" "''Rainy''" "''Rainy''" sampleHost
      "final (construct sampleHost)"]
    weatherDialogUpdate_change_check [of "''Rainy''" "''Rainy''" "''Rainy''" sampleHost
      "final (construct sampleHost)"]
  show ?thesis by simp
qed

text \<open>
  C6, as stated, fails: with the stored label \<open>Rainy\<close>, the input \<open>rainy\<close> is equal to
  it without case, and still the callback takes it for a change: the stored label
  becomes \<open>rainy\<close>.
\<close>

theorem weatherDialogUpdate_case_sensitive:
  "currentWeather (final (construct sampleHost)) = ''Rainy'' \<and>
   toLowerCase ''rainy'' = toLowerCase ''Rainy'' \<and>
   weatherDialogUpdate sampleHost ''Rainy'' ''rainy'' ''Rainy'' (final (construct sampleHost)) \<noteq>
     Returned (final (construct sampleHost)) \<and>
   currentWeather (final (weatherDialogUpdate sampleHost ''Rainy'' ''rainy'' ''Rainy''
     (final (construct sampleHost)))) = ''rainy'' \<and>
   map_option textValue (weatherText (final (weatherDialogUpdate sampleHost ''Rainy'' ''rainy''
     ''Rainy'' (final (construct sampleHost))))) = Some ''RAINY''"
proof -
  let ?s = "final (construct sampleHost)"
  let ?r = "weatherDialogUpdate sampleHost ''Rainy'' ''rainy'' ''Rainy'' ?s"
  have l: "toLowerCase ''rainy'' = toLowerCase ''Rainy''"
    by (simp add: toLowerCase_def lower_char_def lower_letters_def upper_letters_def)
  have u: "toUpperCase ''rainy'' = ''RAINY''"
    by (simp add: toUpperCase_def upper_char_def lower_letters_def upper_letters_def)
  have t: "newLabel ''rainy'' ''Rainy'' = ''rainy''"
    by (simp add: newLabel_def trim_def is_space_def Let_def)
  define out where "out = updateWeatherDisplay (JString ''rainy'') (?s\<lparr>currentWeather := ''rainy''\<rparr>)"
  have w: "weatherText ?s \<noteq> None" using construct_top [of sampleHost] by simp
  have c: "currentWeather (final ?r) = ''rainy''"
    and x: "map_option textValue (weatherText (final ?r)) = Some ''RAINY''"
    using t u w updateWeatherDisplay_label [of "''rainy''" ?s]
    by (cases out; simp add: weatherDialogUpdate_def Let_def out_def)+
  have "?r \<noteq> Returned ?s"
  proof
    assume "?r = Returned ?s"
    with c sampleHost_weather show False by simp
  qed
  with l c x sampleHost_weather show ?thesis by simp
qed


section \<open>Weather broadcasts\<close>

text \<open>
  C8. A broadcast whose user id is the local user's leaves the instance as it is; a
  weather update from another user is applied.
\<close>

theorem socketHandler_self_echo:
  "(msgUserId data = userId h \<longrightarrow> socketHandler h data s = Returned s) \<and>
   (msgType data = ''weather-update'' \<and> msgUserId data \<noteq> userId h \<longrightarrow>
      currentWeather (final (socketHandler h data s)) = msgWeather data)"
proof -
  have e: "currentWeather (final (ensureWeatherTextOnTop x)) = currentWeather x" for x
    by (simp add: ensureWeatherTextOnTop_def split: option.splits sum.splits)
  have u: "currentWeather (final (updateWeatherDisplay (JString w) x)) =
             (if weatherText x = None then currentWeather x else w)" for w x
    by (simp add: updateWeatherDisplay_def e)
  have "currentWeather (final (andThen (updateWeatherDisplay (JString w) (x\<lparr>currentWeather := w\<rparr>))
           ensureWeatherTextOnTop)) = w" for w x
    by (rule final_andThen) (simp_all add: u e)
  then show ?thesis by (simp add: socketHandler_def)
qed

text \<open>A broadcast from the sample host's own user, and one from a player.\<close>

theorem socketHandler_self_echo_witness:
  "socketHandler sampleHost
     \<lparr>msgType = ''weather-update'', msgWeather = ''Stormy'', msgUserId = ''gm''\<rparr>
     (final (construct sampleHost)) = Returned (final (construct sampleHost)) \<and>
   currentWeather (final (socketHandler sampleHost
     \<lparr>msgType = ''weather-update'', msgWeather = ''Stormy'', msgUserId = ''player''\<rparr>
     (final (construct sampleHost)))) = ''Stormy''"
  using socketHandler_self_echo
      [of "\<lparr>msgType = ''weather-update'', msgWeather = ''Stormy'', msgUserId = ''gm''\<rparr>"
        sampleHost "final (construct sampleHost)"]
    socketHandler_self_echo
      [of "\<lparr>msgType = ''weather-update'', msgWeather = ''Stormy'', msgUserId = ''player''\<rparr>"
        sampleHost "final (construct sampleHost)"]
  by (simp add: sampleHost_def)


section \<open>Global UI size\<close>
























text \<open>
  The error path: with a destroyed button in a field, the scale is stored and the
  redraw throws before the buttons are drawn.
\<close>

lemma setGlobalUiSize_stale:
  assumes "0 < scale" "mainContainer s \<noteq> None" "pixiApp s \<noteq> None"
    and "stale (rewindHourButton s)"
  shows "setGlobalUiSize h (JNumber scale) s =
           Threw TypeError (beforeButtons (rescaled scale s)) \<and>
         globalUiScale (beforeButtons (rescaled scale s)) = scale"
proof -
  have "mainContainer (rescaled scale s) \<noteq> None" "stale (rewindHourButton (rescaled scale s))"
    using assms(2-4) by (simp_all add: rescaled_frame)
  then have "redrawAllElements h (rescaled scale s) =
      Threw TypeError (beforeButtons (rescaled scale s))"
    using redrawAllElements_stale [of "rescaled scale s" h] by simp
  then show ?thesis
    by (simp add: setGlobalUiSize_steps [OF assms(1)] beforeButtons_def early_frames
        rescaled_frame)
qed





end
